theory Spec2Isabelle
  imports Main
begin

section \<open>Values of the descriptor stores\<close>

text \<open>
  The three stores of \<^verbatim>\<open>verhel.py\<close> (projects, frontends, backends) hold what
  \<^verbatim>\<open>json.loads\<close> returns: \<^verbatim>\<open>None\<close>, booleans, integers, strings, lists and
  dictionaries with string keys. A dictionary keeps the insertion order of its keys, so it
  is an association list; the values built by the program have pairwise distinct keys.
  Text is a sequence of characters with code points below 256, one \<open>char\<close> per
  character; text with other characters is not part of this value type, and neither are
  JSON numbers with a fraction or an exponent (Python floats).
\<close>

datatype json =
    JNull
  | JBool bool
  | JInt int
  | JStr string
  | JList "json list"
  | JObj "(string \<times> json) list"

type_synonym dict = "(string \<times> json) list"

text \<open>\<^verbatim>\<open>d.get(k)\<close>: the value under \<open>k\<close>, \<^verbatim>\<open>None\<close> when the key is absent.\<close>

definition dict_get :: "dict \<Rightarrow> string \<Rightarrow> json" where
  "dict_get d k = (case map_of d k of None \<Rightarrow> JNull | Some v \<Rightarrow> v)"

text \<open>\<^verbatim>\<open>d[k] = v\<close>: an existing key keeps its position, a new key goes last.\<close>

primrec dict_set :: "dict \<Rightarrow> string \<Rightarrow> json \<Rightarrow> dict" where
  "dict_set [] k v = [(k, v)]"
| "dict_set (p # ps) k v = (if fst p = k then (k, v) # ps else p # dict_set ps k v)"

definition dict_keys :: "dict \<Rightarrow> string list" where
  "dict_keys d = map fst d"

text \<open>\<^verbatim>\<open>type(v).__name__\<close>.\<close>

fun type_name :: "json \<Rightarrow> string" where
  "type_name JNull = ''NoneType''"
| "type_name (JBool _) = ''bool''"
| "type_name (JInt _) = ''int''"
| "type_name (JStr _) = ''str''"
| "type_name (JList _) = ''list''"
| "type_name (JObj _) = ''dict''"

subsection \<open>Python's \<^verbatim>\<open>==\<close> on these values\<close>

text \<open>
  \<^verbatim>\<open>True == 1\<close> and \<^verbatim>\<open>False == 0\<close> hold in Python; lists compare element by element,
  dictionaries as finite maps (the order of the keys does not matter).
\<close>

fun py_eq :: "json \<Rightarrow> json \<Rightarrow> bool"
  and py_eq_list :: "json list \<Rightarrow> json list \<Rightarrow> bool"
  and py_eq_items :: "dict \<Rightarrow> dict \<Rightarrow> bool" where
  "py_eq JNull JNull = True"
| "py_eq (JBool a) (JBool b) = (a = b)"
| "py_eq (JBool a) (JInt j) = (j = (if a then 1 else 0))"
| "py_eq (JInt i) (JBool b) = (i = (if b then 1 else 0))"
| "py_eq (JInt i) (JInt j) = (i = j)"
| "py_eq (JStr s) (JStr t) = (s = t)"
| "py_eq (JList xs) (JList ys) = py_eq_list xs ys"
| "py_eq (JObj a) (JObj b) = (length a = length b \<and> py_eq_items a b)"
| "py_eq _ _ = False"
| "py_eq_list [] [] = True"
| "py_eq_list (x # xs) (y # ys) = (py_eq x y \<and> py_eq_list xs ys)"
| "py_eq_list _ _ = False"
| "py_eq_items [] b = True"
| "py_eq_items (p # a) b =
     ((case map_of b (fst p) of None \<Rightarrow> False | Some w \<Rightarrow> py_eq (snd p) w) \<and> py_eq_items a b)"

subsection \<open>Python's \<^verbatim>\<open>str\<close> and \<^verbatim>\<open>repr\<close>\<close>

fun str_nat :: "nat \<Rightarrow> string" where
  "str_nat n = (if n < 10 then [''0123456789'' ! n]
                else str_nat (n div 10) @ [''0123456789'' ! (n mod 10)])"

declare str_nat.simps [simp del]

definition str_int :: "int \<Rightarrow> string" where
  "str_int i = (if i < 0 then CHR ''-'' # str_nat (nat (- i)) else str_nat (nat i))"

definition hex2 :: "nat \<Rightarrow> string" where
  "hex2 n = [''0123456789abcdef'' ! ((n div 16) mod 16), ''0123456789abcdef'' ! (n mod 16)]"

text \<open>
  \<^verbatim>\<open>repr\<close> of a string: single quotes, unless the text has a single quote and no double
  quote; the quote in use and the backslash are escaped, tab, newline and carriage return
  are written \<^verbatim>\<open>\t \n \r\<close>, the other characters that are not printable (the
  control characters, the no-break space and the soft hyphen) \<^verbatim>\<open>\xNN\<close>.
\<close>

definition repr_char :: "char \<Rightarrow> char \<Rightarrow> string" where
  "repr_char q c =
     (if c = q \<or> c = CHR 0x5C then [CHR 0x5C, c]
      else if c = CHR 0x09 then [CHR 0x5C, CHR ''t'']
      else if c = CHR 0x0A then [CHR 0x5C, CHR ''n'']
      else if c = CHR 0x0D then [CHR 0x5C, CHR ''r'']
      else if (of_char c :: nat) < 32 \<or> (127 \<le> (of_char c :: nat) \<and> (of_char c :: nat) \<le> 160)
              \<or> (of_char c :: nat) = 173
        then [CHR 0x5C, CHR ''x''] @ hex2 (of_char c)
      else [c])"

definition repr_str :: "string \<Rightarrow> string" where
  "repr_str s =
     (let q = (if CHR 0x27 \<in> set s \<and> CHR 0x22 \<notin> set s then CHR 0x22 else CHR 0x27)
      in [q] @ concat (map (repr_char q) s) @ [q])"

fun py_repr :: "json \<Rightarrow> string"
  and py_repr_elems :: "json list \<Rightarrow> string"
  and py_repr_items :: "dict \<Rightarrow> string" where
  "py_repr JNull = ''None''"
| "py_repr (JBool b) = (if b then ''True'' else ''False'')"
| "py_repr (JInt i) = str_int i"
| "py_repr (JStr s) = repr_str s"
| "py_repr (JList xs) = ''['' @ py_repr_elems xs @ '']''"
| "py_repr (JObj d) = ''{'' @ py_repr_items d @ ''}''"
| "py_repr_elems [] = []"
| "py_repr_elems [x] = py_repr x"
| "py_repr_elems (x # y # ys) = py_repr x @ '', '' @ py_repr_elems (y # ys)"
| "py_repr_items [] = []"
| "py_repr_items [p] = repr_str (fst p) @ '': '' @ py_repr (snd p)"
| "py_repr_items (p # r # rs) =
     repr_str (fst p) @ '': '' @ py_repr (snd p) @ '', '' @ py_repr_items (r # rs)"

text \<open>\<^verbatim>\<open>str(v)\<close>, which is also what the replacement field \<^verbatim>\<open>{}\<close> of \<^verbatim>\<open>str.format\<close> writes.\<close>

definition py_str :: "json \<Rightarrow> string" where
  "py_str v = (case v of JStr s \<Rightarrow> s | _ \<Rightarrow> py_repr v)"

text \<open>
  \<^verbatim>\<open>ascii(v)\<close> is \<^verbatim>\<open>repr(v)\<close> with every character above 127 written \<^verbatim>\<open>\xNN\<close>:
  \<open>ascii_escape\<close> is the second step.
\<close>

definition ascii_escape :: "string \<Rightarrow> string" where
  "ascii_escape s =
     concat (map (\<lambda>c. if (of_char c :: nat) < 128 then [c]
                         else [CHR 0x5C, CHR ''x''] @ hex2 (of_char c)) s)"

section \<open>Project descriptors\<close>

text \<open>The keys of \<^verbatim>\<open>empty_project()\<close> and \<^verbatim>\<open>default_project()\<close>, in source order.\<close>

definition empty_project :: dict where
  "empty_project =
     [(''backends'', JList []),
      (''exclude'', JList []),
      (''frontend'', JNull),
      (''license.spdx'', JNull),
      (''license.file'', JNull),
      (''project.name'', JNull),
      (''project.author'', JNull),
      (''project.copyright'', JNull),
      (''project.description'', JNull),
      (''project.directory'', JNull),
      (''version.major'', JNull),
      (''version.minor'', JNull),
      (''version.patch'', JNull),
      (''version.pre_release'', JNull)]"

definition default_project :: dict where
  "default_project =
     [(''backends'', JList []),
      (''exclude'', JList []),
      (''frontend'', JStr ''''),
      (''license.spdx'', JStr ''''),
      (''license.file'', JStr ''''),
      (''project.name'', JStr ''''),
      (''project.author'', JStr ''''),
      (''project.copyright'', JStr ''''),
      (''project.description'', JStr ''''),
      (''project.directory'', JStr ''''),
      (''version.major'', JInt 0),
      (''version.minor'', JInt 1),
      (''version.patch'', JInt 0),
      (''version.pre_release'', JStr '''')]"

section \<open>Cooking\<close>

text \<open>What \<^verbatim>\<open>get_build_info()\<close> returns: the two keys \<^verbatim>\<open>date\<close> and \<^verbatim>\<open>time\<close>.\<close>

record build_info =
  date :: string
  time :: string

text \<open>The inner function \<^verbatim>\<open>dget(key, default_value)\<close> of \<^verbatim>\<open>cook_info\<close>.\<close>

definition dget :: "dict \<Rightarrow> string \<Rightarrow> json \<Rightarrow> json" where
  "dget desc key default_value =
     (let v = dict_get desc key in
      if v = JNull then
        (if default_value = JNull then dict_get default_project key else default_value)
      else v)"

text \<open>\<^verbatim>\<open>"{}.{}.{}-{}".format(a, b, c, d)\<close> and \<^verbatim>\<open>"{}.{}.{}".format(a, b, c)\<close>.\<close>

definition version_string4 :: "json \<Rightarrow> json \<Rightarrow> json \<Rightarrow> json \<Rightarrow> string" where
  "version_string4 a b c d = py_str a @ ''.'' @ py_str b @ ''.'' @ py_str c @ ''-'' @ py_str d"

definition version_string3 :: "json \<Rightarrow> json \<Rightarrow> json \<Rightarrow> string" where
  "version_string3 a b c = py_str a @ ''.'' @ py_str b @ ''.'' @ py_str c"

text \<open>
  \<^verbatim>\<open>cook_info(project_name, desc, build_info, vcs_info)\<close>. The current working directory
  (\<^verbatim>\<open>pathlib.Path.cwd().as_posix()\<close>) is the argument \<open>cwd\<close>. The assignments to
  \<^verbatim>\<open>info\<close> are kept in the order of the source.
\<close>

definition cook_version :: "dict \<Rightarrow> dict" where
  "cook_version desc =
     (let info = [];
          info = dict_set info ''version.major'' (dict_get desc ''version.major'');
          info = dict_set info ''version.minor'' (dict_get desc ''version.minor'');
          info = dict_set info ''version.patch'' (dict_get desc ''version.patch'');
          info = dict_set info ''version.pre_release'' (dict_get desc ''version.pre_release'')
      in
        if dict_get desc ''version.pre_release'' \<noteq> JNull then
          dict_set info ''version.string''
            (JStr (version_string4 (dict_get desc ''version.major'')
                     (dict_get desc ''version.minor'') (dict_get desc ''version.patch'')
                     (dict_get desc ''version.pre_release'')))
        else
          dict_set
            (dict_set info ''version.string''
               (JStr (version_string3 (dict_get desc ''version.major'')
                        (dict_get desc ''version.minor'') (dict_get desc ''version.patch''))))
            ''version.pre_release'' (JStr ''''))"

definition cook_info :: "string \<Rightarrow> dict \<Rightarrow> build_info \<Rightarrow> dict \<Rightarrow> string \<Rightarrow> dict" where
  "cook_info project_name desc bi vcs_info cwd =
     (let info = cook_version desc;
          info = dict_set info ''project.name'' (dget desc ''project.name'' (JStr project_name));
          info = dict_set info ''project.author'' (dget desc ''project.author'' JNull);
          info = dict_set info ''project.license'' (dget desc ''license.spdx'' JNull);
          info = dict_set info ''project.copyright'' (dget desc ''project.copyright'' JNull);
          info = dict_set info ''project.company'' (dget desc ''project.company'' JNull);
          info = dict_set info ''project.description'' (dget desc ''project.description'' JNull);
          info = dict_set info ''project.directory'' (dget desc ''project.directory'' JNull);
          info = dict_set info ''project.path'' (JStr cwd);
          info = dict_set info ''license.spdx'' (dict_get desc ''license.spdx'');
          info = dict_set info ''license.file'' (dict_get desc ''license.file'');
          info = dict_set info ''build.date'' (JStr (date bi));
          info = dict_set info ''build.time'' (JStr (time bi));
          info = dict_set info ''vcs.name'' (dget desc ''frontend'' JNull);
          info = dict_set info ''vcs.commit_hash'' (dict_get vcs_info ''commit_hash'');
          info = dict_set info ''vcs.short_hash'' (dict_get vcs_info ''short_hash'');
          info = dict_set info ''vcs.branch'' (dict_get vcs_info ''branch'');
          info = dict_set info ''vcs.tag'' (dict_get vcs_info ''tag'');
          info = dict_set info ''vcs.commit_count'' (dict_get vcs_info ''commit_count'')
      in info)"

section \<open>Exit codes, exceptions and the log\<close>

datatype exit_code =
    SUCCESS
  | FAILED_TO_LOAD_PROJECTS
  | FAILED_TO_SAVE_PROJECTS
  | FAILED_TO_LOAD_FRONTENDS
  | FAILED_TO_LOAD_BACKENDS
  | PROJECT_DOESNT_EXISTS
  | PROJECT_ALREADY_EXISTS
  | PROJECT_VALIDATION_FAILED
  | FRONTEND_DOESNT_EXISTS
  | BACKEND_DOESNT_EXISTS
  | FAILED_TO_ENTER_PROJECT_DIR
  | VERSION_CONTROL_NOT_INSTALLED
  | REPO_DOESNT_EXISTS
  | INVALID_KEY
  | INVALID_VALUE
  | VERSION_IS_NULL

text \<open>
  An exception leaving a method: \<^verbatim>\<open>VerHelError(error_code)\<close>, or a built-in Python
  exception, given by its class name and its message. \<open>Unmodelled\<close> marks a use of the
  Python library that this development does not describe.
\<close>

datatype exn =
    VerHelError exit_code
  | PyError string string
  | Unmodelled string

text \<open>
  The class \<^verbatim>\<open>Log\<close> hands every message to its backends. The model keeps the
  messages of one call in order, each with its \<^verbatim>\<open>LogType\<close>.
\<close>

datatype log_type = DEBUG | INFO | LOG_SUCCESS | WARNING | ERROR | FATAL

type_synonym log_entry = "log_type \<times> string"

text \<open>\<^verbatim>\<open>"'{}'".format(s)\<close>: the text between single quotes.\<close>

definition quoted :: "string \<Rightarrow> string" where
  "quoted s = [CHR 0x27] @ s @ [CHR 0x27]"

section \<open>Validation\<close>

text \<open>
  Inside the \<^verbatim>\<open>try\<close> block of \<^verbatim>\<open>validate_project\<close> every exception is caught, its
  message is logged and \<^verbatim>\<open>VerHelError(PROJECT_VALIDATION_FAILED)\<close> is raised, so a step
  of the block is a \<open>string option\<close>: \<open>Some msg\<close> when it raises with message \<open>msg\<close>.
  \<open>and_then a b\<close> runs \<open>b\<close> when \<open>a\<close> did not raise.
\<close>

definition and_then :: "string option \<Rightarrow> string option \<Rightarrow> string option" where
  "and_then a b = (case a of Some e \<Rightarrow> Some e | None \<Rightarrow> b)"

text \<open>The inner function \<^verbatim>\<open>check(desc, key, expected_type)\<close>; null is allowed.\<close>

definition check :: "dict \<Rightarrow> string \<Rightarrow> json \<Rightarrow> string option" where
  "check desc key expected =
     (let ty = type_name (dict_get desc key) in
      if ty \<noteq> type_name expected \<and> ty \<noteq> type_name JNull then
        Some (''invalid type for key '' @ quoted key @ '' expected '' @
              quoted (type_name expected) @ '' found '' @ quoted ty)
      else None)"

text \<open>
  The expected types \<^verbatim>\<open>int\<close>, \<^verbatim>\<open>str\<close> and \<^verbatim>\<open>list\<close> are given by a value of that
  type.
\<close>

abbreviation py_int :: json where "py_int \<equiv> JInt 0"
abbreviation py_string :: json where "py_string \<equiv> JStr []"
abbreviation py_list :: json where "py_list \<equiv> JList []"

text \<open>\<^verbatim>\<open>xs.index(x)\<close>: the first position whose element equals \<open>x\<close>.\<close>

fun py_index :: "json list \<Rightarrow> json \<Rightarrow> nat option" where
  "py_index [] x = None"
| "py_index (y # ys) x =
     (if py_eq y x then Some 0 else map_option Suc (py_index ys x))"

text \<open>The loop \<^verbatim>\<open>for name, output in bk.items()\<close> of the first pass over the backends.\<close>

fun check_backend_items :: "dict \<Rightarrow> dict \<Rightarrow> string option" where
  "check_backend_items bk [] = None"
| "check_backend_items bk (p # rest) =
     and_then (check bk (fst p) py_string)
       (and_then
          (if snd p = JNull
           then Some (''backend '' @ quoted (fst p) @ '' output is null'') else None)
          (check_backend_items bk rest))"

text \<open>The body of the first pass, for one element \<open>bk\<close> of \<^verbatim>\<open>backends_list\<close>.\<close>

definition check_backend_entry :: "json list \<Rightarrow> json \<Rightarrow> string option" where
  "check_backend_entry backends_list bk =
     (case py_index backends_list bk of
        None \<Rightarrow> Some (py_repr bk @ '' is not in list'')
      | Some index \<Rightarrow>
          (case bk of
             JObj items \<Rightarrow>
               if length items > 1 then
                 Some (''backend['' @ str_nat index @ ''] only one item in object is allowed'')
               else check_backend_items items items
           | _ \<Rightarrow> Some (''backend['' @ str_nat index @ ''] is not an object'')))"

fun check_backend_entries :: "json list \<Rightarrow> json list \<Rightarrow> string option" where
  "check_backend_entries backends_list [] = None"
| "check_backend_entries backends_list (bk # rest) =
     and_then (check_backend_entry backends_list bk) (check_backend_entries backends_list rest)"

text \<open>\<^verbatim>\<open>list(bk.keys())[0]\<close>, with the exception it raises on the left.\<close>

definition first_key :: "json \<Rightarrow> string + string" where
  "first_key bk =
     (case bk of
        JObj [] \<Rightarrow> Inl ''list index out of range''
      | JObj (p # _) \<Rightarrow> Inr (fst p)
      | _ \<Rightarrow> Inl (quoted (type_name bk) @ '' object has no attribute '' @ quoted ''keys''))"

text \<open>\<^verbatim>\<open>bk.get(key)\<close> on a value that need not be a dictionary.\<close>

definition py_get :: "json \<Rightarrow> string \<Rightarrow> string + json" where
  "py_get bk key =
     (case bk of
        JObj items \<Rightarrow> Inr (dict_get items key)
      | _ \<Rightarrow> Inl (quoted (type_name bk) @ '' object has no attribute '' @ quoted ''get''))"

text \<open>
  The inner loop \<^verbatim>\<open>for i in range(len(backends_list))\<close> of the duplicate check, for the
  entry at \<open>index\<close> with its \<open>name\<close> and \<open>output\<close>; the last argument is the part of the
  range still to visit.
\<close>

fun check_duplicates_inner ::
  "json list \<Rightarrow> nat \<Rightarrow> string \<Rightarrow> json \<Rightarrow> nat list \<Rightarrow> string option" where
  "check_duplicates_inner backends_list index name output [] = None"
| "check_duplicates_inner backends_list index name output (i # is) =
     (if i = index then check_duplicates_inner backends_list index name output is
      else
        (case py_get (backends_list ! i) name of
           Inl e \<Rightarrow> Some e
         | Inr v \<Rightarrow>
             if v \<noteq> JNull then Some (''duplicated backend '' @ quoted name)
             else
               (case first_key (backends_list ! i) of
                  Inl e \<Rightarrow> Some e
                | Inr other_name \<Rightarrow>
                    (case py_get (backends_list ! i) other_name of
                       Inl e \<Rightarrow> Some e
                     | Inr other_output \<Rightarrow>
                         if py_eq other_output output then
                           Some (''backends output '' @ quoted name @ '' and '' @
                                 quoted other_name @ '' override eachother'')
                         else
                           check_duplicates_inner backends_list index name output is))))"

text \<open>The body of the second pass, for one element \<open>bk\<close> of \<^verbatim>\<open>backends_list\<close>.\<close>

definition check_duplicates_entry :: "json list \<Rightarrow> json \<Rightarrow> string option" where
  "check_duplicates_entry backends_list bk =
     (case py_index backends_list bk of
        None \<Rightarrow> Some (py_repr bk @ '' is not in list'')
      | Some index \<Rightarrow>
          (case first_key bk of
             Inl e \<Rightarrow> Some e
           | Inr name \<Rightarrow>
               (case py_get bk name of
                  Inl e \<Rightarrow> Some e
                | Inr output \<Rightarrow>
                    check_duplicates_inner backends_list index name output
                      [0 ..< length backends_list])))"

fun check_duplicates :: "json list \<Rightarrow> json list \<Rightarrow> string option" where
  "check_duplicates backends_list [] = None"
| "check_duplicates backends_list (bk # rest) =
     and_then (check_duplicates_entry backends_list bk) (check_duplicates backends_list rest)"

text \<open>
  The part \<^verbatim>\<open># Check backends.\<close>: nothing is checked when the value is null; a value
  that is not a list raises in \<^verbatim>\<open>check\<close>.
\<close>

definition check_backends :: "dict \<Rightarrow> string option" where
  "check_backends desc =
     (case dict_get desc ''backends'' of
        JNull \<Rightarrow> None
      | JList backends_list \<Rightarrow>
          and_then (check_backend_entries backends_list backends_list)
            (check_duplicates backends_list backends_list)
      | _ \<Rightarrow> check desc ''backends'' py_list)"

text \<open>The whole \<^verbatim>\<open>try\<close> block of \<^verbatim>\<open>validate_project\<close>, on the value found in the store.\<close>

definition validate_checks :: "json \<Rightarrow> string option" where
  "validate_checks d =
     (case d of
        JObj desc \<Rightarrow>
          and_then (check desc ''version.major'' py_int)
         (and_then (check desc ''version.minor'' py_int)
         (and_then (check desc ''version.patch'' py_int)
         (and_then (check desc ''version.pre_release'' py_string)
         (and_then (check_backends desc)
         (and_then (check desc ''frontend'' py_string)
         (and_then (check desc ''license.spdx'' py_string)
         (and_then (check desc ''license.file'' py_string)
         (and_then (check desc ''project.author'' py_string)
         (and_then (check desc ''project.copyright'' py_string)
         (and_then (check desc ''project.company'' py_string)
         (and_then (check desc ''project.description'' py_string)
         (and_then (check desc ''project.directory'' py_string)
         (and_then (check desc ''project.name'' py_string)
                   (check desc ''exclude'' py_list))))))))))))))
      | _ \<Rightarrow> Some ''project description is not an object'')"

text \<open>The \<^verbatim>\<open>else\<close> branch: one warning for every key that \<^verbatim>\<open>empty_project()\<close> lacks.\<close>

definition dangling_warnings :: "dict \<Rightarrow> log_entry list" where
  "dangling_warnings desc =
     map (\<lambda>key. (WARNING, ''dangling property '' @ quoted key))
       (filter (\<lambda>key. key \<notin> set (dict_keys empty_project)) (dict_keys desc))"

text \<open>
  \<^verbatim>\<open>validate_project(project_name)\<close> on the store \<^verbatim>\<open>self.projects\<close>: the messages it
  logs, and the exception it raises or \<open>Inr ()\<close> when it returns.
\<close>

definition validate_project :: "dict \<Rightarrow> string \<Rightarrow> log_entry list \<times> (exn + unit)" where
  "validate_project projects project_name =
     (let desc = dict_get projects project_name;
          start = [(INFO, ''validating project '' @ quoted project_name)]
      in case validate_checks desc of
           Some e \<Rightarrow>
             (start @ [(ERROR, e),
                       (FATAL, ''failed to validate project '' @ quoted project_name)],
              Inl (VerHelError PROJECT_VALIDATION_FAILED))
         | None \<Rightarrow>
             (start @ (case desc of JObj items \<Rightarrow> dangling_warnings items | _ \<Rightarrow> []) @
                [(LOG_SUCCESS, ''project '' @ quoted project_name @ '' validated'')],
              Inr ()))"

subsection \<open>What the specification says about the backends list\<close>

text \<open>
  The backend names of an entry are its keys, its output paths are its values; an entry
  that is not an object has neither.
\<close>

definition entry_names :: "json \<Rightarrow> string set" where
  "entry_names e = (case e of JObj items \<Rightarrow> set (map fst items) | _ \<Rightarrow> {})"

definition entry_outputs :: "json \<Rightarrow> json set" where
  "entry_outputs e = (case e of JObj items \<Rightarrow> set (map snd items) | _ \<Rightarrow> {})"

definition single_key_object :: "json \<Rightarrow> bool" where
  "single_key_object e = (case e of JObj [p] \<Rightarrow> True | _ \<Rightarrow> False)"

text \<open>
  A backends list is bad when two of its entries share a backend name, or two of its
  entries share an output path, or an entry is not a single-key object, or an entry has a
  null output.
\<close>

definition bad_backends :: "json list \<Rightarrow> bool" where
  "bad_backends bl \<longleftrightarrow>
     (\<exists>i<length bl. \<exists>j<length bl. i \<noteq> j \<and> entry_names (bl ! i) \<inter> entry_names (bl ! j) \<noteq> {})
   \<or> (\<exists>i<length bl. \<exists>j<length bl. i \<noteq> j \<and> entry_outputs (bl ! i) \<inter> entry_outputs (bl ! j) \<noteq> {})
   \<or> (\<exists>e\<in>set bl. \<not> single_key_object e)
   \<or> (\<exists>e\<in>set bl. JNull \<in> entry_outputs e)"

text \<open>The entries that the first pass lets through, apart from the empty object.\<close>

definition good_entry :: "json \<Rightarrow> bool" where
  "good_entry e =
     (case e of JObj [p] \<Rightarrow> (case snd p of JStr s \<Rightarrow> True | _ \<Rightarrow> False) | _ \<Rightarrow> False)"

text \<open>\<^verbatim>\<open>d.pop(k)\<close>: the dictionary without the key \<open>k\<close>.\<close>

definition dict_pop :: "dict \<Rightarrow> string \<Rightarrow> dict" where
  "dict_pop d k = filter (\<lambda>p. fst p \<noteq> k) d"

section \<open>Global fallback\<close>

definition GLOBAL_DESC_NAME :: string where
  "GLOBAL_DESC_NAME = ''_Global''"

definition attribute_error :: "json \<Rightarrow> string \<Rightarrow> exn" where
  "attribute_error v attr =
     PyError ''AttributeError''
       (quoted (type_name v) @ '' object has no attribute '' @ quoted attr)"

text \<open>
  The loop \<^verbatim>\<open>for key, value in desc.items()\<close> of \<^verbatim>\<open>use_global_desc_values\<close>. The
  caller passes the descriptor object held by the store, so \<^verbatim>\<open>desc\<close> is given by the
  name of its project and \<^verbatim>\<open>glob_desc\<close> by the name of the global descriptor: both are
  read from the current store at every step, as the two Python references are, also when
  they are the same object. The last argument is the keys still to visit.
\<close>

fun use_global_loop ::
  "dict \<Rightarrow> string \<Rightarrow> string \<Rightarrow> string list \<Rightarrow> log_entry list \<times> (exn + dict)" where
  "use_global_loop projects project_name glob_name [] = ([], Inr projects)"
| "use_global_loop projects project_name glob_name (key # keys) =
     (case dict_get projects project_name of
        JObj desc \<Rightarrow>
          if dict_get desc key = JNull then
            (case dict_get projects glob_name of
               JObj glob_desc \<Rightarrow>
                 (let gvalue = dict_get glob_desc key;
                      projects' = dict_set projects project_name (JObj (dict_set desc key gvalue));
                      rest = use_global_loop projects' project_name glob_name keys
                  in ((INFO, ''using global value for '' @ quoted key @ '' new value: '' @
                             quoted (py_str gvalue)) # fst rest, snd rest))
             | g \<Rightarrow> ([], Inl (attribute_error g ''get'')))
          else use_global_loop projects project_name glob_name keys
      | d \<Rightarrow> ([], Inl (attribute_error d ''items'')))"

text \<open>
  \<^verbatim>\<open>use_global_desc_values(desc, glob_name)\<close> for the descriptor of \<open>project_name\<close>:
  the messages logged, and the store afterwards or the exception raised.
\<close>

definition use_global_desc_values ::
  "dict \<Rightarrow> string \<Rightarrow> string option \<Rightarrow> log_entry list \<times> (exn + dict)" where
  "use_global_desc_values projects project_name glob_name_opt =
     (let glob_name = (case glob_name_opt of None \<Rightarrow> GLOBAL_DESC_NAME | Some n \<Rightarrow> n)
      in if dict_get projects glob_name = JNull then ([], Inr projects)
         else
           (case dict_get projects project_name of
              JObj desc \<Rightarrow>
                (let r = use_global_loop projects project_name glob_name (dict_keys desc)
                 in ([(INFO, ''using global description '' @ quoted glob_name)] @ fst r @
                     (case snd r of
                        Inr _ \<Rightarrow> [(INFO, ''finished using global description'')]
                      | Inl _ \<Rightarrow> []),
                     snd r))
            | d \<Rightarrow>
                ([(INFO, ''using global description '' @ quoted glob_name)],
                 Inl (attribute_error d ''items''))))"

section \<open>Text helpers\<close>

text \<open>
  The white space of \<^verbatim>\<open>str.isspace\<close>, which \<^verbatim>\<open>str.strip\<close> and \<^verbatim>\<open>str.rstrip\<close>
  remove: the characters 9 to 13 and 28 to 32, the next-line character 133 and the no-break
  space 160.
\<close>

definition is_space :: "char \<Rightarrow> bool" where
  "is_space c =
     (let n = (of_char c :: nat)
      in (9 \<le> n \<and> n \<le> 13) \<or> (28 \<le> n \<and> n \<le> 32) \<or> n = 133 \<or> n = 160)"

definition py_rstrip :: "string \<Rightarrow> string" where
  "py_rstrip s = rev (dropWhile is_space (rev s))"

definition py_strip :: "string \<Rightarrow> string" where
  "py_strip s = dropWhile is_space (py_rstrip s)"

text \<open>
  The line boundaries of \<^verbatim>\<open>str.splitlines\<close>: the characters 10 to 13, 28 to 30 and 133;
  a carriage return followed by a line feed is one boundary.
\<close>

definition is_linebreak :: "char \<Rightarrow> bool" where
  "is_linebreak c =
     (let n = (of_char c :: nat) in (10 \<le> n \<and> n \<le> 13) \<or> (28 \<le> n \<and> n \<le> 30) \<or> n = 133)"

fun splitlines_from :: "string \<Rightarrow> string \<Rightarrow> string list" where
  "splitlines_from [] cur = (if cur = [] then [] else [cur])"
| "splitlines_from (c # cs) cur =
     (if c = CHR 0x0D then
        (case cs of
           d # r \<Rightarrow> if d = CHR 0x0A then cur # splitlines_from r []
                    else cur # splitlines_from cs []
         | [] \<Rightarrow> cur # splitlines_from cs [])
      else if is_linebreak c then cur # splitlines_from cs []
      else splitlines_from cs (cur @ [c]))"

definition py_splitlines :: "string \<Rightarrow> string list" where
  "py_splitlines s = splitlines_from s []"

text \<open>
  \<^verbatim>\<open>str.upper\<close>: the letters \<^verbatim>\<open>a\<close> to \<^verbatim>\<open>z\<close> and the letters 224 to 254 (but the
  division sign 247) move down by 32, the sharp s (223) becomes \<^verbatim>\<open>SS\<close>. The capitals of
  the micro sign (181) and of the y with diaeresis (255) have code points above 255: there
  the result is \<open>None\<close>.
\<close>

definition upper_char :: "char \<Rightarrow> string option" where
  "upper_char c =
     (let n = (of_char c :: nat)
      in if (97 \<le> n \<and> n \<le> 122) \<or> (224 \<le> n \<and> n \<le> 254 \<and> n \<noteq> 247) then Some [char_of (n - 32)]
         else if n = 223 then Some ''SS''
         else if n = 181 \<or> n = 255 then None
         else Some [c])"

fun py_upper :: "string \<Rightarrow> string option" where
  "py_upper [] = Some []"
| "py_upper (c # cs) =
     (case upper_char c of
        None \<Rightarrow> None
      | Some u \<Rightarrow> (case py_upper cs of None \<Rightarrow> None | Some r \<Rightarrow> Some (u @ r)))"

text \<open>
  \<^verbatim>\<open>str.lower\<close>: the letters \<^verbatim>\<open>A\<close> to \<^verbatim>\<open>Z\<close> and the letters 192 to 222 (but the
  multiplication sign 215) move up by 32.
\<close>

definition lower_char :: "char \<Rightarrow> char" where
  "lower_char c =
     (let n = (of_char c :: nat)
      in if (65 \<le> n \<and> n \<le> 90) \<or> (192 \<le> n \<and> n \<le> 222 \<and> n \<noteq> 215) then char_of (n + 32)
         else c)"

definition py_lower :: "string \<Rightarrow> string" where
  "py_lower s = map lower_char s"

definition is_digit :: "char \<Rightarrow> bool" where
  "is_digit c = (let n = (of_char c :: nat) in 48 \<le> n \<and> n \<le> 57)"

definition digit_value :: "char \<Rightarrow> nat" where
  "digit_value c = (of_char c :: nat) - 48"

text \<open>The value of a string of decimal digits.\<close>

definition int_of_digits :: "string \<Rightarrow> int" where
  "int_of_digits s = foldl (\<lambda>acc c. 10 * acc + int (digit_value c)) 0 s"

section \<open>The formatter\<close>

text \<open>
  \<^verbatim>\<open>VerHelFormatter\<close> is \<^verbatim>\<open>string.Formatter\<close> with the two extra conversions
  \<^verbatim>\<open>!u\<close> and \<^verbatim>\<open>!l\<close>. A format string is a sequence of literal characters and
  replacement fields \<^verbatim>\<open>{name!conversion:spec}\<close>; \<^verbatim>\<open>{{\<close> and \<^verbatim>\<open>}}\<close> are literal
  braces. The parser is the one of CPython 3 (\<^verbatim>\<open>MarkupIterator_next\<close> and
  \<^verbatim>\<open>parse_field\<close> of \<^verbatim>\<open>unicode_format.h\<close>). It is lazy: an error in the format
  string is raised when the text before it has been rendered, so an error is a token of
  its own, and the last one.
\<close>

datatype token =
    TLit char
  | TField string "char option" string
  | TError string

text \<open>
  \<open>tokenize\<close> reads literal text, \<open>field_name_scan\<close> the name of a field up to
  \<^verbatim>\<open>}\<close>, \<^verbatim>\<open>!\<close> or \<^verbatim>\<open>:\<close>, \<open>bracket_scan\<close> the part of a name after \<^verbatim>\<open>[\<close>, in
  which only \<^verbatim>\<open>]\<close> is special, and \<open>spec_scan\<close> the format specification, in which
  braces nest. A conversion is the one character after \<^verbatim>\<open>!\<close>; the character 0 there
  reads as no conversion.
\<close>

fun tokenize :: "string \<Rightarrow> token list"
  and field_name_scan :: "string \<Rightarrow> string \<Rightarrow> token list"
  and bracket_scan :: "string \<Rightarrow> string \<Rightarrow> token list"
  and spec_scan :: "string \<Rightarrow> char option \<Rightarrow> string \<Rightarrow> nat \<Rightarrow> string \<Rightarrow> token list" where
  "tokenize [] = []"
| "tokenize (c # cs) =
     (if c = CHR ''{'' then
        (case cs of
           [] \<Rightarrow> [TError (''Single '' @ quoted ''{'' @ '' encountered in format string'')]
         | d # r \<Rightarrow> if d = CHR ''{'' then TLit c # tokenize r else field_name_scan cs [])
      else if c = CHR ''}'' then
        (case cs of
           [] \<Rightarrow> [TError (''Single '' @ quoted ''}'' @ '' encountered in format string'')]
         | d # r \<Rightarrow>
             if d = CHR ''}'' then TLit c # tokenize r
             else [TError (''Single '' @ quoted ''}'' @ '' encountered in format string'')])
      else TLit c # tokenize cs)"
| "field_name_scan [] name = [TError (''expected '' @ quoted ''}'' @ '' before end of string'')]"
| "field_name_scan (c # cs) name =
     (if c = CHR ''{'' then [TError (''unexpected '' @ quoted ''{'' @ '' in field name'')]
      else if c = CHR ''['' then bracket_scan cs (name @ [c])
      else if c = CHR ''}'' then TField name None [] # tokenize cs
      else if c = CHR '':'' then spec_scan name None cs 1 []
      else if c = CHR ''!'' then
        (case cs of
           [] \<Rightarrow> [TError ''end of string while looking for conversion specifier'']
         | conv # r \<Rightarrow>
             (case r of
                [] \<Rightarrow> [TError (''unmatched '' @ quoted ''{'' @ '' in format spec'')]
              | d # r' \<Rightarrow>
                  if d = CHR ''}'' then
                    TField name (if conv = CHR 0x00 then None else Some conv) [] # tokenize r'
                  else if d = CHR '':'' then
                    spec_scan name (if conv = CHR 0x00 then None else Some conv) r' 1 []
                  else [TError (''expected '' @ quoted '':'' @ '' after conversion specifier'')]))
      else field_name_scan cs (name @ [c]))"
| "bracket_scan [] name = [TError (''expected '' @ quoted ''}'' @ '' before end of string'')]"
| "bracket_scan (c # cs) name =
     (if c = CHR '']'' then field_name_scan cs (name @ [c]) else bracket_scan cs (name @ [c]))"
| "spec_scan name conv [] depth spec = [TError (''unmatched '' @ quoted ''{'' @ '' in format spec'')]"
| "spec_scan name conv (c # cs) depth spec =
     (if c = CHR ''{'' then spec_scan name conv cs (Suc depth) (spec @ [c])
      else if c = CHR ''}'' then
        (if depth \<le> 1 then TField name conv spec # tokenize cs
         else spec_scan name conv cs (depth - 1) (spec @ [c]))
      else spec_scan name conv cs depth (spec @ [c]))"

subsection \<open>The object a field names\<close>

text \<open>
  A replacement field names one of the two positional arguments and may look into it:
  \<^verbatim>\<open>{0.attr}\<close> is \<^verbatim>\<open>getattr(args[0], "attr")\<close>, \<^verbatim>\<open>{0[key]}\<close> is \<^verbatim>\<open>args[0][key]\<close>.
  The part of the name after the first \<^verbatim>\<open>.\<close> or \<^verbatim>\<open>[\<close> is split lazily into these
  lookups (\<^verbatim>\<open>FieldNameIterator_next\<close>), so an error in it is a part of its own.
\<close>

datatype part =
    Attr string
  | Item string
  | PartError string

fun parts :: "string \<Rightarrow> part list"
  and attr_scan :: "string \<Rightarrow> string \<Rightarrow> part list"
  and item_scan :: "string \<Rightarrow> string \<Rightarrow> part list" where
  "parts [] = []"
| "parts (c # cs) =
     (if c = CHR ''.'' then attr_scan cs []
      else if c = CHR ''['' then item_scan cs []
      else [PartError (''Only '' @ quoted ''.'' @ '' or '' @ quoted ''['' @ '' may follow '' @
                       quoted '']'' @ '' in format field specifier'')])"
| "attr_scan [] name = [Attr name]"
| "attr_scan (c # cs) name =
     (if c = CHR ''.'' then Attr name # attr_scan cs []
      else if c = CHR ''['' then Attr name # item_scan cs []
      else attr_scan cs (name @ [c]))"
| "item_scan [] name = [PartError (''Missing '' @ quoted '']'' @ '' in format string'')]"
| "item_scan (c # cs) name =
     (if c = CHR '']'' then Item name # parts cs else item_scan cs (name @ [c]))"

text \<open>
  What a lookup can give is not always a value of the stores: \<^verbatim>\<open>getattr(s, "upper")\<close>
  is a bound method of the string \<open>s\<close>. An object is a value or the method \<open>name\<close>
  bound to a value.
\<close>

datatype pyobj =
    Plain json
  | Method string json

text \<open>
  \<^verbatim>\<open>str\<close> and \<^verbatim>\<open>repr\<close> of a bound method are
  \<^verbatim>\<open><built-in method upper of str object at 0x7f3a5c0b1e30>\<close>: the text names the
  address of the object the method is bound to. Where an object lies is decided by the
  interpreter when it runs, not by the arguments of a call, so the memory is a parameter:
  \<open>mem v\<close> is the text that \<^verbatim>\<open>%p\<close> gives for the address of the object holding \<open>v\<close>.
  The interpreter may hold two equal values in two objects; a memory gives them one
  address, so it shows less dependence on the addresses than the program has, never more.
\<close>

type_synonym memory = "json \<Rightarrow> string"

definition method_repr :: "memory \<Rightarrow> string \<Rightarrow> json \<Rightarrow> string" where
  "method_repr mem name self =
     ''<built-in method '' @ name @ '' of '' @ type_name self @ '' object at '' @ mem self @ ''>''"

definition obj_str :: "memory \<Rightarrow> pyobj \<Rightarrow> string" where
  "obj_str mem obj = (case obj of Plain v \<Rightarrow> py_str v | Method name self \<Rightarrow> method_repr mem name self)"

definition obj_repr :: "memory \<Rightarrow> pyobj \<Rightarrow> string" where
  "obj_repr mem obj = (case obj of Plain v \<Rightarrow> py_repr v | Method name self \<Rightarrow> method_repr mem name self)"

text \<open>
  \<^verbatim>\<open>getattr(obj, name)\<close>. Of the attributes, the model has the two methods that
  \<^verbatim>\<open>VerHelFormatter\<close> itself calls, \<^verbatim>\<open>upper\<close> and \<^verbatim>\<open>lower\<close>: a string has them,
  the other values and a bound method do not. Any other attribute is outside the model.
\<close>

definition py_getattr :: "pyobj \<Rightarrow> string \<Rightarrow> exn + pyobj" where
  "py_getattr obj name =
     (if name = ''upper'' \<or> name = ''lower'' then
        (case obj of
           Plain (JStr s) \<Rightarrow> Inr (Method name (JStr s))
         | Plain v \<Rightarrow> Inl (attribute_error v name)
         | Method _ _ \<Rightarrow>
             Inl (PyError ''AttributeError''
                    (quoted ''builtin_function_or_method'' @ '' object has no attribute '' @
                     quoted name)))
      else Inl (Unmodelled (''getattr '' @ name)))"

text \<open>
  \<^verbatim>\<open>get_integer\<close>: a name that is a decimal numeral is an index. A numeral above
  \<^verbatim>\<open>PY_SSIZE_T_MAX\<close> raises \<^verbatim>\<open>ValueError\<close>, also when other characters follow the
  digits. That bound is \<open>2^31 - 1\<close> or \<open>2^63 - 1\<close>, so between the two the outcome depends
  on the platform and is outside the model.
\<close>

definition get_integer :: "string \<Rightarrow> exn + int option" where
  "get_integer name =
     (let n = int_of_digits (takeWhile is_digit name)
      in if n > 9223372036854775807 then
           Inl (PyError ''ValueError'' ''Too many decimal digits in format string'')
         else if n > 2147483647 then Inl (Unmodelled ''Py_ssize_t'')
         else if name \<noteq> [] \<and> list_all is_digit name then Inr (Some n)
         else Inr None)"

text \<open>
  The lookups of a field, applied to the argument in order. \<^verbatim>\<open>obj[key]\<close> is outside the
  model; the errors that come before it is evaluated are not.
\<close>

fun lookup :: "pyobj \<Rightarrow> part list \<Rightarrow> exn + pyobj" where
  "lookup obj [] = Inr obj"
| "lookup obj (PartError msg # ps) = Inl (PyError ''ValueError'' msg)"
| "lookup obj (Attr name # ps) =
     (if name = [] then Inl (PyError ''ValueError'' ''Empty attribute in format string'')
      else (case py_getattr obj name of Inl e \<Rightarrow> Inl e | Inr obj' \<Rightarrow> lookup obj' ps))"
| "lookup obj (Item key # ps) =
     (case get_integer key of
        Inl e \<Rightarrow> Inl e
      | Inr _ \<Rightarrow>
          if key = [] then Inl (PyError ''ValueError'' ''Empty attribute in format string'')
          else Inl (Unmodelled (''getitem '' @ key)))"

text \<open>\<^verbatim>\<open>str.isdigit\<close>: not empty, and decimal digits and the superscripts 1, 2 and 3 only.\<close>

definition py_isdigit :: "string \<Rightarrow> bool" where
  "py_isdigit s \<longleftrightarrow>
     s \<noteq> [] \<and> list_all (\<lambda>c. is_digit c \<or> (of_char c :: nat) \<in> {178, 179, 185}) s"

text \<open>
  The numbering of the fields: \<open>Auto n\<close> while only \<^verbatim>\<open>{}\<close> was used (\<open>n\<close> times),
  \<open>Manual\<close> once a numbered field was used.
\<close>

datatype numbering = Auto nat | Manual

text \<open>
  The first steps of \<^verbatim>\<open>_vformat\<close> for a field: the check of the numbering, on the whole
  name of the field, and the name that \<^verbatim>\<open>get_field\<close> receives.
\<close>

definition number_field :: "numbering \<Rightarrow> string \<Rightarrow> exn + (string \<times> numbering)" where
  "number_field num name =
     (if name = [] then
        (case num of
           Manual \<Rightarrow> Inl (PyError ''ValueError''
             ''cannot switch from manual field specification to automatic field numbering'')
         | Auto n \<Rightarrow> Inr (str_nat n, Auto (Suc n)))
      else if py_isdigit name then
        (case num of
           Auto (Suc n) \<Rightarrow> Inl (PyError ''ValueError''
             ''cannot switch from manual field specification to automatic field numbering'')
         | _ \<Rightarrow> Inr (name, Manual))
      else Inr (name, num))"

text \<open>
  \<^verbatim>\<open>get_field(field_name, args, kwargs)\<close> with the two positional arguments \<open>a0\<close> and
  \<open>a1\<close> and no keyword argument: a name that is not an index raises \<^verbatim>\<open>KeyError\<close>.
\<close>

definition get_field :: "json \<Rightarrow> json \<Rightarrow> string \<Rightarrow> exn + pyobj" where
  "get_field a0 a1 name =
     (let first = takeWhile (\<lambda>c. c \<noteq> CHR ''.'' \<and> c \<noteq> CHR ''['') name;
          rest = dropWhile (\<lambda>c. c \<noteq> CHR ''.'' \<and> c \<noteq> CHR ''['') name
      in case get_integer first of
           Inl e \<Rightarrow> Inl e
         | Inr None \<Rightarrow> Inl (PyError ''KeyError'' (repr_str first))
         | Inr (Some index) \<Rightarrow>
             if index \<ge> 2 then Inl (PyError ''IndexError'' ''tuple index out of range'')
             else lookup (Plain (if index = 0 then a0 else a1)) (parts rest))"

text \<open>
  \<^verbatim>\<open>VerHelFormatter.convert_field(value, conversion)\<close>; the conversions \<^verbatim>\<open>s\<close>,
  \<^verbatim>\<open>r\<close> and \<^verbatim>\<open>a\<close> are the ones of the base class.
\<close>

definition convert_field :: "memory \<Rightarrow> pyobj \<Rightarrow> char option \<Rightarrow> exn + pyobj" where
  "convert_field mem obj conversion =
     (case conversion of
        None \<Rightarrow> Inr obj
      | Some c \<Rightarrow>
          if c = CHR ''u'' then
            (case py_upper (obj_str mem obj) of
               None \<Rightarrow> Inl (Unmodelled ''str.upper'')
             | Some s \<Rightarrow> Inr (Plain (JStr s)))
          else if c = CHR ''l'' then Inr (Plain (JStr (py_lower (obj_str mem obj))))
          else if c = CHR ''s'' then Inr (Plain (JStr (obj_str mem obj)))
          else if c = CHR ''r'' then Inr (Plain (JStr (obj_repr mem obj)))
          else if c = CHR ''a'' then Inr (Plain (JStr (ascii_escape (obj_repr mem obj))))
          else Inl (PyError ''ValueError'' (''Unknown conversion specifier '' @ [c])))"

text \<open>
  One replacement field: the text it writes and the numbering after it. With an empty
  format specification \<^verbatim>\<open>format_field\<close> writes \<^verbatim>\<open>str\<close> of the object; a format
  specification that is not empty is outside the model.
\<close>

definition render_field ::
  "memory \<Rightarrow> json \<Rightarrow> json \<Rightarrow> numbering \<Rightarrow> string \<Rightarrow> char option \<Rightarrow> string \<Rightarrow>
   exn + (string \<times> numbering)" where
  "render_field mem a0 a1 num name conversion spec =
     (case number_field num name of
        Inl e \<Rightarrow> Inl e
      | Inr (field_name, num') \<Rightarrow>
          (case get_field a0 a1 field_name of
             Inl e \<Rightarrow> Inl e
           | Inr obj \<Rightarrow>
               (case convert_field mem obj conversion of
                  Inl e \<Rightarrow> Inl e
                | Inr obj' \<Rightarrow>
                    if spec \<noteq> [] then Inl (Unmodelled (''format specification '' @ spec))
                    else Inr (obj_str mem obj', num'))))"

fun render_tokens :: "memory \<Rightarrow> json \<Rightarrow> json \<Rightarrow> numbering \<Rightarrow> token list \<Rightarrow> exn + string" where
  "render_tokens mem a0 a1 num [] = Inr []"
| "render_tokens mem a0 a1 num (TLit c # ts) =
     map_sum id ((#) c) (render_tokens mem a0 a1 num ts)"
| "render_tokens mem a0 a1 num (TError e # ts) = Inl (PyError ''ValueError'' e)"
| "render_tokens mem a0 a1 num (TField name conversion spec # ts) =
     (case render_field mem a0 a1 num name conversion spec of
        Inl e \<Rightarrow> Inl e
      | Inr (text, num') \<Rightarrow> map_sum id ((@) text) (render_tokens mem a0 a1 num' ts))"

text \<open>
  \<^verbatim>\<open>fmtr.format(format_string, emit_name, value)\<close>; the format string comes from the
  backend descriptor and need not be a string.
\<close>

definition fmtr_format :: "memory \<Rightarrow> json \<Rightarrow> json \<Rightarrow> json \<Rightarrow> exn + string" where
  "fmtr_format mem format_string a0 a1 =
     (case format_string of
        JStr s \<Rightarrow> render_tokens mem a0 a1 (Auto 0) (tokenize s)
      | _ \<Rightarrow> Inl (PyError ''TypeError''
                 (''expected str, got '' @ type_name format_string)))"




section \<open>The backend renderer\<close>

text \<open>
  A method writes to the ambient state of the process (console, log file) through the
  class \<^verbatim>\<open>Log\<close> only. The ambient state is a value \<open>w\<close> of any type, and the
  logger is the function that \<^verbatim>\<open>Log.debug\<close>, \<^verbatim>\<open>Log.info\<close>, \<^verbatim>\<open>Log.warn\<close>, ...
  apply to it, given the \<^verbatim>\<open>LogType\<close> and the message. What the renderer can read of
  the ambient state is the memory \<open>mem\<close>, through the formatter.
\<close>

type_synonym 'w logger = "'w \<Rightarrow> log_type \<Rightarrow> string \<Rightarrow> 'w"

text \<open>The logger that only keeps the messages, in order.\<close>

definition record_log :: "(log_entry list) logger" where
  "record_log w t m = w @ [(t, m)]"

text \<open>\<^verbatim>\<open>d[k]\<close>, which raises \<^verbatim>\<open>KeyError\<close> when the key is absent.\<close>

definition dict_index :: "dict \<Rightarrow> string \<Rightarrow> exn + json" where
  "dict_index d k =
     (case map_of d k of None \<Rightarrow> Inl (PyError ''KeyError'' (repr_str k)) | Some v \<Rightarrow> Inr v)"

text \<open>The elements that \<^verbatim>\<open>for var in v\<close> visits.\<close>

definition py_iter :: "json \<Rightarrow> exn + json list" where
  "py_iter v =
     (case v of
        JList xs \<Rightarrow> Inr xs
      | JStr s \<Rightarrow> Inr (map (\<lambda>c. JStr [c]) s)
      | JObj d \<Rightarrow> Inr (map (\<lambda>p. JStr (fst p)) d)
      | _ \<Rightarrow> Inl (PyError ''TypeError'' (quoted (type_name v) @ '' object is not iterable'')))"

fun starts_with :: "string \<Rightarrow> string \<Rightarrow> bool" where
  "starts_with s [] = True"
| "starts_with [] (c # t) = False"
| "starts_with (d # s) (c # t) = (d = c \<and> starts_with s t)"

fun has_substring :: "string \<Rightarrow> string \<Rightarrow> bool" where
  "has_substring [] t = (t = [])"
| "has_substring (d # s) t = (starts_with (d # s) t \<or> has_substring s t)"

text \<open>\<^verbatim>\<open>name in container\<close> for a string \<open>name\<close>.\<close>

definition py_contains_str :: "json \<Rightarrow> string \<Rightarrow> exn + bool" where
  "py_contains_str container name =
     (case container of
        JList xs \<Rightarrow> Inr (list_ex (\<lambda>x. py_eq x (JStr name)) xs)
      | JStr s \<Rightarrow> Inr (has_substring s name)
      | JObj d \<Rightarrow> Inr (name \<in> set (dict_keys d))
      | _ \<Rightarrow> Inl (PyError ''TypeError''
                 (''argument of type '' @ quoted (type_name container) @ '' is not iterable'')))"

text \<open>\<^verbatim>\<open>next(iter(var.items()))\<close>.\<close>

definition first_item :: "json \<Rightarrow> exn + (string \<times> json)" where
  "first_item var =
     (case var of
        JObj [] \<Rightarrow> Inl (PyError ''StopIteration'' [])
      | JObj (p # _) \<Rightarrow> Inr p
      | _ \<Rightarrow> Inl (attribute_error var ''items''))"

text \<open>The text that \<^verbatim>\<open>ss.write(v)\<close> appends; a \<^verbatim>\<open>StringIO\<close> takes strings only.\<close>

definition write_str :: "json \<Rightarrow> exn + string" where
  "write_str v =
     (case v of
        JStr s \<Rightarrow> Inr s
      | _ \<Rightarrow> Inl (PyError ''TypeError''
                 (''string argument expected, got '' @ quoted (type_name v))))"

text \<open>
  The body of the loop \<^verbatim>\<open>for var in backend.get("var_map")\<close>: the ambient state after
  it, and the text it writes or the exception it raises.
\<close>

definition write_variable ::
  "'w logger \<Rightarrow> 'w \<Rightarrow> memory \<Rightarrow> json \<Rightarrow> json \<Rightarrow> dict \<Rightarrow> json \<Rightarrow> json \<Rightarrow>
   'w \<times> (exn + string)" where
  "write_variable log w mem format_number format_string cooked_info excluded_vars var =
     (case first_item var of
        Inl e \<Rightarrow> (w, Inl e)
      | Inr (var_name, emit_name) \<Rightarrow>
          (case py_contains_str excluded_vars var_name of
             Inl e \<Rightarrow> (w, Inl e)
           | Inr True \<Rightarrow> (w, Inr [])
           | Inr False \<Rightarrow>
               (case dict_index cooked_info var_name of
                  Inl e \<Rightarrow> (w, Inl e)
                | Inr v \<Rightarrow>
                    (case v of
                       JNull \<Rightarrow>
                         (log w WARNING (''emiting value '' @ quoted var_name @ '' is null''),
                          Inr [])
                     | JInt _ \<Rightarrow> (w, fmtr_format mem format_number emit_name v)
                     | JStr _ \<Rightarrow> (w, fmtr_format mem format_string emit_name v)
                     | _ \<Rightarrow>
                         (log w WARNING
                            (''don'' @ [CHR 0x27] @ ''t know how to write type '' @ [CHR 0x27] @
                             type_name v @ '', writing as string'' @ [CHR 0x27]),
                          fmtr_format mem format_string emit_name v)))))"

fun write_variables ::
  "'w logger \<Rightarrow> 'w \<Rightarrow> memory \<Rightarrow> json \<Rightarrow> json \<Rightarrow> dict \<Rightarrow> json \<Rightarrow> json list \<Rightarrow>
   'w \<times> (exn + string)" where
  "write_variables log w mem format_number format_string cooked_info excluded_vars [] =
     (w, Inr [])"
| "write_variables log w mem format_number format_string cooked_info excluded_vars (var # vars) =
     (case write_variable log w mem format_number format_string cooked_info excluded_vars var of
        (w', Inl e) \<Rightarrow> (w', Inl e)
      | (w', Inr text) \<Rightarrow>
          (case write_variables log w' mem format_number format_string cooked_info excluded_vars
                  vars of
             (w'', r) \<Rightarrow> (w'', map_sum id ((@) text) r)))"

text \<open>The part \<^verbatim>\<open># Write beginning.\<close> before \<^verbatim>\<open>ss.write(source_begin)\<close>.\<close>

definition license_header :: "json \<Rightarrow> string option \<Rightarrow> json \<Rightarrow> string" where
  "license_header source_comment license_text spdx =
     (case license_text of
        None \<Rightarrow> []
      | Some text \<Rightarrow>
          concat (map (\<lambda>line. py_str source_comment @ '' '' @ line @ [CHR 0x0A])
                    (py_splitlines (py_rstrip text))))
     @ (if spdx \<noteq> JNull then
          (if license_text \<noteq> None then py_str source_comment @ [CHR 0x0A] else [])
          @ py_str source_comment @ '' SPDX-License-Identifier: '' @ py_str spdx @ [CHR 0x0A]
        else [])"

text \<open>
  \<^verbatim>\<open>backend_generate(backend, cooked_info, license_text, excluded_vars)\<close>, called in
  the ambient state \<open>w\<close> and the memory \<open>mem\<close>: the ambient state afterwards, and the
  source text returned or the exception raised.
\<close>

definition backend_generate ::
  "'w logger \<Rightarrow> 'w \<Rightarrow> memory \<Rightarrow> dict \<Rightarrow> dict \<Rightarrow> string option \<Rightarrow> json \<Rightarrow>
   'w \<times> (exn + string)" where
  "backend_generate log w mem backend cooked_info license_text excluded_vars =
     (let format_number = dict_get backend ''format.number'';
          format_string = dict_get backend ''format.string'';
          source_begin = dict_get backend ''source.begin'';
          source_comment = dict_get backend ''source.comment'';
          source_end = dict_get backend ''source.end''
      in
        case dict_index cooked_info ''license.spdx'' of
          Inl e \<Rightarrow> (w, Inl e)
        | Inr spdx \<Rightarrow>
            (case write_str source_begin of
               Inl e \<Rightarrow> (w, Inl e)
             | Inr begin_text \<Rightarrow>
                 (case py_iter (dict_get backend ''var_map'') of
                    Inl e \<Rightarrow> (w, Inl e)
                  | Inr vars \<Rightarrow>
                      (case write_variables log w mem format_number format_string cooked_info
                              excluded_vars vars of
                         (w', Inl e) \<Rightarrow> (w', Inl e)
                       | (w', Inr body) \<Rightarrow>
                           (case write_str source_end of
                              Inl e \<Rightarrow> (w', Inl e)
                            | Inr end_text \<Rightarrow>
                                (w', Inr (license_header source_comment license_text spdx @
                                          begin_text @ body @ end_text @ [CHR 0x0A] @
                                          py_str source_comment @
                                          '' generated using verhel.py '' @
                                          py_str source_comment @ [CHR 0x0A])))))))"

text \<open>An entry of \<^verbatim>\<open>var_map\<close> is for the key \<open>k\<close> when \<open>k\<close> is its first key.\<close>

definition names_key :: "string \<Rightarrow> json \<Rightarrow> bool" where
  "names_key k var = (case var of JObj (p # _) \<Rightarrow> fst p = k | _ \<Rightarrow> False)"

text \<open>The backend descriptor without the \<^verbatim>\<open>var_map\<close> entries for the key \<open>k\<close>.\<close>

definition without_key :: "string \<Rightarrow> dict \<Rightarrow> dict" where
  "without_key k backend =
     (case dict_get backend ''var_map'' of
        JList vars \<Rightarrow>
          dict_set backend ''var_map'' (JList (filter (\<lambda>var. \<not> names_key k var) vars))
      | _ \<Rightarrow> backend)"

subsection \<open>A small backend descriptor and cooked value set\<close>

text \<open>
  A backend descriptor in the shape of the bundled \<^verbatim>\<open>cpp\<close> one, with three variables,
  and a cooked value set in which \<^verbatim>\<open>vcs.tag\<close> and \<^verbatim>\<open>license.spdx\<close> are null.
\<close>

definition demo_backend :: dict where
  "demo_backend =
     [(''source.begin'', JStr (''begin'' @ [CHR 0x0A])),
      (''source.comment'', JStr ''#''),
      (''source.end'', JStr (''end'' @ [CHR 0x0A])),
      (''format.number'', JStr (''{0} = {1}'' @ [CHR 0x0A])),
      (''format.string'', JStr (''{0} = {1!u}'' @ [CHR 0x0A])),
      (''var_map'', JList [JObj [(''version.major'', JStr ''MAJOR'')],
                           JObj [(''vcs.tag'', JStr ''TAG'')],
                           JObj [(''project.name'', JStr ''NAME'')]])]"

definition demo_cooked :: dict where
  "demo_cooked =
     [(''license.spdx'', JNull), (''version.major'', JInt 1), (''vcs.tag'', JNull),
      (''project.name'', JStr ''demo'')]"


definition memory_a :: memory where
  "memory_a v = (if v = JStr ''demo'' then ''0x7f3a5c0b1e30'' else ''0x7f3a5c0a0000'')"


section \<open>The VCS query engine\<close>

text \<open>The frontend \<^verbatim>\<open>git\<close> of \<^verbatim>\<open>FRONTENDS_DESC\<close>, as \<^verbatim>\<open>json.loads\<close> returns it.\<close>

definition git_frontend :: dict where
  "git_frontend =
     [(''version'', JStr ''1.0.0''),
      (''exe'', JStr ''git''),
      (''get.repo'',
         JObj [(''cmd'', JStr ''git rev-parse --git-dir''), (''ret_codes'', JList [JInt 0])]),
      (''get.commit_hash'',
         JObj [(''cmd'', JStr ''git rev-parse HEAD''), (''ret_codes'', JList [JInt 0])]),
      (''get.short_hash'',
         JObj [(''cmd'', JStr ''git rev-parse --short HEAD''), (''ret_codes'', JList [JInt 0])]),
      (''get.tag'',
         JObj [(''cmd'', JStr ''git describe --tags --abbrev=0 --exact-match''),
               (''ret_codes'', JList [JInt 0, JInt 128])]),
      (''get.branch'',
         JObj [(''cmd'', JStr ''git rev-parse --abbrev-ref HEAD''),
               (''ret_codes'', JList [JInt 0])]),
      (''get.commit_count'',
         JObj [(''cmd'', JStr ''git rev-list --count HEAD''), (''ret_codes'', JList [JInt 0])])]"

text \<open>
  \<^verbatim>\<open>run_cmd(cmd)\<close> splits the command line, runs the process with a timeout and logs
  what it did. What it returns depends on the machine, so it is a parameter: from the
  ambient state and the command to the ambient state afterwards and either the message
  of the exception raised or the pair \<^verbatim>\<open>(proc.returncode, proc.stdout)\<close>.
\<close>

type_synonym 'w runner = "'w \<Rightarrow> json \<Rightarrow> 'w \<times> (string + int \<times> string)"

text \<open>\<^verbatim>\<open>ret in ret_codes\<close> for an integer \<open>ret\<close>.\<close>

definition py_contains_int :: "json \<Rightarrow> int \<Rightarrow> exn + bool" where
  "py_contains_int container i =
     (case container of
        JList xs \<Rightarrow> Inr (list_ex (\<lambda>x. py_eq x (JInt i)) xs)
      | JStr s \<Rightarrow> Inl (PyError ''TypeError''
                 (quoted ''in <string>'' @ '' requires string as left operand, not int''))
      | JObj d \<Rightarrow> Inr False
      | _ \<Rightarrow> Inl (PyError ''TypeError''
                 (''argument of type '' @ quoted (type_name container) @ '' is not iterable'')))"

text \<open>
  \<^verbatim>\<open>int(s)\<close> for a string, as CPython 3.6 and later read it: white space around, an
  optional sign, decimal digits with single underscores between them. The white space of
  \<^verbatim>\<open>int\<close> is not the one of \<^verbatim>\<open>str.strip\<close>: the characters 28 to 31 are not part of
  it. The result is the integer, or the message of the \<^verbatim>\<open>ValueError\<close> raised.

  CPython 3.11 and later refuse a numeral of more than \<^verbatim>\<open>sys.get_int_max_str_digits()\<close>
  digits, 4300 unless the interpreter is configured otherwise. That number is the
  parameter \<open>max_str_digits\<close>; it is 0 when there is no limit. The values of the stores
  come from \<^verbatim>\<open>json.loads\<close> and from \<^verbatim>\<open>int\<close>, which both apply the limit, so
  \<^verbatim>\<open>str\<close> of an integer, which has the same limit, is not guarded in this model.
\<close>

definition is_int_space :: "char \<Rightarrow> bool" where
  "is_int_space c =
     (let n = (of_char c :: nat) in (9 \<le> n \<and> n \<le> 13) \<or> n = 32 \<or> n = 133 \<or> n = 160)"

fun digits_ok :: "string \<Rightarrow> bool" where
  "digits_ok [] = False"
| "digits_ok [c] = is_digit c"
| "digits_ok (c # d # r) =
     (is_digit c \<and> (if d = CHR ''_'' then digits_ok r else digits_ok (d # r)))"

definition parse_int :: "nat \<Rightarrow> string \<Rightarrow> string + int" where
  "parse_int max_str_digits s =
     (let t = dropWhile is_int_space (rev (dropWhile is_int_space (rev s)));
          neg = (case t of c # _ \<Rightarrow> c = CHR ''-'' | [] \<Rightarrow> False);
          body = (case t of c # r \<Rightarrow> if c = CHR ''-'' \<or> c = CHR ''+'' then r else t | [] \<Rightarrow> t);
          digits = filter is_digit body
      in if \<not> digits_ok body then
           Inl (''invalid literal for int() with base 10: '' @ take 200 (repr_str s))
         else if 640 < length digits \<and> 0 < max_str_digits \<and> max_str_digits < length digits then
           Inl (''Exceeds the limit ('' @ str_nat max_str_digits @
                '' digits) for integer string conversion: value has '' @
                str_nat (length digits) @
                '' digits; use sys.set_int_max_str_digits() to increase the limit'')
         else Inr ((if neg then - 1 else 1) * int_of_digits digits))"

text \<open>The second argument of \<^verbatim>\<open>run_wrapper\<close>: \<^verbatim>\<open>str\<close> or \<^verbatim>\<open>int\<close>.\<close>

datatype out_type = OutStr | OutInt

text \<open>
  The inner function \<^verbatim>\<open>run_wrapper(cmd_name, out_type)\<close> of \<^verbatim>\<open>get_vcs_info\<close>: the
  ambient state afterwards, and the value returned or the exception that leaves it. The
  first parameter is the limit on the digits of \<^verbatim>\<open>int\<close>.
\<close>

definition run_wrapper ::
  "nat \<Rightarrow> 'w logger \<Rightarrow> 'w runner \<Rightarrow> 'w \<Rightarrow> dict \<Rightarrow> string \<Rightarrow> string \<Rightarrow> out_type \<Rightarrow>
   'w \<times> (exn + json)" where
  "run_wrapper max_str_digits log run_cmd w frontend frontend_name cmd_name ot =
     (case dict_get frontend cmd_name of
        JObj cmd_obj \<Rightarrow>
          (let cmd = dict_get cmd_obj ''cmd'';
               ret_codes = dict_get cmd_obj ''ret_codes''
           in if cmd = JNull then
                (log w ERROR (''command '' @ quoted cmd_name @ '' is null in frontend '' @
                              quoted frontend_name),
                 Inr JNull)
              else
                (case run_cmd (log w INFO (''command '' @ quoted cmd_name @ '' ('' @
                                           quoted (py_str cmd) @ '')'')) cmd of
                   (w', Inl e) \<Rightarrow> (log w' ERROR e, Inr JNull)
                 | (w', Inr (ret, out)) \<Rightarrow>
                     (case py_contains_int ret_codes ret of
                        Inl e \<Rightarrow> (w', Inl e)
                      | Inr True \<Rightarrow>
                          (case ot of
                             OutStr \<Rightarrow>
                               (log w' LOG_SUCCESS ''command finished'',
                                Inr (JStr (py_strip out)))
                           | OutInt \<Rightarrow>
                               (case parse_int max_str_digits (py_strip out) of
                                  Inl msg \<Rightarrow>
                                    (log w' LOG_SUCCESS ''command finished'',
                                     Inl (PyError ''ValueError'' msg))
                                | Inr i \<Rightarrow>
                                    (log w' LOG_SUCCESS ''command finished'', Inr (JInt i))))
                      | Inr False \<Rightarrow> (log w' ERROR ''command failed'', Inr JNull))))
      | other \<Rightarrow> (w, Inl (attribute_error other ''get'')))"

text \<open>
  \<^verbatim>\<open>get_vcs_info(frontend, frontend_name)\<close>: the five queries in the order of the
  source, then the dictionary \<^verbatim>\<open>info\<close>.
\<close>

definition get_vcs_info ::
  "nat \<Rightarrow> 'w logger \<Rightarrow> 'w runner \<Rightarrow> 'w \<Rightarrow> dict \<Rightarrow> string \<Rightarrow> 'w \<times> (exn + dict)" where
  "get_vcs_info max_str_digits log run_cmd w frontend frontend_name =
     (case run_wrapper max_str_digits log run_cmd
             (log w INFO ''geting info from version control'')
             frontend frontend_name ''get.commit_hash'' OutStr of
        (w1, Inl e) \<Rightarrow> (w1, Inl e)
      | (w1, Inr commit_hash) \<Rightarrow>
     (case run_wrapper max_str_digits log run_cmd w1 frontend frontend_name ''get.short_hash''
             OutStr of
        (w2, Inl e) \<Rightarrow> (w2, Inl e)
      | (w2, Inr short_hash) \<Rightarrow>
     (case run_wrapper max_str_digits log run_cmd w2 frontend frontend_name ''get.tag''
             OutStr of
        (w3, Inl e) \<Rightarrow> (w3, Inl e)
      | (w3, Inr tag) \<Rightarrow>
     (case run_wrapper max_str_digits log run_cmd w3 frontend frontend_name ''get.branch''
             OutStr of
        (w4, Inl e) \<Rightarrow> (w4, Inl e)
      | (w4, Inr branch) \<Rightarrow>
     (case run_wrapper max_str_digits log run_cmd w4 frontend frontend_name ''get.commit_count''
             OutInt of
        (w5, Inl e) \<Rightarrow> (w5, Inl e)
      | (w5, Inr commit_count) \<Rightarrow>
          (log w5 INFO ''finished getting vcs info'',
           Inr [(''name'', JStr frontend_name),
                (''commit_hash'', commit_hash),
                (''short_hash'', short_hash),
                (''tag'', tag),
                (''branch'', branch),
                (''commit_count'', commit_count)]))))))"

text \<open>
  A machine on which \<^verbatim>\<open>git describe\<close> finds no tag (exit code 128, nothing on the
  standard output), the commit count is 42 and every other command prints a hash.
\<close>

definition demo_runner :: "'w runner" where
  "demo_runner w cmd =
     (w, if cmd = JStr ''git describe --tags --abbrev=0 --exact-match'' then Inr (128, [])
         else if cmd = JStr ''git rev-list --count HEAD'' then Inr (0, ''42'' @ [CHR 0x0A])
         else Inr (0, ''c0ffee'' @ [CHR 0x0A]))"

text \<open>
  \<open>accepts frontend cmd_name cmd ret\<close>: the frontend has the command \<open>cmd\<close> under
  \<open>cmd_name\<close> and \<open>ret\<close> is one of its accepted exit codes.
  \<open>always_exits run_cmd cmd ret out\<close>: on this machine the command exits with the code
  \<open>ret\<close> and the standard output \<open>out\<close>, whenever it is run.
\<close>

definition accepts :: "dict \<Rightarrow> string \<Rightarrow> json \<Rightarrow> int \<Rightarrow> bool" where
  "accepts frontend cmd_name cmd ret \<longleftrightarrow>
     (\<exists>cmd_obj. dict_get frontend cmd_name = JObj cmd_obj \<and> dict_get cmd_obj ''cmd'' = cmd \<and>
        cmd \<noteq> JNull \<and> py_contains_int (dict_get cmd_obj ''ret_codes'') ret = Inr True)"

definition always_exits :: "'w runner \<Rightarrow> json \<Rightarrow> int \<Rightarrow> string \<Rightarrow> bool" where
  "always_exits run_cmd cmd ret out \<longleftrightarrow> (\<forall>w. snd (run_cmd w cmd) = Inr (ret, out))"

text \<open>
  \<open>query_returns\<close>: the query \<open>cmd_name\<close> raises no exception, in whichever state it
  is run. A query raises when its entry in the frontend is not a dictionary, when the
  accepted exit codes are not a list, and when \<^verbatim>\<open>int\<close> rejects the output.
\<close>

definition query_returns ::
  "nat \<Rightarrow> 'w logger \<Rightarrow> 'w runner \<Rightarrow> dict \<Rightarrow> string \<Rightarrow> string \<Rightarrow> out_type \<Rightarrow> bool" where
  "query_returns max_str_digits log run_cmd frontend frontend_name cmd_name ot \<longleftrightarrow>
     (\<forall>w. \<exists>v. snd (run_wrapper max_str_digits log run_cmd w frontend frontend_name cmd_name ot) =
             Inr v)"

section \<open>Commands\<close>

subsection \<open>The machine\<close>

text \<open>
  What a command does to the process and the file system is kept as a trace of events,
  the newest last: the messages passed to \<^verbatim>\<open>Log\<close>, the attempts to write the projects
  file or an output file, the directories created and the change of directory. The
  trace is the ambient state of a command.
\<close>

datatype event =
    Logged log_type string
  | SavedProjects string dict
  | MadeDirs string
  | ChangedDir string
  | WroteFile string string

type_synonym world = "event list"

definition log_event :: "world logger" where
  "log_event w t m = w @ [Logged t m]"

definition log_all :: "world \<Rightarrow> log_entry list \<Rightarrow> world" where
  "log_all w entries = w @ map (\<lambda>e. Logged (fst e) (snd e)) entries"

text \<open>
  What the machine answers depends on the machine and on what happened before, so every
  answer is a function of the trace. \<open>m_read_json\<close> is \<^verbatim>\<open>open(file).read()\<close> followed
  by \<^verbatim>\<open>json.loads\<close>, \<open>m_max_str_digits\<close> is the limit on the digits of \<^verbatim>\<open>int\<close> and
  \<open>m_address\<close> is the memory.
\<close>

datatype read_result =
    ReadFailed string
  | DecodeFailed string
  | Loaded json

record env =
  m_read_json :: "world \<Rightarrow> string \<Rightarrow> read_result"
  m_write_fails :: "world \<Rightarrow> string \<Rightarrow> string option"
  m_which :: "world \<Rightarrow> string \<Rightarrow> bool"
  m_run_cmd :: "world runner"
  m_cwd :: "world \<Rightarrow> string"
  m_path_exists :: "world \<Rightarrow> string \<Rightarrow> bool"
  m_mkdir_fails :: "world \<Rightarrow> string \<Rightarrow> string option"
  m_chdir_fails :: "world \<Rightarrow> string \<Rightarrow> string option"
  m_read_text :: "world \<Rightarrow> string \<Rightarrow> string option"
  m_now :: "world \<Rightarrow> build_info"
  m_max_str_digits :: nat
  m_address :: "world \<Rightarrow> memory"

subsection \<open>Loading and saving the projects\<close>

definition PROJECTS_DEFAULT_FILE_NAME :: string where
  "PROJECTS_DEFAULT_FILE_NAME = ''verhel.json''"

text \<open>
  \<^verbatim>\<open>load_from_file(file_name)\<close>, with the call of \<^verbatim>\<open>load_from_buffer\<close> in it:
  \<open>None\<close> when the method raises.
\<close>

definition load_from_file :: "env \<Rightarrow> world \<Rightarrow> string \<Rightarrow> world \<times> json option" where
  "load_from_file e w file_name =
     (let w1 = log_event w INFO (''loading file '' @ quoted file_name)
      in case m_read_json e w1 file_name of
           ReadFailed msg \<Rightarrow>
             (log_event (log_event w1 ERROR (''failed to read '' @ quoted file_name)) ERROR msg,
              None)
         | DecodeFailed msg \<Rightarrow>
             (log_event
                (log_event (log_event w1 LOG_SUCCESS (''read file '' @ quoted file_name))
                   INFO ''loading json from buffer'')
                ERROR (''failed to decode json: '' @ msg),
              None)
         | Loaded root \<Rightarrow>
             (log_event
                (log_event (log_event w1 LOG_SUCCESS (''read file '' @ quoted file_name))
                   INFO ''loading json from buffer'')
                LOG_SUCCESS ''loaded json from buffer succesfully'',
              Some root))"

text \<open>\<^verbatim>\<open>len(v)\<close> and \<^verbatim>\<open>list(v.keys())\<close>, as the success messages of the loaders use them.\<close>

definition py_len :: "json \<Rightarrow> exn + nat" where
  "py_len v =
     (case v of
        JStr s \<Rightarrow> Inr (length s)
      | JList xs \<Rightarrow> Inr (length xs)
      | JObj d \<Rightarrow> Inr (length d)
      | _ \<Rightarrow> Inl (PyError ''TypeError''
                 (''object of type '' @ quoted (type_name v) @ '' has no len()'')))"

text \<open>
  \<^verbatim>\<open>load_projects(file_name)\<close>: the store loaded, or the exception raised. A root
  that is not an object makes the success messages raise.
\<close>

definition load_projects :: "env \<Rightarrow> world \<Rightarrow> string option \<Rightarrow> world \<times> (exn + dict)" where
  "load_projects e w file_name_opt =
     (let file_name = (case file_name_opt of None \<Rightarrow> PROJECTS_DEFAULT_FILE_NAME | Some f \<Rightarrow> f);
          w1 = log_event w INFO (''loading projects description from '' @ quoted file_name)
      in case load_from_file e w1 file_name of
           (w2, None) \<Rightarrow>
             (log_event w2 FATAL ''failed to load projects'',
              Inl (VerHelError FAILED_TO_LOAD_PROJECTS))
         | (w2, Some root) \<Rightarrow>
             (case py_len root of
                Inl err \<Rightarrow> (w2, Inl err)
              | Inr n \<Rightarrow>
                  (let w3 = log_event w2 LOG_SUCCESS (''loaded projects ('' @ str_nat n @ '')'')
                   in case root of
                        JObj projects \<Rightarrow>
                          (log_event w3 DEBUG
                             (''loaded projects: '' @
                              py_repr (JList (map JStr (dict_keys projects)))),
                           Inr projects)
                      | _ \<Rightarrow> (w3, Inl (attribute_error root ''keys'')))))"

text \<open>
  \<^verbatim>\<open>save_projects(file_name)\<close>: the attempt to write the store is an event; the
  machine says whether the write raises \<^verbatim>\<open>IOError\<close>.
\<close>

definition save_projects :: "env \<Rightarrow> world \<Rightarrow> dict \<Rightarrow> string option \<Rightarrow> world \<times> (exn + unit)" where
  "save_projects e w projects file_name_opt =
     (let file_name = (case file_name_opt of None \<Rightarrow> PROJECTS_DEFAULT_FILE_NAME | Some f \<Rightarrow> f);
          w1 = log_event w INFO (''saving projects to '' @ quoted file_name);
          w2 = w1 @ [SavedProjects file_name projects]
      in case m_write_fails e w1 file_name of
           Some msg \<Rightarrow>
             (log_event (log_event w2 ERROR (''failed to write '' @ quoted file_name)) ERROR msg,
              Inl (VerHelError FAILED_TO_SAVE_PROJECTS))
         | None \<Rightarrow>
             (log_event w2 LOG_SUCCESS (''wrote project file '' @ quoted file_name), Inr ()))"

definition check_if_project_exists :: "world \<Rightarrow> dict \<Rightarrow> string \<Rightarrow> world \<times> (exn + json)" where
  "check_if_project_exists w projects project_name =
     (let w1 = log_event w INFO (''checking if project '' @ quoted project_name @ '' exists'');
          desc = dict_get projects project_name
      in if desc = JNull then
           (log_event w1 FATAL (''project '' @ quoted project_name @ '' doesn'' @ [CHR 0x27] @
                                ''t exists''),
            Inl (VerHelError PROJECT_DOESNT_EXISTS))
         else
           (log_event w1 INFO (''project description '' @ quoted project_name @ '' found''),
            Inr desc))"

text \<open>\<^verbatim>\<open>check_if_name_is_valid(name)\<close>: the key to use, or \<^verbatim>\<open>INVALID_KEY\<close>.\<close>

definition check_if_name_is_valid :: "world \<Rightarrow> string \<Rightarrow> world \<times> (exn + string)" where
  "check_if_name_is_valid w name =
     (if starts_with name ''backends.'' then
        (let bk_name = drop (length ''backends.'') name
         in if length bk_name = 0 then
              (log_event w FATAL (''backend name can'' @ [CHR 0x27] @ ''t be empty''),
               Inl (VerHelError INVALID_KEY))
            else (w, Inr bk_name))
      else if name \<notin> set (dict_keys empty_project) then
        (log_event w FATAL (quoted name @ '' is not a valid name''),
         Inl (VerHelError INVALID_KEY))
      else (w, Inr name))"

subsection \<open>The command \<^verbatim>\<open>set\<close>\<close>

text \<open>
  The arguments of a command, as \<^verbatim>\<open>argparse\<close> hands them over.
  \<^verbatim>\<open>process_arguments\<close> configures the verbosity of the logger and copies two flags;
  its \<^verbatim>\<open>Log.debug\<close> lines are not part of the trace.
\<close>

record set_args =
  sa_project :: string
  sa_projects_file :: "string option"
  sa_property_name :: string
  sa_new_value :: string

text \<open>
  The search \<^verbatim>\<open>for bk in backends: v = bk.get(key) ...\<close>: the index of the first entry
  that has the key, the length of the list when there is none.
\<close>

fun find_backend :: "json list \<Rightarrow> string \<Rightarrow> exn + nat" where
  "find_backend [] key = Inr 0"
| "find_backend (bk # rest) key =
     (case bk of
        JObj d \<Rightarrow>
          if dict_get d key \<noteq> JNull then Inr 0 else map_sum id Suc (find_backend rest key)
      | _ \<Rightarrow> Inl (attribute_error bk ''get''))"

text \<open>
  The branch of \<^verbatim>\<open>set\<close> for a key that starts with \<^verbatim>\<open>backends.\<close>: the new value of
  \<^verbatim>\<open>desc["backends"]\<close> and \<^verbatim>\<open>old_value\<close>, or the exception raised.
\<close>

definition set_backend :: "json \<Rightarrow> string \<Rightarrow> string \<Rightarrow> exn + (json \<times> json)" where
  "set_backend backends key new_value =
     (case backends of
        JList bks \<Rightarrow>
          (case find_backend bks key of
             Inl err \<Rightarrow> Inl err
           | Inr index \<Rightarrow>
               if index = length bks then
                 (if new_value \<noteq> ''null''
                  then Inr (JList (bks @ [JObj [(key, JStr new_value)]]), JNull)
                  else Inr (backends, JNull))
               else if new_value \<noteq> ''null'' then
                 (case bks ! index of
                    JObj d \<Rightarrow>
                      Inr (JList (bks[index := JObj (dict_set d key (JStr new_value))]),
                           dict_get d key)
                  | other \<Rightarrow> Inl (attribute_error other ''get''))
               else Inr (JList (take index bks @ drop (Suc index) bks), JNull))
      | other \<Rightarrow>
          (case py_iter other of
             Inl err \<Rightarrow> Inl err
           | Inr [] \<Rightarrow>
               if new_value \<noteq> ''null'' then Inl (attribute_error other ''append'')
               else Inr (other, JNull)
           | Inr (x # _) \<Rightarrow> Inl (attribute_error x ''get'')))"

text \<open>
  The part of \<^verbatim>\<open>set\<close> between loading and saving. The result is on the left when the
  command ends there, with an uncaught exception or with an exit code; on the right it is
  the store after the assignment, \<^verbatim>\<open>old_value\<close> and \<^verbatim>\<open>new_value\<close>. The first
  parameter is the limit on the digits of \<^verbatim>\<open>int\<close>.
\<close>

definition set_assign ::
  "nat \<Rightarrow> world \<Rightarrow> dict \<Rightarrow> string \<Rightarrow> json \<Rightarrow> string \<Rightarrow> string \<Rightarrow>
   world \<times> ((exn + exit_code) + (dict \<times> json \<times> json))" where
  "set_assign max_str_digits w projects project_name desc key new_value =
     (case desc of
        JObj d \<Rightarrow>
          if starts_with key ''backends.'' then
            (case set_backend (dict_get d ''backends'') key new_value of
               Inl err \<Rightarrow> (w, Inl (Inl err))
             | Inr (backends', old_value) \<Rightarrow>
                 (w, Inr (dict_set projects project_name (JObj (dict_set d ''backends'' backends')),
                          old_value, JStr new_value)))
          else
            (case dict_index default_project key of
               Inl err \<Rightarrow> (w, Inl (Inl err))
             | Inr dv \<Rightarrow>
                 (case dv of
                    JInt _ \<Rightarrow>
                      (case parse_int max_str_digits new_value of
                         Inl msg \<Rightarrow>
                           (log_event
                              (log_event w FATAL msg)
                              FATAL (''invalid new value '' @ quoted new_value @
                                     '' for property '' @ quoted key),
                            Inl (Inr INVALID_VALUE))
                       | Inr converted \<Rightarrow>
                           (w, Inr (dict_set projects project_name
                                      (JObj (dict_set d key (JInt converted))),
                                    dict_get d key, JInt converted)))
                  | _ \<Rightarrow>
                      (w, Inr (dict_set projects project_name
                                 (JObj (dict_set d key (JStr new_value))),
                               dict_get d key, JStr new_value))))
      | _ \<Rightarrow> (w, Inl (Inl (attribute_error desc ''get''))))"

text \<open>
  \<^verbatim>\<open>set(args)\<close> on a fresh \<^verbatim>\<open>VerHel\<close> object: the trace afterwards, the store
  \<^verbatim>\<open>self.projects\<close> afterwards, and the exit code returned or the exception that
  leaves the command.
\<close>

definition set_command :: "env \<Rightarrow> world \<Rightarrow> set_args \<Rightarrow> world \<times> dict \<times> (exn + exit_code)" where
  "set_command e w a =
     (let w0 = log_event w INFO ''running set command''
      in case check_if_name_is_valid w0 (sa_property_name a) of
           (w1, Inl (VerHelError code)) \<Rightarrow> (w1, [], Inr code)
         | (w1, Inl err) \<Rightarrow> (w1, [], Inl err)
         | (w1, Inr key) \<Rightarrow>
      (case load_projects e w1 (sa_projects_file a) of
           (w2, Inl (VerHelError code)) \<Rightarrow> (w2, [], Inr code)
         | (w2, Inl err) \<Rightarrow> (w2, [], Inl err)
         | (w2, Inr projects) \<Rightarrow>
      (case check_if_project_exists w2 projects (sa_project a) of
           (w3, Inl (VerHelError code)) \<Rightarrow> (w3, projects, Inr code)
         | (w3, Inl err) \<Rightarrow> (w3, projects, Inl err)
         | (w3, Inr desc) \<Rightarrow>
      (case set_assign (m_max_str_digits e) w3 projects (sa_project a) desc key
              (sa_new_value a) of
           (w4, Inl (Inl err)) \<Rightarrow> (w4, projects, Inl err)
         | (w4, Inl (Inr code)) \<Rightarrow> (w4, projects, Inr code)
         | (w4, Inr (projects', old_value, new_value)) \<Rightarrow>
      (case save_projects e w4 projects' (sa_projects_file a) of
           (w5, Inl (VerHelError code)) \<Rightarrow> (w5, projects', Inr code)
         | (w5, Inl err) \<Rightarrow> (w5, projects', Inl err)
         | (w5, Inr _) \<Rightarrow>
             (log_event
                (log_event w5 LOG_SUCCESS
                   (if old_value = JNull then
                      ''successfully set value for '' @ quoted key @ '', new value '' @
                      quoted (py_str new_value)
                    else
                      ''successfully set value for '' @ quoted key @ '', old '' @
                      quoted (py_str old_value) @ '' new '' @ quoted (py_str new_value)))
                INFO ''set command finished'',
              projects', Inr SUCCESS))))))"

text \<open>An event that only logs.\<close>

definition is_logged :: "event \<Rightarrow> bool" where
  "is_logged ev = (case ev of Logged _ _ \<Rightarrow> True | _ \<Rightarrow> False)"

text \<open>The file \<open>file\<close> holds the store \<open>projects\<close>, whenever it is read.\<close>

definition holds_projects :: "env \<Rightarrow> string option \<Rightarrow> dict \<Rightarrow> bool" where
  "holds_projects e file_opt projects \<longleftrightarrow>
     (\<forall>w. m_read_json e w (case file_opt of None \<Rightarrow> PROJECTS_DEFAULT_FILE_NAME | Some f \<Rightarrow> f) =
          Loaded (JObj projects))"

subsection \<open>A small machine\<close>

text \<open>
  A projects file \<^verbatim>\<open>verhel.json\<close> with the project \<^verbatim>\<open>demo\<close> (no backends, no
  frontend) and the project \<^verbatim>\<open>legacy\<close> (no backends, the frontend \<^verbatim>\<open>svn\<close>, which
  \<^verbatim>\<open>FRONTENDS_DESC\<close> does not have), on a machine where every write succeeds.
\<close>

definition demo_projects :: dict where
  "demo_projects =
     [(''demo'',
         JObj [(''backends'', JList []), (''exclude'', JList []), (''frontend'', JNull),
               (''license.spdx'', JNull), (''license.file'', JNull),
               (''version.major'', JInt 0), (''version.minor'', JInt 1),
               (''version.patch'', JInt 0), (''version.pre_release'', JNull)]),
      (''legacy'',
         JObj [(''backends'', JList []), (''exclude'', JList []), (''frontend'', JStr ''svn''),
               (''license.spdx'', JNull), (''license.file'', JNull),
               (''version.major'', JInt 0), (''version.minor'', JInt 1),
               (''version.patch'', JInt 0), (''version.pre_release'', JNull)])]"

definition demo_env :: env where
  "demo_env =
     \<lparr> m_read_json = (\<lambda>w f. if f = ''verhel.json'' then Loaded (JObj demo_projects)
                             else ReadFailed ''No such file or directory''),
       m_write_fails = (\<lambda>w f. None),
       m_which = (\<lambda>w exe. exe = ''git''),
       m_run_cmd = demo_runner,
       m_cwd = (\<lambda>w. ''/work''),
       m_path_exists = (\<lambda>w p. True),
       m_mkdir_fails = (\<lambda>w p. None),
       m_chdir_fails = (\<lambda>w p. None),
       m_read_text = (\<lambda>w p. None),
       m_now = (\<lambda>w. \<lparr>date = ''2021-05-01'', time = ''12:00:00''\<rparr>),
       m_max_str_digits = 4300,
       m_address = (\<lambda>w. memory_a) \<rparr>"

subsection \<open>The command \<^verbatim>\<open>generate\<close>: its steps\<close>

text \<open>\<open>then_w r f\<close> runs \<open>f\<close> on the state and the value of \<open>r\<close> unless \<open>r\<close> raised.\<close>

definition then_w :: "world \<times> (exn + 'a) \<Rightarrow> (world \<Rightarrow> 'a \<Rightarrow> world \<times> (exn + 'b)) \<Rightarrow> world \<times> (exn + 'b)" where
  "then_w r f = (case r of (w, Inl err) \<Rightarrow> (w, Inl err) | (w, Inr x) \<Rightarrow> f w x)"

text \<open>\<^verbatim>\<open>validate_project\<close> and \<^verbatim>\<open>use_global_desc_values\<close> with their messages in the trace.\<close>

definition validate_project_w :: "world \<Rightarrow> dict \<Rightarrow> string \<Rightarrow> world \<times> (exn + unit)" where
  "validate_project_w w projects project_name =
     (log_all w (fst (validate_project projects project_name)),
      snd (validate_project projects project_name))"

definition use_global_desc_values_w ::
  "world \<Rightarrow> dict \<Rightarrow> string \<Rightarrow> string option \<Rightarrow> world \<times> (exn + dict)" where
  "use_global_desc_values_w w projects project_name glob_name =
     (log_all w (fst (use_global_desc_values projects project_name glob_name)),
      snd (use_global_desc_values projects project_name glob_name))"

text \<open>\<^verbatim>\<open>validate_version(desc)\<close>.\<close>

definition validate_version :: "world \<Rightarrow> json \<Rightarrow> world \<times> (exn + unit)" where
  "validate_version w desc =
     (case desc of
        JObj d \<Rightarrow>
          if dict_get d ''version.major'' = JNull then
            (log_event w FATAL ''version.major is null'', Inl (VerHelError VERSION_IS_NULL))
          else if dict_get d ''version.minor'' = JNull then
            (log_event w FATAL ''version.minor is null'', Inl (VerHelError VERSION_IS_NULL))
          else if dict_get d ''version.patch'' = JNull then
            (log_event w FATAL ''version.patch is null'', Inl (VerHelError VERSION_IS_NULL))
          else (w, Inr ())
      | _ \<Rightarrow> (w, Inl (attribute_error desc ''get'')))"

text \<open>The backend \<^verbatim>\<open>cpp\<close> of \<^verbatim>\<open>BACKENDS_DESC\<close>, as \<^verbatim>\<open>json.loads\<close> returns it.\<close>

definition cpp_backend :: dict where
  "cpp_backend =
     [(''version'', JStr ''1.0.0''),
      (''source.begin'', JStr ''#pragma once\<newline>\<newline>namespace verhel {\<newline>\<newline>''),
      (''source.comment'', JStr ''//''),
      (''source.end'', JStr ''\<newline>} // namespace verhel\<newline>''),
      (''format.bool'', JStr ''    inline constexpr auto {0} = {1};\<newline>''),
      (''format.number'', JStr ''    inline constexpr auto {0} = {1};\<newline>''),
      (''format.string'', JStr ''    inline constexpr auto {0} = \"{1!u}\";\<newline>''),
      (''format.var'', JStr ''{0!u}''),
      (''var_map'',
         JList [JObj [(''version.major'', JStr ''VERSION_MAJOR      '')],
                JObj [(''version.minor'', JStr ''VERSION_MINOR      '')],
                JObj [(''version.patch'', JStr ''VERSION_PATCH      '')],
                JObj [(''version.pre_release'', JStr ''VERSION_PRE_RELEASE'')],
                JObj [(''version.string'', JStr ''VERSION_STRING     '')],
                JObj [(''project.name'', JStr ''PROJECT_NAME       '')],
                JObj [(''project.author'', JStr ''PROJECT_AUTHOR     '')],
                JObj [(''project.license'', JStr ''PROJECT_LICENSE    '')],
                JObj [(''project.copyright'', JStr ''PROJECT_COPYRIGHT  '')],
                JObj [(''project.description'', JStr ''PROJECT_DESCRIPTION'')],
                JObj [(''project.directory'', JStr ''PROJECT_DIRECTORY  '')],
                JObj [(''project.path'', JStr ''PROJECT_PATH       '')],
                JObj [(''build.date'', JStr ''BUILD_DATE         '')],
                JObj [(''build.time'', JStr ''BUILD_TIME         '')],
                JObj [(''vcs.name'', JStr ''VCS_NAME           '')],
                JObj [(''vcs.commit_hash'', JStr ''VCS_COMMIT_HASH    '')],
                JObj [(''vcs.short_hash'', JStr ''VCS_SHORT_HASH     '')],
                JObj [(''vcs.tag'', JStr ''VCS_TAG            '')],
                JObj [(''vcs.branch'', JStr ''VCS_BRANCH         '')],
                JObj [(''vcs.commit_count'', JStr ''VCS_COMMIT_COUNT   '')]])]"

text \<open>
  \<^verbatim>\<open>load_frontends(file_name)\<close> and \<^verbatim>\<open>load_backends(file_name)\<close> differ in the word
  they log, the built-in description and the exit code: \<open>load_store kind builtin code\<close>
  is both. Without a file name the built-in description is parsed, which succeeds.
\<close>

definition load_store ::
  "string \<Rightarrow> dict \<Rightarrow> exit_code \<Rightarrow> env \<Rightarrow> world \<Rightarrow> string option \<Rightarrow> world \<times> (exn + dict)" where
  "load_store kind builtin code e w file_name_opt =
     (let load_from = (case file_name_opt of None \<Rightarrow> ''internal description'' | Some f \<Rightarrow> f);
          w1 = log_event w INFO (''loading '' @ kind @ '' from '' @ quoted load_from);
          loaded =
            (case file_name_opt of
               None \<Rightarrow>
                 (log_event (log_event w1 INFO ''loading json from buffer'')
                    LOG_SUCCESS ''loaded json from buffer succesfully'',
                  Some (JObj builtin))
             | Some f \<Rightarrow> load_from_file e w1 f)
      in case loaded of
           (w2, None) \<Rightarrow>
             (log_event w2 FATAL (''failed to load '' @ kind), Inl (VerHelError code))
         | (w2, Some root) \<Rightarrow>
             (case py_len root of
                Inl err \<Rightarrow> (w2, Inl err)
              | Inr n \<Rightarrow>
                  (let w3 = log_event w2 LOG_SUCCESS
                              (''loaded '' @ kind @ '' ('' @ str_nat n @ '')'')
                   in case root of
                        JObj store \<Rightarrow>
                          (log_event w3 DEBUG
                             (''loaded '' @ kind @ '': '' @
                              py_repr (JList (map JStr (dict_keys store)))),
                           Inr store)
                      | _ \<Rightarrow> (w3, Inl (attribute_error root ''keys'')))))"

definition load_frontends :: "env \<Rightarrow> world \<Rightarrow> string option \<Rightarrow> world \<times> (exn + dict)" where
  "load_frontends = load_store ''frontends'' [(''git'', JObj git_frontend)] FAILED_TO_LOAD_FRONTENDS"

definition load_backends :: "env \<Rightarrow> world \<Rightarrow> string option \<Rightarrow> world \<times> (exn + dict)" where
  "load_backends = load_store ''backends'' [(''cpp'', JObj cpp_backend)] FAILED_TO_LOAD_BACKENDS"

text \<open>
  \<^verbatim>\<open>store.get(key)\<close> for a key that need not be a string: a list or a dictionary
  cannot be hashed, any other value that is not a string is not a key of the store.
\<close>

definition store_get :: "dict \<Rightarrow> json \<Rightarrow> exn + json" where
  "store_get store key =
     (case key of
        JStr name \<Rightarrow> Inr (dict_get store name)
      | JList _ \<Rightarrow> Inl (PyError ''TypeError'' (''unhashable type: '' @ quoted ''list''))
      | JObj _ \<Rightarrow> Inl (PyError ''TypeError'' (''unhashable type: '' @ quoted ''dict''))
      | _ \<Rightarrow> Inr JNull)"

definition check_if_frontend_exists :: "world \<Rightarrow> dict \<Rightarrow> json \<Rightarrow> world \<times> (exn + json)" where
  "check_if_frontend_exists w frontends frontend_name =
     (let w1 = log_event w INFO (''checking if frontend '' @ quoted (py_str frontend_name) @
                                 '' is implemented'')
      in case store_get frontends frontend_name of
           Inl err \<Rightarrow> (w1, Inl err)
         | Inr frontend \<Rightarrow>
             if frontend = JNull then
               (log_event w1 FATAL (''frontend '' @ quoted (py_str frontend_name) @
                                    '' doesn'' @ [CHR 0x27] @ ''t exists''),
                Inl (VerHelError FRONTEND_DOESNT_EXISTS))
             else
               (log_event w1 LOG_SUCCESS (''fronted '' @ quoted (py_str frontend_name) @
                                          '' found''),
                Inr frontend))"

text \<open>
  \<^verbatim>\<open>check_if_vcs_is_installed(frontend)\<close>; \<^verbatim>\<open>shutil.which\<close> takes a string.
\<close>

definition check_if_vcs_is_installed :: "env \<Rightarrow> world \<Rightarrow> json \<Rightarrow> world \<times> (exn + unit)" where
  "check_if_vcs_is_installed e w frontend =
     (case frontend of
        JObj f \<Rightarrow>
          (let exe_name = dict_get f ''exe'';
               w1 = log_event w INFO (''checking if vcs executable '' @
                                      quoted (py_str exe_name) @ '' is found'')
           in case exe_name of
                JStr exe \<Rightarrow>
                  if \<not> m_which e w1 exe then
                    (log_event w1 FATAL ''vcs is not installed or not in path'',
                     Inl (VerHelError VERSION_CONTROL_NOT_INSTALLED))
                  else
                    (log_event w1 LOG_SUCCESS (''vcs executable '' @ quoted exe @ '' found''),
                     Inr ())
              | _ \<Rightarrow>
                  (w1, Inl (PyError ''TypeError''
                     (''expected str, bytes or os.PathLike object, not '' @
                      type_name exe_name))))
      | _ \<Rightarrow> (w, Inl (attribute_error frontend ''get'')))"

text \<open>
  \<^verbatim>\<open>check_if_backends_exists(backends_list)\<close>. The names are collected first, by the
  list comprehension; the counter \<^verbatim>\<open>found\<close> counts the backends that are missing, as
  in the source.
\<close>

fun backend_names :: "json list \<Rightarrow> exn + string list" where
  "backend_names [] = Inr []"
| "backend_names (bk # rest) =
     (case bk of
        JObj d \<Rightarrow> map_sum id ((@) (dict_keys d)) (backend_names rest)
      | _ \<Rightarrow> Inl (attribute_error bk ''items''))"

fun check_backend_names :: "world \<Rightarrow> dict \<Rightarrow> bool \<Rightarrow> string list \<Rightarrow> nat \<Rightarrow> world \<times> (exn + nat)" where
  "check_backend_names w backends fatal [] found = (w, Inr found)"
| "check_backend_names w backends fatal (name # names) found =
     (if dict_get backends name = JNull then
        (if fatal then
           (log_event w FATAL (''backend '' @ quoted name @ '' not found''),
            Inl (VerHelError BACKEND_DOESNT_EXISTS))
         else
           check_backend_names (log_event w ERROR (''backend '' @ quoted name @ '' not found''))
             backends fatal names (Suc found))
      else
        check_backend_names (log_event w LOG_SUCCESS (''backend '' @ quoted name @ '' found''))
          backends fatal names found)"

definition check_if_backends_exists ::
  "world \<Rightarrow> dict \<Rightarrow> bool \<Rightarrow> json \<Rightarrow> world \<times> (exn + unit)" where
  "check_if_backends_exists w backends fatal backends_list =
     (case py_iter backends_list of
        Inl err \<Rightarrow> (w, Inl err)
      | Inr bks \<Rightarrow>
          (case backend_names bks of
             Inl err \<Rightarrow> (w, Inl err)
           | Inr names \<Rightarrow>
               then_w
                 (check_backend_names
                    (log_event w INFO (''checking if backends '' @
                       quoted (py_repr (JList (map JStr names))) @ '' are implemented''))
                    backends fatal names 0)
                 (\<lambda>w1 found.
                    if found = length bks then
                      (log_event w1 LOG_SUCCESS ''all backends used by project are implemented'',
                       Inr ())
                    else
                      (log_event w1 WARNING ''not all backends used by project are implemented'',
                       Inr ()))))"

text \<open>
  \<^verbatim>\<open>cd_into_project_directory(desc)\<close>. The source calls
  \<^verbatim>\<open>pathlib.Path.is_absolute\<close> on the string \<^verbatim>\<open>project_directory\<close>, which raises
  \<^verbatim>\<open>AttributeError\<close> (the attribute named in the message depends on the Python
  version).
\<close>

definition cd_into_project_directory :: "env \<Rightarrow> world \<Rightarrow> json \<Rightarrow> world \<times> (exn + unit)" where
  "cd_into_project_directory e w desc =
     (let w1 = log_event w INFO ''building project path''
      in case desc of
           JObj d \<Rightarrow>
             if dict_get d ''project.directory'' \<noteq> JNull then
               (w1, Inl (attribute_error (dict_get d ''project.directory'') ''_root''))
             else
               (let full_path = m_cwd e w1 in
                then_w
                  (if \<not> m_path_exists e w1 full_path then
                     (let w2 = log_event w1 INFO
                                 (''project directory don'' @ [CHR 0x27] @ ''t exist, creating'')
                      in case m_mkdir_fails e w2 full_path of
                           Some msg \<Rightarrow> (w2, Inl (PyError ''OSError'' msg))
                         | None \<Rightarrow> (w2 @ [MadeDirs full_path], Inr ()))
                   else (w1, Inr ()))
                  (\<lambda>w3 _.
                     (let w4 = log_event w3 INFO (''changing directory to '' @ quoted full_path)
                      in case m_chdir_fails e w4 full_path of
                           Some msg \<Rightarrow>
                             (log_event (log_event w4 FATAL ''failed to change directory'')
                                ERROR msg,
                              Inl (VerHelError FAILED_TO_ENTER_PROJECT_DIR))
                         | None \<Rightarrow>
                             (log_event (w4 @ [ChangedDir full_path]) LOG_SUCCESS
                                ''successfuly cd into project directory'',
                              Inr ()))))
         | _ \<Rightarrow> (w1, Inl (attribute_error desc ''get'')))"

text \<open>\<^verbatim>\<open>check_if_project_repo_exists(frontend)\<close>.\<close>

definition check_if_project_repo_exists :: "env \<Rightarrow> world \<Rightarrow> json \<Rightarrow> world \<times> (exn + unit)" where
  "check_if_project_repo_exists e w frontend =
     (let w1 = log_event w INFO ''checking if repo exists''
      in case frontend of
           JObj f \<Rightarrow>
             (case dict_get f ''get.repo'' of
                JObj get_repo \<Rightarrow>
                  (case m_run_cmd e w1 (dict_get get_repo ''cmd'') of
                     (w2, Inl msg) \<Rightarrow>
                       (log_event w2 ERROR msg, Inl (VerHelError REPO_DOESNT_EXISTS))
                   | (w2, Inr (ret, out)) \<Rightarrow>
                       (case py_contains_int (dict_get get_repo ''ret_codes'') ret of
                          Inl err \<Rightarrow> (w2, Inl err)
                        | Inr False \<Rightarrow>
                            (log_event w2 FATAL
                               (''version control repository doesn'' @ [CHR 0x27] @ ''t exists''),
                             Inl (VerHelError REPO_DOESNT_EXISTS))
                        | Inr True \<Rightarrow>
                            (log_event w2 LOG_SUCCESS ''version control repository found'',
                             Inr ())))
              | other \<Rightarrow>
                  (log_event w1 ERROR
                     (quoted (type_name other) @ '' object has no attribute '' @ quoted ''get''),
                   Inl (VerHelError REPO_DOESNT_EXISTS)))
         | _ \<Rightarrow> (w1, Inl (attribute_error frontend ''get'')))"

text \<open>
  The body of the loops of \<^verbatim>\<open>verhel_generate_sources\<close> for one item
  \<^verbatim>\<open>bk_name, bk_output\<close>: the trace afterwards and the new value of
  \<^verbatim>\<open>num_success\<close>. Paths are kept as they are written in the descriptor, without the
  normalisation of \<^verbatim>\<open>pathlib\<close>; \<open>MadeDirs p\<close> stands for the creation of the parent
  directories of \<open>p\<close>.
\<close>

definition generate_one ::
  "env \<Rightarrow> world \<Rightarrow> dict \<Rightarrow> dict \<Rightarrow> string option \<Rightarrow> json \<Rightarrow> nat \<Rightarrow> string \<times> json \<Rightarrow>
   world \<times> (exn + nat)" where
  "generate_one e w backends cooked_info license_text exclude num_success item =
     (case dict_get backends (fst item) of
        JNull \<Rightarrow>
          (log_event w ERROR (''    backend '' @ quoted (fst item) @ '' is not implemented''),
           Inr num_success)
      | found \<Rightarrow>
          (let w0 = log_event w INFO (''    generating source using '' @ quoted (fst item) @
                                     '' backend'')
           in case found of
                JObj backend \<Rightarrow>
                  then_w (backend_generate log_event w0 (m_address e w0) backend cooked_info
                            license_text exclude)
                    (\<lambda>w1 buffer.
                       case snd item of
                         JStr output_path \<Rightarrow>
                           (case m_mkdir_fails e w1 output_path of
                              Some msg \<Rightarrow> (w1, Inl (PyError ''OSError'' msg))
                            | None \<Rightarrow>
                                (let w2 = w1 @ [MadeDirs output_path,
                                                WroteFile output_path buffer]
                                 in case m_write_fails e (w1 @ [MadeDirs output_path])
                                           output_path of
                                      Some msg \<Rightarrow>
                                        (log_event
                                           (log_event w2 ERROR (''    can'' @ [CHR 0x27] @
                                              ''t open or write '' @ quoted output_path))
                                           ERROR (''    '' @ msg),
                                         Inr num_success)
                                    | None \<Rightarrow>
                                        (log_event w2 LOG_SUCCESS
                                           (''    successfully wrote '' @ quoted output_path @
                                            '' ('' @ str_nat (length buffer) @ '' b)''),
                                         Inr (Suc num_success))))
                       | other \<Rightarrow>
                           (w1, Inl (PyError ''TypeError''
                              (''expected str, bytes or os.PathLike object, not '' @
                               type_name other))))
              | _ \<Rightarrow> (w0, Inl (attribute_error found ''get''))))"

fun generate_items ::
  "env \<Rightarrow> world \<Rightarrow> dict \<Rightarrow> dict \<Rightarrow> string option \<Rightarrow> json \<Rightarrow> nat \<Rightarrow> (string \<times> json) list \<Rightarrow>
   world \<times> (exn + nat)" where
  "generate_items e w backends cooked_info license_text exclude num_success [] =
     (w, Inr num_success)"
| "generate_items e w backends cooked_info license_text exclude num_success (item # items) =
     then_w (generate_one e w backends cooked_info license_text exclude num_success item)
       (\<lambda>w1 n. generate_items e w1 backends cooked_info license_text exclude n items)"

fun generate_entries ::
  "env \<Rightarrow> world \<Rightarrow> dict \<Rightarrow> dict \<Rightarrow> string option \<Rightarrow> json \<Rightarrow> nat \<Rightarrow> json list \<Rightarrow>
   world \<times> (exn + nat)" where
  "generate_entries e w backends cooked_info license_text exclude num_success [] =
     (w, Inr num_success)"
| "generate_entries e w backends cooked_info license_text exclude num_success (bd # rest) =
     (case bd of
        JObj items \<Rightarrow>
          then_w (generate_items e w backends cooked_info license_text exclude num_success items)
            (\<lambda>w1 n. generate_entries e w1 backends cooked_info license_text exclude n rest)
      | _ \<Rightarrow> (w, Inl (attribute_error bd ''items'')))"

text \<open>\<^verbatim>\<open>verhel_generate_sources(project_name, desc, vcs_info)\<close>.\<close>

definition verhel_generate_sources ::
  "env \<Rightarrow> world \<Rightarrow> dict \<Rightarrow> string \<Rightarrow> dict \<Rightarrow> dict \<Rightarrow> world \<times> (exn + nat)" where
  "verhel_generate_sources e w backends project_name desc vcs_info =
     (let bi = m_now e w in
      case dict_index desc ''license.file'' of
        Inl err \<Rightarrow> (w, Inl err)
      | Inr license_file \<Rightarrow>
          then_w
            (case license_file of
               JNull \<Rightarrow> (w, Inr None)
             | JStr path \<Rightarrow>
                 (case m_read_text e w path of
                    None \<Rightarrow>
                      (log_event w ERROR (''failed to load license file '' @ quoted path),
                       Inr None)
                  | Some buffer \<Rightarrow> (w, Inr (Some buffer)))
             | other \<Rightarrow> (w, Inl (Unmodelled ''open'')))
            (\<lambda>w1 license_text.
               (let cooked_info = cook_info project_name desc bi vcs_info (m_cwd e w1);
                    exclude = (if dict_get desc ''exclude'' = JNull then JList []
                               else dict_get desc ''exclude'');
                    w2 = log_all w1
                           [(INFO, ''cooking info for backend''),
                            (LOG_SUCCESS, ''cooking finished''),
                            (DEBUG, ''cooked info: '' @ py_repr (JObj cooked_info)),
                            (INFO, ''running generate for project '' @ quoted project_name @
                                   ''...'')]
                in case py_iter (dict_get desc ''backends'') of
                     Inl err \<Rightarrow> (w2, Inl err)
                   | Inr entries \<Rightarrow>
                       generate_entries e w2 backends cooked_info license_text exclude 0
                         entries)))"

subsection \<open>The command \<^verbatim>\<open>generate\<close>\<close>

record gen_args =
  ga_project :: string
  ga_projects_file :: "string option"
  ga_frontends_file :: "string option"
  ga_backends_file :: "string option"
  ga_global_desc_name :: "string option"
  ga_emit_default :: bool
  ga_fatal_if_backend_not_impl :: bool

text \<open>
  The first \<^verbatim>\<open>try\<close> block of \<^verbatim>\<open>generate\<close>: the store after it, in which the
  descriptor of the project has its null fields filled from the global descriptor.
\<close>

definition load_and_validate :: "env \<Rightarrow> world \<Rightarrow> gen_args \<Rightarrow> world \<times> (exn + dict)" where
  "load_and_validate e w a =
     then_w (load_projects e w (ga_projects_file a)) (\<lambda>w1 projects.
     then_w (check_if_project_exists w1 projects (ga_project a)) (\<lambda>w2 desc.
     then_w (validate_project_w w2 projects (ga_project a)) (\<lambda>w3 _.
     then_w
       (case ga_global_desc_name a of
          None \<Rightarrow> (w3, Inr projects)
        | Some glob_desc_name \<Rightarrow>
            then_w (validate_project_w w3 projects glob_desc_name) (\<lambda>w4 _.
              use_global_desc_values_w w4 projects (ga_project a) (Some glob_desc_name)))
       (\<lambda>w5 projects'.
          then_w (validate_version w5 (dict_get projects' (ga_project a)))
            (\<lambda>w6 _. (w6, Inr projects'))))))"

text \<open>
  The block \<^verbatim>\<open># Load frontends if project uses one.\<close>: the frontend descriptor, or
  null when the project has no frontend.
\<close>

definition load_frontend :: "env \<Rightarrow> world \<Rightarrow> gen_args \<Rightarrow> json \<Rightarrow> world \<times> (exn + json)" where
  "load_frontend e w a vcs =
     (if vcs \<noteq> JNull then
        then_w (load_frontends e w (ga_frontends_file a)) (\<lambda>w1 frontends.
        then_w (check_if_frontend_exists w1 frontends vcs) (\<lambda>w2 frontend.
        then_w (check_if_vcs_is_installed e w2 frontend) (\<lambda>w3 _. (w3, Inr frontend))))
      else (w, Inr JNull))"

text \<open>
  The rest of \<^verbatim>\<open>generate\<close> once the backends are known to be a non-empty list: from
  \<^verbatim>\<open>load_backends\<close> to the last message. The \<^verbatim>\<open>try\<close> around the repository check
  catches every exception.
\<close>

definition generate_outputs ::
  "env \<Rightarrow> world \<Rightarrow> gen_args \<Rightarrow> dict \<Rightarrow> json \<Rightarrow> json \<Rightarrow> json \<Rightarrow> nat \<Rightarrow>
   world \<times> (exn + exit_code)" where
  "generate_outputs e w a desc vcs frontend backends_list n =
     then_w (load_backends e w (ga_backends_file a)) (\<lambda>w1 backends.
     then_w (check_if_backends_exists w1 backends (ga_fatal_if_backend_not_impl a) backends_list)
       (\<lambda>w2 _.
     then_w (cd_into_project_directory e w2 (JObj desc)) (\<lambda>w3 _.
     then_w
       (if vcs \<noteq> JNull then
          (case check_if_project_repo_exists e w3 frontend of
             (w4, Inl _) \<Rightarrow> (w4, Inl (VerHelError REPO_DOESNT_EXISTS))
           | (w4, Inr _) \<Rightarrow>
               (case (frontend, vcs) of
                  (JObj f, JStr frontend_name) \<Rightarrow>
                    get_vcs_info (m_max_str_digits e) log_event (m_run_cmd e) w4 f
                      frontend_name
                | _ \<Rightarrow> (w4, Inl (Unmodelled ''get_vcs_info''))))
        else (w3, Inr []))
       (\<lambda>w5 vcs_info.
     then_w (verhel_generate_sources e w5 backends (ga_project a) desc vcs_info)
       (\<lambda>w6 num_success.
          (log_event
             (log_event w6 (if num_success = n then LOG_SUCCESS else WARNING)
                (''successfully generated for '' @ str_nat num_success @ ''/'' @ str_nat n @
                 '' backends''))
             INFO ''generate command finished'',
           Inr SUCCESS))))))"

text \<open>
  Every \<^verbatim>\<open>VerHelError\<close> raised in \<^verbatim>\<open>generate\<close> is raised inside a \<^verbatim>\<open>try\<close> block
  that returns its error code.
\<close>

definition return_error_code :: "world \<times> (exn + exit_code) \<Rightarrow> world \<times> (exn + exit_code)" where
  "return_error_code r =
     (case r of (w, Inl (VerHelError code)) \<Rightarrow> (w, Inr code) | _ \<Rightarrow> r)"

text \<open>
  \<^verbatim>\<open>generate(args)\<close> on a fresh \<^verbatim>\<open>VerHel\<close> object: the trace afterwards, and the exit
  code returned or the exception that leaves the command.
\<close>

definition generate :: "env \<Rightarrow> world \<Rightarrow> gen_args \<Rightarrow> world \<times> (exn + exit_code)" where
  "generate e w a =
     return_error_code
       (then_w (load_and_validate e (log_event w INFO ''running generate command'') a)
          (\<lambda>w1 projects.
             case dict_get projects (ga_project a) of
               JObj desc \<Rightarrow>
                 then_w (load_frontend e w1 a (dict_get desc ''frontend'')) (\<lambda>w2 frontend.
                   (let backends_list = dict_get desc ''backends'' in
                    if backends_list = JNull then
                      (log_event
                         (log_event w2 WARNING (''no backends found in project '' @
                                                quoted (ga_project a)))
                         INFO ''nothing to do, terminating'',
                       Inr SUCCESS)
                    else
                      (case py_len backends_list of
                         Inl err \<Rightarrow> (w2, Inl err)
                       | Inr n \<Rightarrow>
                           if n > 0 then
                             generate_outputs e w2 a desc (dict_get desc ''frontend'') frontend
                               backends_list n
                           else
                             (log_event
                                (log_event w2 WARNING (''no backends found in project '' @
                                                       quoted (ga_project a)))
                                INFO ''nothing to do, terminating'',
                              Inr SUCCESS))))
             | other \<Rightarrow> (w1, Inl (attribute_error other ''get''))))"

text \<open>\<open>only_logged w w'\<close>: the trace \<open>w'\<close> is \<open>w\<close> followed by log messages only.\<close>

definition only_logged :: "world \<Rightarrow> world \<Rightarrow> bool" where
  "only_logged w w' \<longleftrightarrow> (\<exists>l. w' = w @ l \<and> list_all is_logged l)"

section \<open>Basic facts about dictionaries\<close>

lemma dict_get_set_same: "dict_get (dict_set d k v) k = v"
  by (induction d) (auto simp: dict_get_def)

lemma dict_get_set_other: "k' \<noteq> k \<Longrightarrow> dict_get (dict_set d k v) k' = dict_get d k'"
  by (induction d) (auto simp: dict_get_def)

lemma dict_get_Nil: "dict_get [] k = JNull"
  by (simp add: dict_get_def)

lemma dict_get_Cons: "dict_get (p # d) k = (if fst p = k then snd p else dict_get d k)"
  by (cases p) (simp add: dict_get_def)

section \<open>The version string\<close>

lemma cook_info_version_string_key:
  "dict_get (cook_info project_name desc bi vcs_info cwd) ''version.string'' =
   dict_get (cook_version desc) ''version.string''"
  by (simp add: cook_info_def Let_def dict_get_set_other)

lemma cook_info_pre_release_key:
  "dict_get (cook_info project_name desc bi vcs_info cwd) ''version.pre_release'' =
   dict_get (cook_version desc) ''version.pre_release''"
  by (simp add: cook_info_def Let_def dict_get_set_other)

text \<open>
  C1. When \<^verbatim>\<open>version.major\<close>, \<^verbatim>\<open>version.minor\<close> and \<^verbatim>\<open>version.patch\<close> of the
  descriptor are integers, the cooked \<^verbatim>\<open>version.string\<close> is
  \<^verbatim>\<open>{major}.{minor}.{patch}-{pre_release}\<close> when \<^verbatim>\<open>version.pre_release\<close> is not null,
  and \<^verbatim>\<open>{major}.{minor}.{patch}\<close> when it is null; in the second case the cooked
  \<^verbatim>\<open>version.pre_release\<close> is the empty string.
\<close>

theorem cook_info_version_string:
  assumes "dict_get desc ''version.major'' = JInt a"
      and "dict_get desc ''version.minor'' = JInt b"
      and "dict_get desc ''version.patch'' = JInt c"
  shows "(dict_get desc ''version.pre_release'' \<noteq> JNull \<longrightarrow>
            dict_get (cook_info project_name desc bi vcs_info cwd) ''version.string'' =
              JStr (str_int a @ ''.'' @ str_int b @ ''.'' @ str_int c @ ''-'' @
                    py_str (dict_get desc ''version.pre_release'')))
       \<and> (dict_get desc ''version.pre_release'' = JNull \<longrightarrow>
            dict_get (cook_info project_name desc bi vcs_info cwd) ''version.string'' =
              JStr (str_int a @ ''.'' @ str_int b @ ''.'' @ str_int c)
            \<and> dict_get (cook_info project_name desc bi vcs_info cwd) ''version.pre_release'' =
              JStr [])"
  using assms
  by (simp add: cook_info_version_string_key cook_info_pre_release_key cook_version_def Let_def
        dict_get_Nil dict_get_Cons dict_get_set_other dict_get_set_same
        version_string4_def version_string3_def py_str_def)

theorem cook_info_version_string_witness:
  "dict_get (cook_info ''demo''
       [(''version.major'', JInt 1), (''version.minor'', JInt 2), (''version.patch'', JInt 3),
        (''version.pre_release'', JStr ''beta'')]
       \<lparr>date = ''2021-05-01'', time = ''12:00:00''\<rparr> [] ''/work'') ''version.string'' =
     JStr ''1.2.3-beta''
   \<and> dict_get (cook_info ''demo''
       [(''version.major'', JInt 1), (''version.minor'', JInt 2), (''version.patch'', JInt 3),
        (''version.pre_release'', JNull)]
       \<lparr>date = ''2021-05-01'', time = ''12:00:00''\<rparr> [] ''/work'') ''version.string'' =
     JStr ''1.2.3''
   \<and> dict_get (cook_info ''demo''
       [(''version.major'', JInt 1), (''version.minor'', JInt 2), (''version.patch'', JInt 3),
        (''version.pre_release'', JNull)]
       \<lparr>date = ''2021-05-01'', time = ''12:00:00''\<rparr> [] ''/work'') ''version.pre_release'' =
     JStr []"
  using cook_info_version_string [of
      "[(''version.major'', JInt 1), (''version.minor'', JInt 2), (''version.patch'', JInt 3),
        (''version.pre_release'', JStr ''beta'')]" 1 2 3
      "''demo''" "\<lparr>date = ''2021-05-01'', time = ''12:00:00''\<rparr>" "[]" "''/work''"]
    cook_info_version_string [of
      "[(''version.major'', JInt 1), (''version.minor'', JInt 2), (''version.patch'', JInt 3),
        (''version.pre_release'', JNull)]" 1 2 3
      "''demo''" "\<lparr>date = ''2021-05-01'', time = ''12:00:00''\<rparr>" "[]" "''/work''"]
  by (simp add: dict_get_Cons dict_get_Nil py_str_def str_int_def str_nat.simps)

section \<open>Validation rejects a bad backends list\<close>

lemma good_entryE: "good_entry e \<Longrightarrow> \<exists>k s. e = JObj [(k, JStr s)]"
  by (auto simp: good_entry_def split: json.splits list.splits)


lemma py_index_Some: "py_index bl x = Some i \<Longrightarrow> i < length bl \<and> py_eq (bl ! i) x"
  by (induction bl arbitrary: i) (auto split: if_splits)

lemma and_then_None: "and_then a b = None \<longleftrightarrow> a = None \<and> b = None"
  by (cases a) (auto simp: and_then_def)

lemma check_str_None: "check d k py_string = None \<Longrightarrow> dict_get d k = JNull \<or> (\<exists>s. dict_get d k = JStr s)"
  by (cases "dict_get d k") (auto simp: check_def Let_def split: if_splits)

lemma check_backend_entry_None:
  assumes "check_backend_entry bl e = None"
  shows "e = JObj [] \<or> good_entry e"
proof -
  from assms obtain items where e: "e = JObj items" and len: "length items \<le> 1"
    and it: "check_backend_items items items = None"
    by (auto simp: check_backend_entry_def split: option.splits json.splits if_splits)
  show ?thesis
  proof (cases items)
    case Nil
    with e show ?thesis by simp
  next
    case (Cons p rest)
    with len have rest: "rest = []" by simp
    from it Cons rest have c: "check [p] (fst p) py_string = None" and nn: "snd p \<noteq> JNull"
      by (auto simp: and_then_None split: if_splits)
    from check_str_None[OF c] nn obtain s where "snd p = JStr s"
      by (auto simp: dict_get_Cons)
    with e Cons rest show ?thesis by (simp add: good_entry_def)
  qed
qed

lemma check_backend_entries_None:
  "check_backend_entries bl rest = None \<Longrightarrow> \<forall>e\<in>set rest. e = JObj [] \<or> good_entry e"
  by (induction rest) (auto simp: and_then_None dest: check_backend_entry_None)

lemma inner_empty:
  "i \<in> set js \<Longrightarrow> i \<noteq> idx \<Longrightarrow> bl ! i = JObj [] \<Longrightarrow>
   check_duplicates_inner bl idx name output js \<noteq> None"
  by (induction js) (auto simp: py_get_def first_key_def dict_get_Nil split: sum.splits)

lemma inner_clash:
  "i \<in> set js \<Longrightarrow> i \<noteq> idx \<Longrightarrow> bl ! i = JObj [(k, JStr s)] \<Longrightarrow>
   k = name \<or> output = JStr s \<Longrightarrow>
   check_duplicates_inner bl idx name output js \<noteq> None"
  by (induction js) (auto simp: py_get_def first_key_def dict_get_Cons dict_get_Nil split: sum.splits)

lemma check_duplicates_hit:
  "e \<in> set rest \<Longrightarrow> check_duplicates_entry bl e \<noteq> None \<Longrightarrow> check_duplicates bl rest \<noteq> None"
  by (induction rest) (auto simp: and_then_None)

lemma duplicates_entry_with_empty:
  assumes q: "q < length bl" "bl ! q = JObj []"
      and e: "e = JObj [] \<or> good_entry e"
  shows "check_duplicates_entry bl e \<noteq> None"
proof (cases "py_index bl e")
  case None
  then show ?thesis by (simp add: check_duplicates_entry_def)
next
  case (Some idx)
  from e show ?thesis
  proof
    assume "e = JObj []"
    with Some show ?thesis by (simp add: check_duplicates_entry_def first_key_def)
  next
    assume "good_entry e"
    then obtain k s where ek: "e = JObj [(k, JStr s)]" using good_entryE by blast
    from py_index_Some[OF Some] have "py_eq (bl ! idx) e" by simp
    with ek q have "q \<noteq> idx" by auto
    moreover from q have "q \<in> set [0..<length bl]" by simp
    ultimately have "check_duplicates_inner bl idx k (JStr s) [0..<length bl] \<noteq> None"
      using q(2) inner_empty by blast
    with Some ek show ?thesis
      by (simp add: check_duplicates_entry_def first_key_def py_get_def dict_get_Cons)
  qed
qed

lemma duplicates_entry_clash:
  assumes i: "i < length bl" "bl ! i = JObj [(k, JStr s)]"
      and j: "j < length bl" "bl ! j = JObj [(k', JStr s')]"
      and ij: "i \<noteq> j" and clash: "k' = k \<or> s' = s"
  shows "check_duplicates_entry bl (bl ! i) \<noteq> None"
proof (cases "py_index bl (bl ! i)")
  case None
  then show ?thesis by (simp add: check_duplicates_entry_def)
next
  case (Some idx)
  have "check_duplicates_inner bl idx k (JStr s) [0..<length bl] \<noteq> None"
  proof (cases "idx = i")
    case True
    with ij have "j \<noteq> idx" by simp
    moreover from j have "j \<in> set [0..<length bl]" by simp
    ultimately show ?thesis using j(2) clash inner_clash[of j "[0..<length bl]" idx bl k' s' k "JStr s"]
      by auto
  next
    case False
    moreover from i have "i \<in> set [0..<length bl]" by simp
    ultimately show ?thesis using i(2) inner_clash[of i "[0..<length bl]" idx bl k s k "JStr s"]
      by auto
  qed
  with Some i(2) show ?thesis
    by (simp add: check_duplicates_entry_def first_key_def py_get_def dict_get_Cons)
qed

lemma good_single: "good_entry e \<Longrightarrow> single_key_object e"
  by (auto simp: good_entry_def single_key_object_def split: json.splits list.splits)

lemma good_entry_nth:
  "\<forall>e\<in>set bl. good_entry e \<Longrightarrow> i < length bl \<Longrightarrow> \<exists>k s. bl ! i = JObj [(k, JStr s)]"
  using good_entryE nth_mem by metis

lemma good_no_null: "good_entry e \<Longrightarrow> JNull \<notin> entry_outputs e"
  by (auto simp: entry_outputs_def dest!: good_entryE)

lemma share_single:
  "entry_names (JObj [(k, JStr s)]) \<inter> entry_names (JObj [(k', JStr s')]) \<noteq> {}
   \<or> entry_outputs (JObj [(k, JStr s)]) \<inter> entry_outputs (JObj [(k', JStr s')]) \<noteq> {}
   \<Longrightarrow> k' = k \<or> s' = s"
  by (auto simp: entry_names_def entry_outputs_def)

lemma all_good_clash:
  assumes good: "\<forall>e\<in>set bl. good_entry e"
      and ij: "i < length bl" "j < length bl" "i \<noteq> j"
      and sh: "entry_names (bl ! i) \<inter> entry_names (bl ! j) \<noteq> {}
               \<or> entry_outputs (bl ! i) \<inter> entry_outputs (bl ! j) \<noteq> {}"
  shows "check_duplicates bl bl \<noteq> None"
proof -
  from good_entry_nth[OF good ij(1)] obtain k s where ei: "bl ! i = JObj [(k, JStr s)]" by blast
  from good_entry_nth[OF good ij(2)] obtain k' s' where ej: "bl ! j = JObj [(k', JStr s')]" by blast
  from sh have "k' = k \<or> s' = s" unfolding ei ej by (rule share_single)
  from duplicates_entry_clash[OF ij(1) ei ij(2) ej ij(3) this]
  have "check_duplicates_entry bl (bl ! i) \<noteq> None" .
  moreover from ij have "bl ! i \<in> set bl" by simp
  ultimately show ?thesis by (rule check_duplicates_hit[rotated])
qed

lemma with_empty_rejected:
  assumes shape: "\<forall>e\<in>set bl. e = JObj [] \<or> good_entry e"
      and mem: "JObj [] \<in> set bl"
  shows "check_duplicates bl bl \<noteq> None"
proof -
  from mem obtain q where q: "q < length bl" "bl ! q = JObj []"
    by (auto simp: in_set_conv_nth)
  from mem have "bl \<noteq> []" by auto
  then have hd: "hd bl \<in> set bl" by simp
  with shape have "hd bl = JObj [] \<or> good_entry (hd bl)" by blast
  from hd duplicates_entry_with_empty[OF q this] show ?thesis
    by (rule check_duplicates_hit)
qed

lemma bad_backends_duplicates:
  assumes bad: "bad_backends bl"
      and shape: "\<forall>e\<in>set bl. e = JObj [] \<or> good_entry e"
  shows "check_duplicates bl bl \<noteq> None"
proof (cases "JObj [] \<in> set bl")
  case True
  with shape show ?thesis by (rule with_empty_rejected)
next
  case False
  with shape have good: "\<forall>e\<in>set bl. good_entry e" by auto
  have no3: "\<forall>e\<in>set bl. single_key_object e"
    using good by (simp add: good_single)
  have no4: "\<forall>e\<in>set bl. JNull \<notin> entry_outputs e"
    using good by (simp add: good_no_null)
  from bad show ?thesis unfolding bad_backends_def
  proof (elim disjE exE conjE)
    fix i j
    assume "i < length bl" "j < length bl" "i \<noteq> j"
       "entry_names (bl ! i) \<inter> entry_names (bl ! j) \<noteq> {}"
    then show ?thesis using all_good_clash[OF good, of i j] by simp
  next
    fix i j
    assume "i < length bl" "j < length bl" "i \<noteq> j"
       "entry_outputs (bl ! i) \<inter> entry_outputs (bl ! j) \<noteq> {}"
    then show ?thesis using all_good_clash[OF good, of i j] by simp
  next
    assume "\<exists>e\<in>set bl. \<not> single_key_object e"
    with no3 show ?thesis by simp
  next
    assume "\<exists>e\<in>set bl. JNull \<in> entry_outputs e"
    with no4 show ?thesis by simp
  qed
qed

lemma bad_backends_rejected:
  assumes "bad_backends bl"
  shows "and_then (check_backend_entries bl bl) (check_duplicates bl bl) \<noteq> None"
proof (cases "check_backend_entries bl bl")
  case (Some e)
  then show ?thesis by (simp add: and_then_def)
next
  case None
  then have "\<forall>e\<in>set bl. e = JObj [] \<or> good_entry e"
    by (rule check_backend_entries_None)
  with assms have "check_duplicates bl bl \<noteq> None" by (rule bad_backends_duplicates)
  with None show ?thesis by (simp add: and_then_def)
qed

lemma validate_checks_backends:
  "check_backends desc \<noteq> None \<Longrightarrow> validate_checks (JObj desc) \<noteq> None"
  by (simp add: validate_checks_def and_then_None)

text \<open>
  C3. Validation of a project whose \<^verbatim>\<open>backends\<close> list has two entries with the same
  backend name, or two entries with the same output path, or an entry that is not a
  single-key object, or an entry with a null output, fails with the result
  \<^verbatim>\<open>PROJECT_VALIDATION_FAILED\<close>.
\<close>

theorem validate_project_bad_backends:
  assumes "dict_get projects project_name = JObj desc"
      and "dict_get desc ''backends'' = JList bl"
      and "bad_backends bl"
  shows "snd (validate_project projects project_name) = Inl (VerHelError PROJECT_VALIDATION_FAILED)"
proof -
  from assms(2) bad_backends_rejected[OF assms(3)] have "check_backends desc \<noteq> None"
    by (simp add: check_backends_def)
  then have "validate_checks (JObj desc) \<noteq> None" by (rule validate_checks_backends)
  with assms(1) show ?thesis
    by (auto simp: validate_project_def Let_def split: option.splits)
qed


theorem validate_project_bad_backends_witness:
  "snd (validate_project
     [(''demo'', JObj [(''backends'',
         JList [JObj [(''cpp'', JStr ''a.hpp'')], JObj [(''cpp'', JStr ''b.hpp'')]])])]
     ''demo'') = Inl (VerHelError PROJECT_VALIDATION_FAILED)"
proof -
  have "bad_backends [JObj [(''cpp'', JStr ''a.hpp'')], JObj [(''cpp'', JStr ''b.hpp'')]]"
    unfolding bad_backends_def
    by (rule disjI1, rule exI[of _ 0], simp add: entry_names_def, rule exI[of _ 1], simp)
  then show ?thesis
    by (intro validate_project_bad_backends
          [of _ _ "[(''backends'',
              JList [JObj [(''cpp'', JStr ''a.hpp'')], JObj [(''cpp'', JStr ''b.hpp'')]])]"
              "[JObj [(''cpp'', JStr ''a.hpp'')], JObj [(''cpp'', JStr ''b.hpp'')]]"])
       (simp_all add: dict_get_Cons)
qed

section \<open>Keys outside the empty project\<close>

lemma dict_get_pop_other: "k' \<noteq> k \<Longrightarrow> dict_get (dict_pop d k) k' = dict_get d k'"
  by (induction d) (auto simp: dict_pop_def dict_get_def)

lemma dict_get_pop_same: "dict_get (dict_pop d k) k = JNull"
  by (induction d) (auto simp: dict_pop_def dict_get_def)

lemma check_cong: "dict_get d key = dict_get d' key \<Longrightarrow> check d key t = check d' key t"
  by (simp add: check_def)

lemma check_backends_cong:
  "dict_get d ''backends'' = dict_get d' ''backends'' \<Longrightarrow> check_backends d = check_backends d'"
  unfolding check_backends_def using check_cong[of d "''backends''" d' py_list]
  by (simp split: json.splits)

lemma check_null_or_str:
  "dict_get d key = JNull \<or> (\<exists>s. dict_get d key = JStr s) \<Longrightarrow> check d key py_string = None"
  by (auto simp: check_def)

lemma dangling_neq:
  assumes "k \<notin> set (dict_keys empty_project)"
  shows "k \<noteq> ''backends''" "k \<noteq> ''exclude''" "k \<noteq> ''frontend''" "k \<noteq> ''license.spdx''"
    "k \<noteq> ''license.file''" "k \<noteq> ''project.name''" "k \<noteq> ''project.author''"
    "k \<noteq> ''project.copyright''" "k \<noteq> ''project.description''" "k \<noteq> ''project.directory''"
    "k \<noteq> ''version.major''" "k \<noteq> ''version.minor''" "k \<noteq> ''version.patch''"
    "k \<noteq> ''version.pre_release''"
  using assms by (auto simp: empty_project_def dict_keys_def)

lemma validate_checks_pop:
  assumes k: "k \<notin> set (dict_keys empty_project)"
      and c: "k = ''project.company'' \<longrightarrow> dict_get d k = JNull \<or> (\<exists>s. dict_get d k = JStr s)"
  shows "validate_checks (JObj (dict_pop d k)) = validate_checks (JObj d)"
proof -
  note n = dangling_neq[OF k]
  have g: "\<And>key. key \<noteq> k \<Longrightarrow> dict_get (dict_pop d k) key = dict_get d key"
    by (simp add: dict_get_pop_other)
  have co: "check (dict_pop d k) ''project.company'' py_string = check d ''project.company'' py_string"
  proof (cases "k = ''project.company''")
    case True
    with c have "check d ''project.company'' py_string = None" by (simp add: check_null_or_str)
    moreover have "check (dict_pop d k) ''project.company'' py_string = None"
      using True by (simp add: check_null_or_str dict_get_pop_same)
    ultimately show ?thesis by simp
  next
    case False
    then show ?thesis by (intro check_cong g) simp
  qed
  have b: "check_backends (dict_pop d k) = check_backends d"
    using n by (intro check_backends_cong g) simp
  have ch: "\<And>key t. k \<noteq> key \<Longrightarrow> check (dict_pop d k) key t = check d key t"
    by (intro check_cong g) simp
  show ?thesis
    unfolding validate_checks_def json.case
    using n by (simp add: co b ch)
qed


lemma dangling_logged:
  assumes "k \<notin> set (dict_keys empty_project)" and "k \<in> set (dict_keys d)"
      and "dict_get projects name = JObj d"
      and "snd (validate_project projects name) = Inr ()"
  shows "(WARNING, ''dangling property '' @ quoted k) \<in> set (fst (validate_project projects name))"
  using assms
  by (auto simp: validate_project_def Let_def dangling_warnings_def split: option.splits)

text \<open>
  C5 as stated fails: \<^verbatim>\<open>project.company\<close> is not a key of \<^verbatim>\<open>empty_project()\<close>, yet
  \<^verbatim>\<open>validate_project\<close> type-checks it, so a descriptor that only holds
  \<^verbatim>\<open>project.company = 5\<close> fails validation, while the descriptor without that key passes.
\<close>

theorem dangling_company_counterexample:
  "''project.company'' \<notin> set (dict_keys empty_project)
   \<and> snd (validate_project [(''demo'', JObj [(''project.company'', JInt 5)])] ''demo'') =
       Inl (VerHelError PROJECT_VALIDATION_FAILED)
   \<and> snd (validate_project [(''demo'', JObj [])] ''demo'') = Inr ()"
  by (simp add: empty_project_def dict_keys_def validate_project_def validate_checks_def
        check_def check_backends_def dict_get_Cons dict_get_Nil and_then_def Let_def)

text \<open>
  C5, amended. Let \<open>k\<close> be a key that \<^verbatim>\<open>empty_project()\<close> lacks and, when \<open>k\<close> is
  \<^verbatim>\<open>project.company\<close>, let its value be null or a string. Then validation of a
  descriptor gives the same verdict as validation of the descriptor without \<open>k\<close>, and
  when the descriptor holds \<open>k\<close> and validation succeeds, the warning
  \<^verbatim>\<open>dangling property 'k'\<close> is logged.
\<close>

theorem validate_project_dangling_key:
  assumes k: "k \<notin> set (dict_keys empty_project)"
      and c: "k = ''project.company'' \<longrightarrow> dict_get d k = JNull \<or> (\<exists>s. dict_get d k = JStr s)"
  shows "snd (validate_project (dict_set projects name (JObj d)) name) =
         snd (validate_project (dict_set projects name (JObj (dict_pop d k))) name)
       \<and> (k \<in> set (dict_keys d) \<and>
          snd (validate_project (dict_set projects name (JObj d)) name) = Inr () \<longrightarrow>
          (WARNING, ''dangling property '' @ quoted k)
            \<in> set (fst (validate_project (dict_set projects name (JObj d)) name)))"
proof (intro conjI impI)
  show "snd (validate_project (dict_set projects name (JObj d)) name) =
         snd (validate_project (dict_set projects name (JObj (dict_pop d k))) name)"
    using validate_checks_pop[OF k c]
    by (simp add: validate_project_def Let_def dict_get_set_same split: option.splits)
next
  assume "k \<in> set (dict_keys d) \<and>
          snd (validate_project (dict_set projects name (JObj d)) name) = Inr ()"
  then show "(WARNING, ''dangling property '' @ quoted k)
           \<in> set (fst (validate_project (dict_set projects name (JObj d)) name))"
    using k by (intro dangling_logged[of k d]) (simp_all add: dict_get_set_same)
qed

theorem validate_project_dangling_key_witness:
  "snd (validate_project [(''demo'', JObj [(''version.major'', JInt 1), (''vendor'', JInt 5)])]
          ''demo'') = Inr ()
   \<and> (WARNING, ''dangling property '' @ quoted ''vendor'')
       \<in> set (fst (validate_project
             [(''demo'', JObj [(''version.major'', JInt 1), (''vendor'', JInt 5)])] ''demo''))"
  using validate_project_dangling_key [of "''vendor''"
      "[(''version.major'', JInt 1), (''vendor'', JInt 5)]" "[]" "''demo''"]
  by (simp add: empty_project_def dict_keys_def dict_pop_def validate_project_def
        validate_checks_def check_def check_backends_def dict_get_Cons dict_get_Nil
        and_then_def Let_def)

section \<open>Global fallback only fills null fields\<close>

lemma dict_keys_set: "k \<in> set (dict_keys d) \<Longrightarrow> dict_keys (dict_set d k v) = dict_keys d"
  by (induction d) (auto simp: dict_keys_def)

lemma dict_get_set: "dict_get (dict_set d k v) k' = (if k' = k then v else dict_get d k')"
  by (simp add: dict_get_set_same dict_get_set_other)

lemma use_global_loop_correct:
  assumes "dict_get projects pn = JObj desc"
      and "dict_get projects gn = JObj glob"
      and "set ks \<subseteq> set (dict_keys desc)"
  shows "\<exists>projects' desc'.
           snd (use_global_loop projects pn gn ks) = Inr projects'
         \<and> dict_get projects' pn = JObj desc'
         \<and> dict_keys desc' = dict_keys desc
         \<and> (\<forall>n. n \<noteq> pn \<longrightarrow> dict_get projects' n = dict_get projects n)
         \<and> (\<forall>k. dict_get desc' k =
               (if k \<in> set ks \<and> dict_get desc k = JNull then dict_get glob k else dict_get desc k))"
  using assms
proof (induction ks arbitrary: projects desc glob)
  case Nil
  then show ?case by simp
next
  case (Cons key ks)
  show ?case
  proof (cases "dict_get desc key = JNull")
    case False
    from Cons.prems have sub: "set ks \<subseteq> set (dict_keys desc)" by simp
    from Cons.IH[OF Cons.prems(1) Cons.prems(2) sub]
    obtain projects' desc' where r: "snd (use_global_loop projects pn gn ks) = Inr projects'"
      "dict_get projects' pn = JObj desc'" "dict_keys desc' = dict_keys desc"
      "\<forall>n. n \<noteq> pn \<longrightarrow> dict_get projects' n = dict_get projects n"
      "\<forall>k. dict_get desc' k =
               (if k \<in> set ks \<and> dict_get desc k = JNull then dict_get glob k else dict_get desc k)"
      by blast
    have "snd (use_global_loop projects pn gn (key # ks)) = Inr projects'"
      using False Cons.prems(1) r(1) by simp
    moreover have "\<forall>k. dict_get desc' k =
               (if k \<in> set (key # ks) \<and> dict_get desc k = JNull then dict_get glob k else dict_get desc k)"
      using r(5) False by auto
    ultimately show ?thesis using r(2,3,4) by blast
  next
    case True
    define desc1 where "desc1 = dict_set desc key (dict_get glob key)"
    define projects1 where "projects1 = dict_set projects pn (JObj desc1)"
    define glob1 where "glob1 = (if gn = pn then desc1 else glob)"
    have p1: "dict_get projects1 pn = JObj desc1"
      by (simp add: projects1_def dict_get_set_same)
    have g1: "dict_get projects1 gn = JObj glob1"
      using Cons.prems(2) by (simp add: projects1_def glob1_def dict_get_set)
    from Cons.prems(3) have keyin: "key \<in> set (dict_keys desc)" by simp
    have k1: "dict_keys desc1 = dict_keys desc"
      unfolding desc1_def using keyin by (rule dict_keys_set)
    with Cons.prems(3) have sub: "set ks \<subseteq> set (dict_keys desc1)" by simp
    from Cons.IH[OF p1 g1 sub]
    obtain projects' desc' where r: "snd (use_global_loop projects1 pn gn ks) = Inr projects'"
      "dict_get projects' pn = JObj desc'" "dict_keys desc' = dict_keys desc1"
      "\<forall>n. n \<noteq> pn \<longrightarrow> dict_get projects' n = dict_get projects1 n"
      "\<forall>k. dict_get desc' k =
               (if k \<in> set ks \<and> dict_get desc1 k = JNull then dict_get glob1 k else dict_get desc1 k)"
      by blast
    have step: "snd (use_global_loop projects pn gn (key # ks)) = Inr projects'"
      using True Cons.prems(1,2) r(1) by (simp add: Let_def projects1_def desc1_def)
    have frame: "\<forall>n. n \<noteq> pn \<longrightarrow> dict_get projects' n = dict_get projects n"
      using r(4) by (simp add: projects1_def dict_get_set)
    have same: "gn = pn \<Longrightarrow> glob = desc"
      using Cons.prems(1,2) by simp
    have vals: "\<forall>k. dict_get desc' k =
               (if k \<in> set (key # ks) \<and> dict_get desc k = JNull then dict_get glob k else dict_get desc k)"
    proof
      fix k
      show "dict_get desc' k =
               (if k \<in> set (key # ks) \<and> dict_get desc k = JNull then dict_get glob k else dict_get desc k)"
      proof (cases "gn = pn")
        case True
        then show ?thesis using r(5) same \<open>dict_get desc key = JNull\<close>
          by (auto simp: glob1_def desc1_def dict_get_set)
      next
        case False
        then show ?thesis using r(5) \<open>dict_get desc key = JNull\<close>
          by (auto simp: glob1_def desc1_def dict_get_set)
      qed
    qed
    show ?thesis using step r(2) r(3) k1 frame vals by auto
  qed
qed


text \<open>
  C2. When the project descriptor and the global descriptor are both objects of the
  store, \<^verbatim>\<open>use_global_desc_values\<close> returns; afterwards the project descriptor has the
  same keys in the same order, every key whose value was null holds the global
  descriptor's value for that key (null when the global descriptor lacks it), every key
  whose value was not null keeps its value, and the other entries of the store are
  unchanged.
\<close>

theorem use_global_desc_values_fallback:
  assumes "dict_get projects project_name = JObj desc"
      and "dict_get projects (case glob_name_opt of None \<Rightarrow> GLOBAL_DESC_NAME | Some n \<Rightarrow> n) =
             JObj glob_desc"
  shows "\<exists>projects' desc'.
           snd (use_global_desc_values projects project_name glob_name_opt) = Inr projects'
         \<and> dict_get projects' project_name = JObj desc'
         \<and> dict_keys desc' = dict_keys desc
         \<and> (\<forall>k\<in>set (dict_keys desc). dict_get desc' k =
               (if dict_get desc k = JNull then dict_get glob_desc k else dict_get desc k))
         \<and> (\<forall>n. n \<noteq> project_name \<longrightarrow> dict_get projects' n = dict_get projects n)"
proof -
  define gn where "gn = (case glob_name_opt of None \<Rightarrow> GLOBAL_DESC_NAME | Some n \<Rightarrow> n)"
  from assms(2) have g: "dict_get projects gn = JObj glob_desc" by (simp add: gn_def)
  from use_global_loop_correct[OF assms(1) g subset_refl]
  obtain projects' desc' where r:
      "snd (use_global_loop projects project_name gn (dict_keys desc)) = Inr projects'"
      "dict_get projects' project_name = JObj desc'" "dict_keys desc' = dict_keys desc"
      "\<forall>n. n \<noteq> project_name \<longrightarrow> dict_get projects' n = dict_get projects n"
      "\<forall>k. dict_get desc' k =
            (if k \<in> set (dict_keys desc) \<and> dict_get desc k = JNull
             then dict_get glob_desc k else dict_get desc k)"
    by blast
  have run: "snd (use_global_desc_values projects project_name glob_name_opt) = Inr projects'"
    using assms(1) g r(1) by (simp add: use_global_desc_values_def Let_def gn_def)
  have vals: "\<forall>k\<in>set (dict_keys desc). dict_get desc' k =
               (if dict_get desc k = JNull then dict_get glob_desc k else dict_get desc k)"
    using r(5) by simp
  from run r(2) r(3) vals r(4) show ?thesis by blast
qed

theorem use_global_desc_values_fallback_witness:
  "snd (use_global_desc_values
      [(''demo'', JObj [(''version.major'', JNull), (''version.minor'', JInt 4),
                        (''project.author'', JNull)]),
       (''_Global'', JObj [(''version.major'', JInt 1), (''version.minor'', JInt 2),
                           (''license.spdx'', JStr ''MIT'')])]
      ''demo'' None) =
   Inr [(''demo'', JObj [(''version.major'', JInt 1), (''version.minor'', JInt 4),
                         (''project.author'', JNull)]),
        (''_Global'', JObj [(''version.major'', JInt 1), (''version.minor'', JInt 2),
                            (''license.spdx'', JStr ''MIT'')])]"
  using use_global_desc_values_fallback [of
      "[(''demo'', JObj [(''version.major'', JNull), (''version.minor'', JInt 4),
                        (''project.author'', JNull)]),
       (''_Global'', JObj [(''version.major'', JInt 1), (''version.minor'', JInt 2),
                           (''license.spdx'', JStr ''MIT'')])]"
      "''demo''"
      "[(''version.major'', JNull), (''version.minor'', JInt 4), (''project.author'', JNull)]"
      None
      "[(''version.major'', JInt 1), (''version.minor'', JInt 2),
        (''license.spdx'', JStr ''MIT'')]"]
  by (simp add: use_global_desc_values_def GLOBAL_DESC_NAME_def Let_def dict_keys_def
        dict_get_Cons dict_get_Nil)

section \<open>Properties of the renderer\<close>

lemma names_keyE: "names_key k var \<Longrightarrow> \<exists>emit rest. var = JObj ((k, emit) # rest)"
  by (auto simp: names_key_def split: json.splits list.splits)

lemma first_item_names_key: "names_key k var \<Longrightarrow> \<exists>emit. first_item var = Inr (k, emit)"
  by (auto simp: first_item_def dest!: names_keyE)

lemma write_variable_excluded:
  assumes "names_key k var" and "py_contains_str excluded_vars k = Inr True"
  shows "write_variable log w mem fn fs cooked excluded_vars var = (w, Inr [])"
proof -
  from first_item_names_key[OF assms(1)] obtain emit where "first_item var = Inr (k, emit)" ..
  with assms(2) show ?thesis by (simp add: write_variable_def)
qed

lemma write_variable_null:
  assumes "names_key k var" and "py_contains_str excluded_vars k = Inr False"
      and "dict_index cooked k = Inr JNull"
  shows "write_variable log w mem fn fs cooked excluded_vars var =
           (log w WARNING (''emiting value '' @ quoted k @ '' is null''), Inr [])"
proof -
  from first_item_names_key[OF assms(1)] obtain emit where "first_item var = Inr (k, emit)" ..
  with assms(2,3) show ?thesis by (simp add: write_variable_def)
qed

lemma map_sum_append_Nil: "map_sum id ((@) []) r = r"
  by (cases r) simp_all

lemma write_variables_skip:
  assumes "write_variable log w mem fn fs cooked ex var = (w1, Inr [])"
  shows "write_variables log w mem fn fs cooked ex (var # vars) =
         write_variables log w1 mem fn fs cooked ex vars"
  using assms by (simp add: map_sum_append_Nil split: prod.splits)

lemma write_variables_filter_excluded:
  assumes "py_contains_str ex k = Inr True"
  shows "write_variables log w mem fn fs cooked ex (filter (\<lambda>var. \<not> names_key k var) vars) =
         write_variables log w mem fn fs cooked ex vars"
proof (induction vars arbitrary: w)
  case Nil
  show ?case by simp
next
  case (Cons var vars)
  show ?case
  proof (cases "names_key k var")
    case True
    from write_variable_excluded[OF True assms]
    have "write_variables log w mem fn fs cooked ex (var # vars) =
          write_variables log w mem fn fs cooked ex vars"
      by (rule write_variables_skip)
    with True Cons.IH show ?thesis by simp
  next
    case False
    with Cons.IH show ?thesis by simp
  qed
qed

lemma snd_write_variable_indep:
  "snd (write_variable log1 w1 mem fn fs cooked ex var) =
   snd (write_variable log2 w2 mem fn fs cooked ex var)"
  by (simp add: write_variable_def split: sum.splits prod.splits bool.splits json.splits)

lemma snd_write_variables_indep:
  "snd (write_variables log1 w1 mem fn fs cooked ex vars) =
   snd (write_variables log2 w2 mem fn fs cooked ex vars)"
proof (induction vars arbitrary: w1 w2)
  case Nil
  show ?case by simp
next
  case (Cons var vars)
  obtain a r where s1: "write_variable log1 w1 mem fn fs cooked ex var = (a, r)"
    by (cases "write_variable log1 w1 mem fn fs cooked ex var")
  obtain b r' where s2: "write_variable log2 w2 mem fn fs cooked ex var = (b, r')"
    by (cases "write_variable log2 w2 mem fn fs cooked ex var")
  from snd_write_variable_indep[of log1 w1 mem fn fs cooked ex var log2 w2] s1 s2
  have rr: "r' = r" by simp
  show ?case
  proof (cases r)
    case (Inl err)
    with s1 s2 rr show ?thesis by simp
  next
    case (Inr body)
    from Cons.IH[of a b] Inr s1 s2 rr show ?thesis
      by (auto split: prod.splits)
  qed
qed

lemma write_variables_filter_null:
  assumes "py_contains_str ex k = Inr False" and "dict_index cooked k = Inr JNull"
  shows "snd (write_variables log w mem fn fs cooked ex (filter (\<lambda>var. \<not> names_key k var) vars)) =
         snd (write_variables log w mem fn fs cooked ex vars)"
proof (induction vars arbitrary: w)
  case Nil
  show ?case by simp
next
  case (Cons var vars)
  show ?case
  proof (cases "names_key k var")
    case True
    from write_variable_null[OF True assms]
    have "write_variables log w mem fn fs cooked ex (var # vars) =
          write_variables log (log w WARNING (''emiting value '' @ quoted k @ '' is null''))
            mem fn fs cooked ex vars"
      by (rule write_variables_skip)
    then have "snd (write_variables log w mem fn fs cooked ex (var # vars)) =
               snd (write_variables log w mem fn fs cooked ex vars)"
      using snd_write_variables_indep by metis
    with True Cons.IH show ?thesis by simp
  next
    case False
    obtain a r where s: "write_variable log w mem fn fs cooked ex var = (a, r)"
      by (cases "write_variable log w mem fn fs cooked ex var")
    from False Cons.IH[of a] s show ?thesis
      by (auto split: prod.splits sum.splits)
  qed
qed


lemma backend_get_var_map_set:
  "dict_get (dict_set backend ''var_map'' v) ''format.number'' = dict_get backend ''format.number''"
  "dict_get (dict_set backend ''var_map'' v) ''format.string'' = dict_get backend ''format.string''"
  "dict_get (dict_set backend ''var_map'' v) ''source.begin'' = dict_get backend ''source.begin''"
  "dict_get (dict_set backend ''var_map'' v) ''source.comment'' = dict_get backend ''source.comment''"
  "dict_get (dict_set backend ''var_map'' v) ''source.end'' = dict_get backend ''source.end''"
  "dict_get (dict_set backend ''var_map'' v) ''var_map'' = v"
  by (simp_all add: dict_get_set_other dict_get_set_same)

text \<open>The rest of \<^verbatim>\<open>backend_generate\<close> once the loop over \<^verbatim>\<open>var_map\<close> is done.\<close>

lemma backend_generate_list:
  assumes "dict_get backend ''var_map'' = JList vars"
  shows "backend_generate log w mem backend cooked lic ex =
     (case dict_index cooked ''license.spdx'' of
        Inl e \<Rightarrow> (w, Inl e)
      | Inr spdx \<Rightarrow>
          (case write_str (dict_get backend ''source.begin'') of
             Inl e \<Rightarrow> (w, Inl e)
           | Inr begin_text \<Rightarrow>
               (case write_variables log w mem (dict_get backend ''format.number'')
                       (dict_get backend ''format.string'') cooked ex vars of
                  (w', Inl e) \<Rightarrow> (w', Inl e)
                | (w', Inr body) \<Rightarrow>
                    (case write_str (dict_get backend ''source.end'') of
                       Inl e \<Rightarrow> (w', Inl e)
                     | Inr end_text \<Rightarrow>
                         (w', Inr (license_header (dict_get backend ''source.comment'') lic spdx @
                                   begin_text @ body @ end_text @ [CHR 0x0A] @
                                   py_str (dict_get backend ''source.comment'') @
                                   '' generated using verhel.py '' @
                                   py_str (dict_get backend ''source.comment'') @ [CHR 0x0A]))))))"
  using assms by (simp add: backend_generate_def Let_def py_iter_def split: sum.splits)

lemma backend_generate_without_key:
  assumes "dict_get backend ''var_map'' = JList vars"
  shows "backend_generate log w mem (without_key k backend) cooked lic ex =
     (case dict_index cooked ''license.spdx'' of
        Inl e \<Rightarrow> (w, Inl e)
      | Inr spdx \<Rightarrow>
          (case write_str (dict_get backend ''source.begin'') of
             Inl e \<Rightarrow> (w, Inl e)
           | Inr begin_text \<Rightarrow>
               (case write_variables log w mem (dict_get backend ''format.number'')
                       (dict_get backend ''format.string'') cooked ex
                       (filter (\<lambda>var. \<not> names_key k var) vars) of
                  (w', Inl e) \<Rightarrow> (w', Inl e)
                | (w', Inr body) \<Rightarrow>
                    (case write_str (dict_get backend ''source.end'') of
                       Inl e \<Rightarrow> (w', Inl e)
                     | Inr end_text \<Rightarrow>
                         (w', Inr (license_header (dict_get backend ''source.comment'') lic spdx @
                                   begin_text @ body @ end_text @ [CHR 0x0A] @
                                   py_str (dict_get backend ''source.comment'') @
                                   '' generated using verhel.py '' @
                                   py_str (dict_get backend ''source.comment'') @ [CHR 0x0A]))))))"
proof -
  let ?vars' = "filter (\<lambda>var. \<not> names_key k var) vars"
  have eq: "without_key k backend = dict_set backend ''var_map'' (JList ?vars')"
    using assms by (simp add: without_key_def)
  have "dict_get (dict_set backend ''var_map'' (JList ?vars')) ''var_map'' = JList ?vars'"
    by (simp add: dict_get_set_same)
  from backend_generate_list[OF this, of log w mem cooked lic ex]
  show ?thesis unfolding eq backend_get_var_map_set .
qed

lemma without_key_not_list:
  "\<forall>vars. dict_get backend ''var_map'' \<noteq> JList vars \<Longrightarrow> without_key k backend = backend"
  by (cases "dict_get backend ''var_map''") (simp_all add: without_key_def)

lemma backend_generate_excluded_eq:
  assumes "py_contains_str excluded_vars k = Inr True"
  shows "backend_generate log w mem (without_key k backend) cooked_info license_text excluded_vars =
         backend_generate log w mem backend cooked_info license_text excluded_vars"
proof (cases "\<exists>vars. dict_get backend ''var_map'' = JList vars")
  case True
  then obtain vars where v: "dict_get backend ''var_map'' = JList vars" ..
  show ?thesis
    unfolding backend_generate_without_key[OF v] backend_generate_list[OF v]
      write_variables_filter_excluded[OF assms] ..
next
  case False
  then have "without_key k backend = backend" by (intro without_key_not_list) simp
  then show ?thesis by simp
qed

text \<open>
  C7. When the key \<open>k\<close> is in \<^verbatim>\<open>excluded_vars\<close>, the loop body writes nothing and logs
  nothing for an entry of \<^verbatim>\<open>var_map\<close> for \<open>k\<close>, whatever \<^verbatim>\<open>cooked_info\<close> holds
  for \<open>k\<close> (a value, null, or no entry at all); the whole call gives the same result,
  text or exception, and the same log as with a \<^verbatim>\<open>var_map\<close> that has no entry for
  \<open>k\<close>.
\<close>

theorem backend_generate_excluded_key:
  assumes "py_contains_str excluded_vars k = Inr True"
  shows "backend_generate log w mem (without_key k backend) cooked_info license_text excluded_vars =
         backend_generate log w mem backend cooked_info license_text excluded_vars
       \<and> (\<forall>var. names_key k var \<longrightarrow>
            write_variable log w mem format_number format_string cooked_info excluded_vars var =
              (w, Inr []))"
  using assms by (simp add: backend_generate_excluded_eq write_variable_excluded)

lemma write_variable_record_grows:
  "\<exists>ws. fst (write_variable record_log w mem fn fs cooked ex var) = w @ ws"
  by (simp add: write_variable_def record_log_def
        split: sum.splits prod.splits bool.splits json.splits)

lemma write_variables_record_grows:
  "\<exists>ws. fst (write_variables record_log w mem fn fs cooked ex vars) = w @ ws"
proof (induction vars arbitrary: w)
  case Nil
  show ?case by simp
next
  case (Cons var vars)
  obtain a r where s: "write_variable record_log w mem fn fs cooked ex var = (a, r)"
    by (cases "write_variable record_log w mem fn fs cooked ex var")
  from write_variable_record_grows[of w mem fn fs cooked ex var] s
  obtain ws where a: "a = w @ ws" by auto
  show ?case
  proof (cases r)
    case (Inl err)
    with s a show ?thesis by simp
  next
    case (Inr body)
    from Cons.IH[of a] obtain ws' where
      "fst (write_variables record_log a mem fn fs cooked ex vars) = a @ ws'" ..
    with s a Inr show ?thesis by (auto split: prod.splits)
  qed
qed

lemma write_variables_warns:
  assumes ex: "py_contains_str ex k = Inr False" and null: "dict_index cooked k = Inr JNull"
  shows "write_variables record_log w mem fn fs cooked ex vars = (w', Inr body) \<Longrightarrow>
         var \<in> set vars \<Longrightarrow> names_key k var \<Longrightarrow>
         (WARNING, ''emiting value '' @ quoted k @ '' is null'') \<in> set w'"
proof (induction vars arbitrary: w body)
  case Nil
  then show ?case by simp
next
  case (Cons v vars)
  obtain a r where s: "write_variable record_log w mem fn fs cooked ex v = (a, r)"
    by (cases "write_variable record_log w mem fn fs cooked ex v")
  obtain b r' where t: "write_variables record_log a mem fn fs cooked ex vars = (b, r')"
    by (cases "write_variables record_log a mem fn fs cooked ex vars")
  from Cons.prems(1) s t obtain piece rest where r: "r = Inr piece" "r' = Inr rest" "b = w'"
    by (cases r; cases r') auto
  show ?case
  proof (cases "v = var")
    case True
    with Cons.prems(3) write_variable_null[OF _ ex null, of v record_log w mem fn fs] s
    have "a = w @ [(WARNING, ''emiting value '' @ quoted k @ '' is null'')]"
      by (simp add: record_log_def)
    moreover from write_variables_record_grows[of a mem fn fs cooked ex vars] t r(3)
    obtain ws where "w' = a @ ws" by auto
    ultimately show ?thesis by simp
  next
    case False
    with Cons.prems(2) have "var \<in> set vars" by simp
    from Cons.IH[OF _ this Cons.prems(3), of a rest] t r show ?thesis by simp
  qed
qed

lemma backend_generate_warns:
  assumes ex: "py_contains_str ex k = Inr False" and null: "dict_index cooked k = Inr JNull"
      and v: "dict_get backend ''var_map'' = JList vars"
      and var: "var \<in> set vars" "names_key k var"
      and ok: "backend_generate record_log w mem backend cooked lic ex = (w', Inr src)"
  shows "(WARNING, ''emiting value '' @ quoted k @ '' is null'') \<in> set w'"
proof -
  let ?fn = "dict_get backend ''format.number''" and ?fs = "dict_get backend ''format.string''"
  obtain b r where t: "write_variables record_log w mem ?fn ?fs cooked ex vars = (b, r)"
    by (cases "write_variables record_log w mem ?fn ?fs cooked ex vars")
  from ok t obtain body where "r = Inr body" "b = w'"
    unfolding backend_generate_list[OF v]
    by (cases r) (auto split: sum.splits)
  with t write_variables_warns[OF ex null _ var, of w mem ?fn ?fs w' body] show ?thesis by simp
qed

lemma backend_generate_null_eq:
  assumes "py_contains_str excluded_vars k = Inr False"
      and "dict_index cooked_info k = Inr JNull"
  shows "snd (backend_generate log w mem (without_key k backend) cooked_info license_text excluded_vars) =
         snd (backend_generate log w mem backend cooked_info license_text excluded_vars)"
proof (cases "\<exists>vars. dict_get backend ''var_map'' = JList vars")
  case True
  then obtain vars where v: "dict_get backend ''var_map'' = JList vars" ..
  let ?fn = "dict_get backend ''format.number''" and ?fs = "dict_get backend ''format.string''"
  obtain a r where s1: "write_variables log w mem ?fn ?fs cooked_info excluded_vars
                          (filter (\<lambda>var. \<not> names_key k var) vars) = (a, r)"
    by (cases "write_variables log w mem ?fn ?fs cooked_info excluded_vars
                          (filter (\<lambda>var. \<not> names_key k var) vars)")
  obtain b r' where s2: "write_variables log w mem ?fn ?fs cooked_info excluded_vars vars = (b, r')"
    by (cases "write_variables log w mem ?fn ?fs cooked_info excluded_vars vars")
  from write_variables_filter_null[OF assms, of log w mem ?fn ?fs vars] s1 s2
  have "r' = r" by simp
  with s1 s2 show ?thesis
    unfolding backend_generate_without_key[OF v] backend_generate_list[OF v]
    by (simp split: sum.splits)
next
  case False
  then have "without_key k backend = backend" by (intro without_key_not_list) simp
  then show ?thesis by simp
qed

text \<open>
  C6. Let the cooked value of the key \<open>k\<close> be null. Whether \<open>k\<close> is excluded or not,
  the call returns the same text (or raises the same exception) as with a
  \<^verbatim>\<open>var_map\<close> that has no entry for \<open>k\<close>: no line is written for \<open>k\<close>, so nothing, and
  in particular neither \<^verbatim>\<open>None\<close> nor \<^verbatim>\<open>null\<close>, is substituted for its value. When
  \<open>k\<close> is not excluded, so that the loop comes to emit it, the loop body for an entry
  for \<open>k\<close> writes nothing and logs the warning \<^verbatim>\<open>emiting value 'k' is null\<close>, and a
  call that returns, for a \<^verbatim>\<open>var_map\<close> with an entry for \<open>k\<close>, has logged that
  warning.
\<close>

theorem backend_generate_null_value:
  assumes "py_contains_str excluded_vars k = Inr excluded"
      and "dict_index cooked_info k = Inr JNull"
  shows "snd (backend_generate log w mem (without_key k backend) cooked_info license_text excluded_vars) =
         snd (backend_generate log w mem backend cooked_info license_text excluded_vars)
       \<and> (\<not> excluded \<longrightarrow>
            (\<forall>var. names_key k var \<longrightarrow>
               write_variable log w mem format_number format_string cooked_info excluded_vars var =
                 (log w WARNING (''emiting value '' @ quoted k @ '' is null''), Inr []))
          \<and> (\<forall>vars var w0 w' src.
               dict_get backend ''var_map'' = JList vars \<and> var \<in> set vars \<and> names_key k var \<and>
               backend_generate record_log w0 mem backend cooked_info license_text excluded_vars =
                 (w', Inr src) \<longrightarrow>
               (WARNING, ''emiting value '' @ quoted k @ '' is null'') \<in> set w'))"
proof (cases excluded)
  case True
  with assms(1) have "py_contains_str excluded_vars k = Inr True" by simp
  then have "backend_generate log w mem (without_key k backend) cooked_info license_text
               excluded_vars =
             backend_generate log w mem backend cooked_info license_text excluded_vars"
    by (rule backend_generate_excluded_eq)
  with True show ?thesis by simp
next
  case False
  with assms(1) have ne: "py_contains_str excluded_vars k = Inr False" by simp
  have c1: "snd (backend_generate log w mem (without_key k backend) cooked_info license_text
                   excluded_vars) =
            snd (backend_generate log w mem backend cooked_info license_text excluded_vars)"
    using ne assms(2) by (rule backend_generate_null_eq)
  have c2: "\<forall>var. names_key k var \<longrightarrow>
               write_variable log w mem format_number format_string cooked_info excluded_vars var =
                 (log w WARNING (''emiting value '' @ quoted k @ '' is null''), Inr [])"
    using ne assms(2) by (simp add: write_variable_null)
  have c3: "\<forall>vars var w0 w' src.
               dict_get backend ''var_map'' = JList vars \<and> var \<in> set vars \<and> names_key k var \<and>
               backend_generate record_log w0 mem backend cooked_info license_text excluded_vars =
                 (w', Inr src) \<longrightarrow>
               (WARNING, ''emiting value '' @ quoted k @ '' is null'') \<in> set w'"
    using backend_generate_warns[OF ne assms(2)] by blast
  from c1 c2 c3 show ?thesis by blast
qed

lemma demo_run_no_exclusion:
  "backend_generate record_log [] mem demo_backend demo_cooked None (JList []) =
     ([(WARNING, ''emiting value '' @ quoted ''vcs.tag'' @ '' is null'')],
      Inr (''begin'' @ [CHR 0x0A] @ ''MAJOR = 1'' @ [CHR 0x0A] @ ''NAME = DEMO'' @ [CHR 0x0A] @
           ''end'' @ [CHR 0x0A] @ [CHR 0x0A] @ ''# generated using verhel.py #'' @ [CHR 0x0A]))"
  by code_simp

lemma demo_run_name_excluded:
  "backend_generate record_log [] mem demo_backend demo_cooked None (JList [JStr ''project.name'']) =
     ([(WARNING, ''emiting value '' @ quoted ''vcs.tag'' @ '' is null'')],
      Inr (''begin'' @ [CHR 0x0A] @ ''MAJOR = 1'' @ [CHR 0x0A] @
           ''end'' @ [CHR 0x0A] @ [CHR 0x0A] @ ''# generated using verhel.py #'' @ [CHR 0x0A]))"
  by code_simp

theorem backend_generate_excluded_key_witness:
  "backend_generate record_log [] memory_a (without_key ''project.name'' demo_backend) demo_cooked None
     (JList [JStr ''project.name'']) =
     ([(WARNING, ''emiting value '' @ quoted ''vcs.tag'' @ '' is null'')],
      Inr (''begin'' @ [CHR 0x0A] @ ''MAJOR = 1'' @ [CHR 0x0A] @
           ''end'' @ [CHR 0x0A] @ [CHR 0x0A] @ ''# generated using verhel.py #'' @ [CHR 0x0A]))
   \<and> write_variable record_log [] memory_a (JStr ''{0} = {1}'') (JStr ''{0} = {1!u}'') demo_cooked
        (JList [JStr ''project.name'']) (JObj [(''project.name'', JStr ''NAME'')]) = ([], Inr [])"
  using backend_generate_excluded_key [where excluded_vars = "JList [JStr ''project.name'']"
      and k = "''project.name''" and log = record_log and w = "[]" and mem = memory_a and backend = demo_backend
      and cooked_info = demo_cooked and license_text = None
      and format_number = "JStr ''{0} = {1}''" and format_string = "JStr ''{0} = {1!u}''"]
    demo_run_name_excluded [of memory_a]
  by (simp add: py_contains_str_def names_key_def)

theorem backend_generate_null_value_witness:
  "snd (backend_generate record_log [] memory_a (without_key ''vcs.tag'' demo_backend) demo_cooked None
          (JList [])) =
     Inr (''begin'' @ [CHR 0x0A] @ ''MAJOR = 1'' @ [CHR 0x0A] @ ''NAME = DEMO'' @ [CHR 0x0A] @
          ''end'' @ [CHR 0x0A] @ [CHR 0x0A] @ ''# generated using verhel.py #'' @ [CHR 0x0A])
   \<and> write_variable record_log [] memory_a (JStr ''{0} = {1}'') (JStr ''{0} = {1!u}'') demo_cooked
        (JList []) (JObj [(''vcs.tag'', JStr ''TAG'')]) =
       ([(WARNING, ''emiting value '' @ quoted ''vcs.tag'' @ '' is null'')], Inr [])"
  using backend_generate_null_value [where excluded_vars = "JList []" and excluded = False
      and k = "''vcs.tag''" and log = record_log and w = "[]" and mem = memory_a and backend = demo_backend
      and cooked_info = demo_cooked and license_text = None
      and format_number = "JStr ''{0} = {1}''" and format_string = "JStr ''{0} = {1!u}''"]
    demo_run_no_exclusion [of memory_a]
  by (simp add: py_contains_str_def dict_index_def demo_cooked_def names_key_def record_log_def)

section \<open>The renderer and the memory\<close>
































section \<open>An accepted exit code gives the stripped output\<close>

lemma run_wrapper_accepted:
  assumes "accepts frontend cmd_name cmd ret" and "always_exits run_cmd cmd ret out"
  shows "\<exists>w'. run_wrapper max_str_digits log run_cmd w frontend frontend_name cmd_name OutStr =
              (w', Inr (JStr (py_strip out)))"
proof -
  from assms(1) obtain cmd_obj where o: "dict_get frontend cmd_name = JObj cmd_obj"
      "dict_get cmd_obj ''cmd'' = cmd" "cmd \<noteq> JNull"
      "py_contains_int (dict_get cmd_obj ''ret_codes'') ret = Inr True"
    unfolding accepts_def by blast
  let ?w1 = "log w INFO (''command '' @ quoted cmd_name @ '' ('' @ quoted (py_str cmd) @ '')'')"
  obtain w2 where "run_cmd ?w1 cmd = (w2, Inr (ret, out))"
    using assms(2) unfolding always_exits_def by (metis prod.collapse)
  with o show ?thesis
    by (simp add: run_wrapper_def Let_def)
qed

lemma query_returnsD:
  assumes "query_returns max_str_digits log run_cmd frontend frontend_name cmd_name ot"
  shows "\<exists>w' v. run_wrapper max_str_digits log run_cmd w frontend frontend_name cmd_name ot =
                (w', Inr v)"
proof -
  from assms obtain v where
    "snd (run_wrapper max_str_digits log run_cmd w frontend frontend_name cmd_name ot) = Inr v"
    unfolding query_returns_def by blast
  then show ?thesis
    by (cases "run_wrapper max_str_digits log run_cmd w frontend frontend_name cmd_name ot") auto
qed

text \<open>
  C4 as stated fails. With the bundled \<^verbatim>\<open>git\<close> frontend, on a machine where
  \<^verbatim>\<open>git describe\<close> exits with the accepted code 128 and prints nothing, the field
  \<^verbatim>\<open>tag\<close> of the result is the empty string, not null.
\<close>

theorem get_vcs_info_tag_counterexample:
  "snd (demo_runner [] (JStr ''git describe --tags --abbrev=0 --exact-match'')) = Inr (128, [])
   \<and> dict_get git_frontend ''get.tag'' =
       JObj [(''cmd'', JStr ''git describe --tags --abbrev=0 --exact-match''),
             (''ret_codes'', JList [JInt 0, JInt 128])]
   \<and> py_contains_int (JList [JInt 0, JInt 128]) 128 = Inr True
   \<and> snd (get_vcs_info 4300 record_log demo_runner [] git_frontend ''git'') =
       Inr [(''name'', JStr ''git''), (''commit_hash'', JStr ''c0ffee''),
            (''short_hash'', JStr ''c0ffee''), (''tag'', JStr []), (''branch'', JStr ''c0ffee''),
            (''commit_count'', JInt 42)]
   \<and> JStr [] \<noteq> JNull"
  by code_simp

text \<open>
  C4, amended. Let the \<^verbatim>\<open>get.tag\<close> command exit with a code that is in its accepted
  exit codes, zero or not, and let the commands of \<^verbatim>\<open>get.branch\<close> and
  \<^verbatim>\<open>get.commit_hash\<close> exit with accepted codes. Then in every result that
  \<^verbatim>\<open>get_vcs_info\<close> returns, the field \<^verbatim>\<open>tag\<close> is the stripped standard output of the
  command (the empty string when it printed nothing), and the fields \<^verbatim>\<open>branch\<close> and
  \<^verbatim>\<open>commit_hash\<close> are their stripped outputs. \<^verbatim>\<open>get_vcs_info\<close> does return a result
  when the two remaining queries, \<^verbatim>\<open>get.short_hash\<close> and \<^verbatim>\<open>get.commit_count\<close>, raise
  no exception.
\<close>

theorem get_vcs_info_accepted_tag:
  assumes tag: "accepts frontend ''get.tag'' tag_cmd tag_ret"
               "always_exits run_cmd tag_cmd tag_ret tag_out"
      and branch: "accepts frontend ''get.branch'' branch_cmd branch_ret"
               "always_exits run_cmd branch_cmd branch_ret branch_out"
      and hash: "accepts frontend ''get.commit_hash'' hash_cmd hash_ret"
               "always_exits run_cmd hash_cmd hash_ret hash_out"
  shows "(\<forall>w' info. get_vcs_info max_str_digits log run_cmd w frontend frontend_name = (w', Inr info) \<longrightarrow>
            dict_get info ''tag'' = JStr (py_strip tag_out)
          \<and> dict_get info ''branch'' = JStr (py_strip branch_out)
          \<and> dict_get info ''commit_hash'' = JStr (py_strip hash_out))
       \<and> (query_returns max_str_digits log run_cmd frontend frontend_name ''get.short_hash'' OutStr
          \<and> query_returns max_str_digits log run_cmd frontend frontend_name ''get.commit_count''
               OutInt \<longrightarrow>
          (\<exists>w' info. get_vcs_info max_str_digits log run_cmd w frontend frontend_name = (w', Inr info)
             \<and> dict_get info ''tag'' = JStr (py_strip tag_out)
             \<and> dict_get info ''branch'' = JStr (py_strip branch_out)
             \<and> dict_get info ''commit_hash'' = JStr (py_strip hash_out)))"
proof -
  have returned: "\<forall>w' info. get_vcs_info max_str_digits log run_cmd w frontend frontend_name =
            (w', Inr info) \<longrightarrow>
            dict_get info ''tag'' = JStr (py_strip tag_out)
          \<and> dict_get info ''branch'' = JStr (py_strip branch_out)
          \<and> dict_get info ''commit_hash'' = JStr (py_strip hash_out)"
  proof (intro allI impI)
  fix w' info
  assume ret: "get_vcs_info max_str_digits log run_cmd w frontend frontend_name = (w', Inr info)"
  from ret obtain w1 w2 w3 w4 w5 commit_hash short_hash tg br commit_count where
      r1: "run_wrapper max_str_digits log run_cmd (log w INFO ''geting info from version control'')
             frontend frontend_name ''get.commit_hash'' OutStr = (w1, Inr commit_hash)"
  and r3: "run_wrapper max_str_digits log run_cmd w2 frontend frontend_name ''get.tag'' OutStr =
             (w3, Inr tg)"
  and r4: "run_wrapper max_str_digits log run_cmd w3 frontend frontend_name ''get.branch'' OutStr =
             (w4, Inr br)"
  and info: "info = [(''name'', JStr frontend_name), (''commit_hash'', commit_hash),
                (''short_hash'', short_hash), (''tag'', tg), (''branch'', br),
                (''commit_count'', commit_count)]"
    unfolding get_vcs_info_def
    by (auto split: prod.splits sum.splits)
  from run_wrapper_accepted[OF hash, of max_str_digits log
         "log w INFO ''geting info from version control''" frontend_name] r1
  have "commit_hash = JStr (py_strip hash_out)" by auto
  moreover from run_wrapper_accepted[OF tag, of max_str_digits log w2 frontend_name] r3
  have "tg = JStr (py_strip tag_out)" by auto
  moreover from run_wrapper_accepted[OF branch, of max_str_digits log w3 frontend_name] r4
  have "br = JStr (py_strip branch_out)" by auto
  ultimately show "dict_get info ''tag'' = JStr (py_strip tag_out)
          \<and> dict_get info ''branch'' = JStr (py_strip branch_out)
          \<and> dict_get info ''commit_hash'' = JStr (py_strip hash_out)"
    using info by (simp add: dict_get_Cons)
  qed
  have returns: "query_returns max_str_digits log run_cmd frontend frontend_name ''get.short_hash''
            OutStr
          \<and> query_returns max_str_digits log run_cmd frontend frontend_name ''get.commit_count''
               OutInt \<longrightarrow>
          (\<exists>w' info. get_vcs_info max_str_digits log run_cmd w frontend frontend_name = (w', Inr info)
             \<and> dict_get info ''tag'' = JStr (py_strip tag_out)
             \<and> dict_get info ''branch'' = JStr (py_strip branch_out)
             \<and> dict_get info ''commit_hash'' = JStr (py_strip hash_out))"
  proof (rule impI)
  assume q: "query_returns max_str_digits log run_cmd frontend frontend_name ''get.short_hash'' OutStr
          \<and> query_returns max_str_digits log run_cmd frontend frontend_name ''get.commit_count''
               OutInt"
  from run_wrapper_accepted[OF hash] obtain w1 where
    r1: "run_wrapper max_str_digits log run_cmd (log w INFO ''geting info from version control'')
           frontend frontend_name ''get.commit_hash'' OutStr = (w1, Inr (JStr (py_strip hash_out)))"
    by blast
  from query_returnsD[of max_str_digits log run_cmd frontend frontend_name "''get.short_hash''"
         OutStr w1] q obtain w2 short_hash where
    r2: "run_wrapper max_str_digits log run_cmd w1 frontend frontend_name ''get.short_hash'' OutStr =
           (w2, Inr short_hash)"
    by blast
  from run_wrapper_accepted[OF tag] obtain w3 where
    r3: "run_wrapper max_str_digits log run_cmd w2 frontend frontend_name ''get.tag'' OutStr =
           (w3, Inr (JStr (py_strip tag_out)))"
    by blast
  from run_wrapper_accepted[OF branch] obtain w4 where
    r4: "run_wrapper max_str_digits log run_cmd w3 frontend frontend_name ''get.branch'' OutStr =
           (w4, Inr (JStr (py_strip branch_out)))"
    by blast
  from query_returnsD[of max_str_digits log run_cmd frontend frontend_name "''get.commit_count''"
         OutInt w4] q obtain w5 commit_count where
    r5: "run_wrapper max_str_digits log run_cmd w4 frontend frontend_name ''get.commit_count''
           OutInt = (w5, Inr commit_count)"
    by blast
  have "get_vcs_info max_str_digits log run_cmd w frontend frontend_name =
          (log w5 INFO ''finished getting vcs info'',
           Inr [(''name'', JStr frontend_name), (''commit_hash'', JStr (py_strip hash_out)),
                (''short_hash'', short_hash), (''tag'', JStr (py_strip tag_out)),
                (''branch'', JStr (py_strip branch_out)), (''commit_count'', commit_count)])"
    by (simp add: get_vcs_info_def r1 r2 r3 r4 r5)
  then show "\<exists>w' info. get_vcs_info max_str_digits log run_cmd w frontend frontend_name = (w', Inr info)
             \<and> dict_get info ''tag'' = JStr (py_strip tag_out)
             \<and> dict_get info ''branch'' = JStr (py_strip branch_out)
             \<and> dict_get info ''commit_hash'' = JStr (py_strip hash_out)"
    by (simp add: dict_get_Cons)
  qed
  from returned returns show ?thesis by (rule conjI)
qed

lemma demo_commit_count: "parse_int 4300 ''42'' = Inr 42"
  by code_simp

lemma demo_strip_count: "py_strip (''42'' @ [CHR 0x0A]) = ''42''"
  by code_simp

theorem get_vcs_info_accepted_tag_witness:
  "\<exists>w' info. get_vcs_info 4300 record_log demo_runner [] git_frontend ''git'' = (w', Inr info)
     \<and> dict_get info ''tag'' = JStr (py_strip [])
     \<and> dict_get info ''branch'' = JStr (py_strip (''c0ffee'' @ [CHR 0x0A]))
     \<and> dict_get info ''commit_hash'' = JStr (py_strip (''c0ffee'' @ [CHR 0x0A]))"
proof -
  have tag: "accepts git_frontend ''get.tag''
               (JStr ''git describe --tags --abbrev=0 --exact-match'') 128"
    by (simp add: accepts_def git_frontend_def dict_get_Cons py_contains_int_def)
  have tag_run: "always_exits (demo_runner :: (log_entry list) runner)
               (JStr ''git describe --tags --abbrev=0 --exact-match'') 128 []"
    by (simp add: always_exits_def demo_runner_def)
  have branch: "accepts git_frontend ''get.branch'' (JStr ''git rev-parse --abbrev-ref HEAD'') 0"
    by (simp add: accepts_def git_frontend_def dict_get_Cons py_contains_int_def)
  have branch_run: "always_exits (demo_runner :: (log_entry list) runner)
               (JStr ''git rev-parse --abbrev-ref HEAD'') 0 (''c0ffee'' @ [CHR 0x0A])"
    by (simp add: always_exits_def demo_runner_def)
  have hash: "accepts git_frontend ''get.commit_hash'' (JStr ''git rev-parse HEAD'') 0"
    by (simp add: accepts_def git_frontend_def dict_get_Cons py_contains_int_def)
  have hash_run: "always_exits (demo_runner :: (log_entry list) runner)
               (JStr ''git rev-parse HEAD'') 0 (''c0ffee'' @ [CHR 0x0A])"
    by (simp add: always_exits_def demo_runner_def)
  have short: "query_returns 4300 record_log (demo_runner :: (log_entry list) runner)
               git_frontend ''git'' ''get.short_hash'' OutStr"
    by (simp add: query_returns_def run_wrapper_def git_frontend_def dict_get_Cons
          demo_runner_def py_contains_int_def Let_def)
  have count: "query_returns 4300 record_log (demo_runner :: (log_entry list) runner)
               git_frontend ''git'' ''get.commit_count'' OutInt"
    using demo_commit_count demo_strip_count
    by (simp add: query_returns_def run_wrapper_def git_frontend_def dict_get_Cons
          demo_runner_def py_contains_int_def Let_def)
  from get_vcs_info_accepted_tag[OF tag tag_run branch branch_run hash hash_run,
         of 4300 record_log "[]" "''git''"] short count
  show ?thesis by blast
qed

section \<open>Setting a version field to a value that is not an integer\<close>

lemma load_projects_ok:
  assumes "holds_projects e file_opt projects"
  shows "\<exists>w'. load_projects e w file_opt = (w @ w', Inr projects) \<and> list_all is_logged w'"
  using assms
  by (simp add: holds_projects_def load_projects_def load_from_file_def Let_def py_len_def
        log_event_def is_logged_def)

lemma check_if_project_exists_ok:
  assumes "dict_get projects name = JObj desc"
  shows "\<exists>w'. check_if_project_exists w projects name = (w @ w', Inr (JObj desc))
              \<and> list_all is_logged w'"
  using assms by (simp add: check_if_project_exists_def Let_def log_event_def is_logged_def)

lemma version_key_valid:
  assumes "key \<in> {''version.major'', ''version.minor'', ''version.patch''}"
  shows "check_if_name_is_valid w key = (w, Inr key)"
  using assms by (auto simp: check_if_name_is_valid_def empty_project_def dict_keys_def)

lemma set_assign_invalid:
  assumes "key \<in> {''version.major'', ''version.minor'', ''version.patch''}"
      and "parse_int max_str_digits new_value = Inl msg"
  shows "\<exists>w'. set_assign max_str_digits w projects name (JObj desc) key new_value =
              (w @ w', Inl (Inr INVALID_VALUE))
              \<and> list_all is_logged w'"
  using assms
  by (auto simp: set_assign_def dict_index_def default_project_def log_event_def is_logged_def)

text \<open>
  C10. Let the property be \<^verbatim>\<open>version.major\<close>, \<^verbatim>\<open>version.minor\<close> or
  \<^verbatim>\<open>version.patch\<close>, let the projects file hold a store in which the project has an
  object as its descriptor, and let the new value be a string for which \<^verbatim>\<open>int\<close>
  raises \<^verbatim>\<open>ValueError\<close>: it is not a decimal numeral, or it has more digits than the
  interpreter accepts. Then \<^verbatim>\<open>set\<close> returns \<^verbatim>\<open>INVALID_VALUE\<close>, the store in memory is the store loaded, and
  every event of the command is a log message: the projects file is not written.
\<close>

theorem set_invalid_integer:
  assumes key: "sa_property_name a \<in> {''version.major'', ''version.minor'', ''version.patch''}"
      and held: "holds_projects e (sa_projects_file a) projects"
      and proj: "dict_get projects (sa_project a) = JObj desc"
      and bad: "parse_int (m_max_str_digits e) (sa_new_value a) = Inl msg"
  shows "\<exists>w'. set_command e w a = (w @ w', projects, Inr INVALID_VALUE) \<and> list_all is_logged w'"
proof -
  define w0 where "w0 = log_event w INFO ''running set command''"
  have k: "check_if_name_is_valid w0 (sa_property_name a) = (w0, Inr (sa_property_name a))"
    using key by (rule version_key_valid)
  from load_projects_ok[OF held, of w0] obtain l1 where
    l: "load_projects e w0 (sa_projects_file a) = (w0 @ l1, Inr projects)" "list_all is_logged l1"
    by blast
  define w1 where "w1 = w0 @ l1"
  from check_if_project_exists_ok[OF proj, of w1] obtain l2 where
    c: "check_if_project_exists w1 projects (sa_project a) = (w1 @ l2, Inr (JObj desc))"
       "list_all is_logged l2"
    by blast
  define w2 where "w2 = w1 @ l2"
  from set_assign_invalid[OF key bad, of w2 projects "sa_project a" desc] obtain l3 where
    s: "set_assign (m_max_str_digits e) w2 projects (sa_project a) (JObj desc)
          (sa_property_name a) (sa_new_value a) = (w2 @ l3, Inl (Inr INVALID_VALUE))"
       "list_all is_logged l3"
    by blast
  have "set_command e w a = (w2 @ l3, projects, Inr INVALID_VALUE)"
    unfolding set_command_def Let_def w0_def[symmetric]
    by (simp only: k l(1) w1_def[symmetric] c(1) w2_def[symmetric] s(1) prod.case sum.case)
  moreover have "w2 @ l3 = w @ ([Logged INFO ''running set command''] @ l1 @ l2 @ l3)"
    by (simp add: w2_def w1_def w0_def log_event_def)
  moreover have "list_all is_logged ([Logged INFO ''running set command''] @ l1 @ l2 @ l3)"
    using l(2) c(2) s(2) by (simp add: is_logged_def)
  ultimately show ?thesis by metis
qed


theorem set_invalid_integer_witness:
  "snd (set_command demo_env []
          \<lparr>sa_project = ''demo'', sa_projects_file = None,
           sa_property_name = ''version.major'', sa_new_value = ''one''\<rparr>) =
     (demo_projects, Inr INVALID_VALUE)
   \<and> list_all is_logged (fst (set_command demo_env []
          \<lparr>sa_project = ''demo'', sa_projects_file = None,
           sa_property_name = ''version.major'', sa_new_value = ''one''\<rparr>))"
proof -
  let ?a = "\<lparr>sa_project = ''demo'', sa_projects_file = None,
             sa_property_name = ''version.major'', sa_new_value = ''one''\<rparr>"
  have h1: "sa_property_name ?a \<in> {''version.major'', ''version.minor'', ''version.patch''}"
    by simp
  have h2: "holds_projects demo_env (sa_projects_file ?a) demo_projects"
    by (simp add: holds_projects_def demo_env_def PROJECTS_DEFAULT_FILE_NAME_def)
  have h3: "dict_get demo_projects (sa_project ?a) =
      JObj [(''backends'', JList []), (''exclude'', JList []), (''frontend'', JNull),
            (''license.spdx'', JNull), (''license.file'', JNull),
            (''version.major'', JInt 0), (''version.minor'', JInt 1),
            (''version.patch'', JInt 0), (''version.pre_release'', JNull)]"
    by (simp add: demo_projects_def dict_get_Cons)
  have h4: "parse_int (m_max_str_digits demo_env) (sa_new_value ?a) =
      Inl (''invalid literal for int() with base 10: '' @ repr_str ''one'')"
    by code_simp
  from set_invalid_integer[OF h1 h2 h3 h4, of "[]"] obtain w' where
    "set_command demo_env [] ?a = ([] @ w', demo_projects, Inr INVALID_VALUE)"
    "list_all is_logged w'"
    by blast
  then show ?thesis by simp
qed

section \<open>Generating for a project without backends\<close>

lemma only_logged_refl: "only_logged w w"
  by (simp add: only_logged_def)

lemma only_logged_trans: "only_logged w w1 \<Longrightarrow> only_logged w1 w2 \<Longrightarrow> only_logged w w2"
  unfolding only_logged_def
proof (elim exE conjE)
  fix l l' assume "w1 = w @ l" "list_all is_logged l" "w2 = w1 @ l'" "list_all is_logged l'"
  then have "w2 = w @ (l @ l') \<and> list_all is_logged (l @ l')" by simp
  then show "\<exists>l. w2 = w @ l \<and> list_all is_logged l" by blast
qed

lemma only_logged_log_event: "only_logged w w' \<Longrightarrow> only_logged w (log_event w' t m)"
  unfolding only_logged_def log_event_def
proof (elim exE conjE)
  fix l assume "w' = w @ l" "list_all is_logged l"
  then have "w' @ [Logged t m] = w @ (l @ [Logged t m]) \<and> list_all is_logged (l @ [Logged t m])"
    by (simp add: is_logged_def)
  then show "\<exists>la. w' @ [Logged t m] = w @ la \<and> list_all is_logged la" by blast
qed

lemma only_logged_log_all: "only_logged w w' \<Longrightarrow> only_logged w (log_all w' entries)"
  unfolding only_logged_def log_all_def
proof (elim exE conjE)
  fix l assume a: "w' = w @ l" "list_all is_logged l"
  have "list_all is_logged (map (\<lambda>e. Logged (fst e) (snd e)) entries)"
    by (induction entries) (simp_all add: is_logged_def)
  with a have "w' @ map (\<lambda>e. Logged (fst e) (snd e)) entries =
                 w @ (l @ map (\<lambda>e. Logged (fst e) (snd e)) entries)
             \<and> list_all is_logged (l @ map (\<lambda>e. Logged (fst e) (snd e)) entries)"
    by simp
  then show "\<exists>la. w' @ map (\<lambda>e. Logged (fst e) (snd e)) entries = w @ la \<and> list_all is_logged la"
    by blast
qed

lemmas only_logged_intros = only_logged_refl only_logged_log_event only_logged_log_all

lemma then_w_only_logged:
  assumes "only_logged w (fst r)"
      and "\<And>w1 x. only_logged w w1 \<Longrightarrow> only_logged w (fst (f w1 x))"
  shows "only_logged w (fst (then_w r f))"
  using assms by (cases r) (auto simp: then_w_def split: sum.splits)

lemma load_from_file_logs: "only_logged w0 w \<Longrightarrow> only_logged w0 (fst (load_from_file e w f))"
  by (simp add: load_from_file_def Let_def only_logged_intros split: read_result.splits)

lemma load_projects_logs: "only_logged w0 w \<Longrightarrow> only_logged w0 (fst (load_projects e w f))"
proof -
  assume a: "only_logged w0 w"
  let ?fn = "case f of None \<Rightarrow> PROJECTS_DEFAULT_FILE_NAME | Some f \<Rightarrow> f"
  let ?w1 = "log_event w INFO (''loading projects description from '' @ quoted ?fn)"
  have "only_logged w0 (fst (load_from_file e ?w1 ?fn))"
    using a by (intro load_from_file_logs only_logged_intros)
  then show ?thesis
    by (cases "load_from_file e ?w1 ?fn")
       (auto simp: load_projects_def Let_def only_logged_intros split: option.splits sum.splits json.splits)
qed

lemma load_store_logs:
  "only_logged w0 w \<Longrightarrow> only_logged w0 (fst (load_store kind builtin code e w f))"
proof -
  assume a: "only_logged w0 w"
  show ?thesis
  proof (cases f)
    case None
    with a show ?thesis
      by (simp add: load_store_def Let_def py_len_def only_logged_intros)
  next
    case (Some fn)
    let ?w1 = "log_event w INFO (''loading '' @ kind @ '' from '' @ quoted fn)"
    have "only_logged w0 (fst (load_from_file e ?w1 fn))"
      using a by (intro load_from_file_logs only_logged_intros)
    with Some show ?thesis
      by (cases "load_from_file e ?w1 fn")
         (auto simp: load_store_def Let_def only_logged_intros split: option.splits sum.splits json.splits)
  qed
qed

lemma check_if_project_exists_logs:
  "only_logged w0 w \<Longrightarrow> only_logged w0 (fst (check_if_project_exists w projects name))"
  by (simp add: check_if_project_exists_def Let_def only_logged_intros)

lemma validate_project_w_logs:
  "only_logged w0 w \<Longrightarrow> only_logged w0 (fst (validate_project_w w projects name))"
  by (simp add: validate_project_w_def only_logged_intros)

lemma use_global_desc_values_w_logs:
  "only_logged w0 w \<Longrightarrow> only_logged w0 (fst (use_global_desc_values_w w projects name g))"
  by (simp add: use_global_desc_values_w_def only_logged_intros)

lemma validate_version_logs:
  "only_logged w0 w \<Longrightarrow> only_logged w0 (fst (validate_version w desc))"
  by (simp add: validate_version_def only_logged_intros split: json.splits)

lemma check_if_frontend_exists_logs:
  "only_logged w0 w \<Longrightarrow> only_logged w0 (fst (check_if_frontend_exists w frontends v))"
  by (simp add: check_if_frontend_exists_def Let_def only_logged_intros split: sum.splits)

lemma check_if_vcs_is_installed_logs:
  "only_logged w0 w \<Longrightarrow> only_logged w0 (fst (check_if_vcs_is_installed e w frontend))"
  by (simp add: check_if_vcs_is_installed_def Let_def only_logged_intros split: json.splits)

lemma load_and_validate_logs:
  "only_logged w0 w \<Longrightarrow> only_logged w0 (fst (load_and_validate e w a))"
  unfolding load_and_validate_def
  by (intro then_w_only_logged load_projects_logs check_if_project_exists_logs
        validate_project_w_logs validate_version_logs)
     (auto split: option.splits
           intro!: then_w_only_logged validate_project_w_logs use_global_desc_values_w_logs
                   validate_version_logs)

lemma load_frontend_logs:
  "only_logged w0 w \<Longrightarrow> only_logged w0 (fst (load_frontend e w a vcs))"
  unfolding load_frontend_def load_frontends_def
  by (auto intro!: then_w_only_logged load_store_logs check_if_frontend_exists_logs
                   check_if_vcs_is_installed_logs)


text \<open>
  C9 as stated fails. The project \<^verbatim>\<open>legacy\<close> passes validation and the version check
  and has an empty backends list, but its frontend \<^verbatim>\<open>svn\<close> is not among the frontends:
  \<^verbatim>\<open>generate\<close> returns \<^verbatim>\<open>FRONTEND_DOESNT_EXISTS\<close>, because the frontend is loaded and
  checked before the backends list is looked at.
\<close>

theorem generate_no_backends_counterexample:
  "snd (load_and_validate demo_env (log_event [] INFO ''running generate command'')
          \<lparr>ga_project = ''legacy'', ga_projects_file = None, ga_frontends_file = None,
           ga_backends_file = None, ga_global_desc_name = None, ga_emit_default = False,
           ga_fatal_if_backend_not_impl = False\<rparr>) = Inr demo_projects
   \<and> py_get (dict_get demo_projects ''legacy'') ''backends'' = Inr (JList [])
   \<and> snd (generate demo_env []
          \<lparr>ga_project = ''legacy'', ga_projects_file = None, ga_frontends_file = None,
           ga_backends_file = None, ga_global_desc_name = None, ga_emit_default = False,
           ga_fatal_if_backend_not_impl = False\<rparr>) = Inr FRONTEND_DOESNT_EXISTS"
  by code_simp

text \<open>
  C9, amended. When the first \<^verbatim>\<open>try\<close> block succeeds (the projects load, the project
  exists and validates, the global descriptor validates when one is named, and the
  version is present), when the block for the frontend succeeds (the frontend is null, or
  the frontends load, the frontend exists and its executable is found), and when the
  backends of the project are absent, null or an empty list, \<^verbatim>\<open>generate\<close> logs
  \<^verbatim>\<open>no backends found\<close> and \<^verbatim>\<open>nothing to do, terminating\<close> and returns
  \<^verbatim>\<open>SUCCESS\<close>; every event of the command is a log message, so no directory is
  entered or created, nothing is rendered and no file is written.
\<close>

theorem generate_no_backends:
  assumes ok: "load_and_validate e (log_event w INFO ''running generate command'') a =
                 (w1, Inr projects)"
      and desc: "dict_get projects (ga_project a) = JObj desc"
      and fe: "load_frontend e w1 a (dict_get desc ''frontend'') = (w2, Inr frontend)"
      and nb: "dict_get desc ''backends'' = JNull \<or> dict_get desc ''backends'' = JList []"
  shows "generate e w a =
           (log_event
              (log_event w2 WARNING (''no backends found in project '' @ quoted (ga_project a)))
              INFO ''nothing to do, terminating'',
            Inr SUCCESS)
       \<and> only_logged w (fst (generate e w a))"
proof
  show g: "generate e w a =
           (log_event
              (log_event w2 WARNING (''no backends found in project '' @ quoted (ga_project a)))
              INFO ''nothing to do, terminating'',
            Inr SUCCESS)"
    using nb
    by (auto simp: generate_def ok desc fe then_w_def return_error_code_def Let_def py_len_def)
  have "only_logged w (log_event w INFO ''running generate command'')"
    by (intro only_logged_intros)
  then have "only_logged w (fst (load_and_validate e (log_event w INFO ''running generate command'') a))"
    by (rule load_and_validate_logs)
  with ok have "only_logged w w1" by simp
  then have "only_logged w (fst (load_frontend e w1 a (dict_get desc ''frontend'')))"
    by (rule load_frontend_logs)
  with fe have "only_logged w w2" by simp
  then show "only_logged w (fst (generate e w a))"
    unfolding g by (simp add: only_logged_intros)
qed

theorem generate_no_backends_witness:
  "snd (generate demo_env []
          \<lparr>ga_project = ''demo'', ga_projects_file = None, ga_frontends_file = None,
           ga_backends_file = None, ga_global_desc_name = None, ga_emit_default = False,
           ga_fatal_if_backend_not_impl = False\<rparr>) = Inr SUCCESS
   \<and> list_all is_logged (fst (generate demo_env []
          \<lparr>ga_project = ''demo'', ga_projects_file = None, ga_frontends_file = None,
           ga_backends_file = None, ga_global_desc_name = None, ga_emit_default = False,
           ga_fatal_if_backend_not_impl = False\<rparr>))"
proof -
  let ?a = "\<lparr>ga_project = ''demo'', ga_projects_file = None, ga_frontends_file = None,
           ga_backends_file = None, ga_global_desc_name = None, ga_emit_default = False,
           ga_fatal_if_backend_not_impl = False\<rparr>"
  let ?d = "[(''backends'', JList []), (''exclude'', JList []), (''frontend'', JNull),
               (''license.spdx'', JNull), (''license.file'', JNull),
               (''version.major'', JInt 0), (''version.minor'', JInt 1),
               (''version.patch'', JInt 0), (''version.pre_release'', JNull)]"
  have s: "snd (load_and_validate demo_env (log_event [] INFO ''running generate command'') ?a) =
             Inr demo_projects"
    by code_simp
  then have ok: "load_and_validate demo_env (log_event [] INFO ''running generate command'') ?a =
      (fst (load_and_validate demo_env (log_event [] INFO ''running generate command'') ?a),
       Inr demo_projects)"
    by (simp add: prod_eq_iff)
  have desc: "dict_get demo_projects (ga_project ?a) = JObj ?d"
    by (simp add: demo_projects_def dict_get_Cons)
  have fe: "load_frontend demo_env
              (fst (load_and_validate demo_env (log_event [] INFO ''running generate command'') ?a))
              ?a (dict_get ?d ''frontend'') =
            (fst (load_and_validate demo_env (log_event [] INFO ''running generate command'') ?a),
             Inr JNull)"
    by (simp add: load_frontend_def dict_get_Cons)
  have nb: "dict_get ?d ''backends'' = JNull \<or> dict_get ?d ''backends'' = JList []"
    by (simp add: dict_get_Cons)
  from generate_no_backends[OF ok desc fe nb] show ?thesis
    by (auto simp: only_logged_def)
qed

end
